theory Spec2Isabelle
  imports Main
begin

section \<open>Strings as the converter sees them\<close>

text \<open>
  The converter (\<^verbatim>\<open>bed_to_json_converter.py\<close>) works on Python \<^verbatim>\<open>str\<close> values: sequences of
  Unicode code points, read from a UTF-8 file.  A string is modelled as the list of its code
  points (integers from 0 to 0x10FFFF); \<open>py ''...''\<close> is a literal of the source.  Where the
  interpreter consults the Unicode character database, the tables below are the ones of
  CPython 3.11 (Unicode 14.0): white space for \<^verbatim>\<open>str.strip\<close>, decimal digits for \<^verbatim>\<open>\d\<close> and
  \<^verbatim>\<open>int\<close>, digits for \<^verbatim>\<open>str.isdigit\<close>, and the case mappings.
\<close>

type_synonym ustring = "int list"

definition ch :: "char \<Rightarrow> int" where
  "ch c = of_char c"

definition py :: "string \<Rightarrow> ustring" where
  "py s = map ch s"

text \<open>A table of code-point ranges, both ends included.\<close>

definition in_runs :: "(int \<times> int) list \<Rightarrow> int \<Rightarrow> bool" where
  "in_runs rs c = list_ex (\<lambda>(lo, hi). lo \<le> c \<and> c \<le> hi) rs"

text \<open>\<^verbatim>\<open>str.isspace\<close> on one character.\<close>

definition space_runs :: "(int \<times> int) list" where
  "space_runs = [
     (0x9, 0xD), (0x1C, 0x20), (0x85, 0x85), (0xA0, 0xA0), (0x1680, 0x1680),
     (0x2000, 0x200A), (0x2028, 0x2029), (0x202F, 0x202F), (0x205F, 0x205F), (0x3000, 0x3000)]"

definition is_space :: "int \<Rightarrow> bool" where
  "is_space c = in_runs space_runs c"

text \<open>
  The decimal digits (category Nd): they come in runs of ten, zero to nine; the table lists
  the zero of each run.  \<^verbatim>\<open>\d\<close> in a \<^verbatim>\<open>str\<close> pattern matches exactly these characters and
  \<^verbatim>\<open>int\<close> reads each of them as its value.
\<close>

definition decimal_starts :: "int list" where
  "decimal_starts = [
     0x30, 0x660, 0x6F0, 0x7C0, 0x966, 0x9E6, 0xA66, 0xAE6,
     0xB66, 0xBE6, 0xC66, 0xCE6, 0xD66, 0xDE6, 0xE50, 0xED0,
     0xF20, 0x1040, 0x1090, 0x17E0, 0x1810, 0x1946, 0x19D0, 0x1A80,
     0x1A90, 0x1B50, 0x1BB0, 0x1C40, 0x1C50, 0xA620, 0xA8D0, 0xA900,
     0xA9D0, 0xA9F0, 0xAA50, 0xABF0, 0xFF10, 0x104A0, 0x10D30, 0x11066,
     0x110F0, 0x11136, 0x111D0, 0x112F0, 0x11450, 0x114D0, 0x11650, 0x116C0,
     0x11730, 0x118E0, 0x11950, 0x11C50, 0x11D50, 0x11DA0, 0x16A60, 0x16AC0,
     0x16B50, 0x1D7CE, 0x1D7D8, 0x1D7E2, 0x1D7EC, 0x1D7F6, 0x1E140, 0x1E2F0,
     0x1E950, 0x1FBF0]"

definition decimal_value :: "int \<Rightarrow> nat option" where
  "decimal_value c =
     (case find (\<lambda>z. z \<le> c \<and> c < z + 10) decimal_starts of
        Some z \<Rightarrow> Some (nat (c - z))
      | None \<Rightarrow> None)"

definition is_decimal :: "int \<Rightarrow> bool" where
  "is_decimal c = (decimal_value c \<noteq> None)"

text \<open>\<^verbatim>\<open>str.isdigit\<close> on one character: the decimal digits and the other digit characters.\<close>

definition isdigit_runs :: "(int \<times> int) list" where
  "isdigit_runs = [
     (0x30, 0x39), (0xB2, 0xB3), (0xB9, 0xB9), (0x660, 0x669), (0x6F0, 0x6F9),
     (0x7C0, 0x7C9), (0x966, 0x96F), (0x9E6, 0x9EF), (0xA66, 0xA6F), (0xAE6, 0xAEF),
     (0xB66, 0xB6F), (0xBE6, 0xBEF), (0xC66, 0xC6F), (0xCE6, 0xCEF), (0xD66, 0xD6F),
     (0xDE6, 0xDEF), (0xE50, 0xE59), (0xED0, 0xED9), (0xF20, 0xF29), (0x1040, 0x1049),
     (0x1090, 0x1099), (0x1369, 0x1371), (0x17E0, 0x17E9), (0x1810, 0x1819), (0x1946, 0x194F),
     (0x19D0, 0x19DA), (0x1A80, 0x1A89), (0x1A90, 0x1A99), (0x1B50, 0x1B59), (0x1BB0, 0x1BB9),
     (0x1C40, 0x1C49), (0x1C50, 0x1C59), (0x2070, 0x2070), (0x2074, 0x2079), (0x2080, 0x2089),
     (0x2460, 0x2468), (0x2474, 0x247C), (0x2488, 0x2490), (0x24EA, 0x24EA), (0x24F5, 0x24FD),
     (0x24FF, 0x24FF), (0x2776, 0x277E), (0x2780, 0x2788), (0x278A, 0x2792), (0xA620, 0xA629),
     (0xA8D0, 0xA8D9), (0xA900, 0xA909), (0xA9D0, 0xA9D9), (0xA9F0, 0xA9F9), (0xAA50, 0xAA59),
     (0xABF0, 0xABF9), (0xFF10, 0xFF19), (0x104A0, 0x104A9), (0x10A40, 0x10A43), (0x10D30, 0x10D39),
     (0x10E60, 0x10E68), (0x11052, 0x1105A), (0x11066, 0x1106F), (0x110F0, 0x110F9), (0x11136, 0x1113F),
     (0x111D0, 0x111D9), (0x112F0, 0x112F9), (0x11450, 0x11459), (0x114D0, 0x114D9), (0x11650, 0x11659),
     (0x116C0, 0x116C9), (0x11730, 0x11739), (0x118E0, 0x118E9), (0x11950, 0x11959), (0x11C50, 0x11C59),
     (0x11D50, 0x11D59), (0x11DA0, 0x11DA9), (0x16A60, 0x16A69), (0x16AC0, 0x16AC9), (0x16B50, 0x16B59),
     (0x1D7CE, 0x1D7FF), (0x1E140, 0x1E149), (0x1E2F0, 0x1E2F9), (0x1E950, 0x1E959), (0x1F100, 0x1F10A),
     (0x1FBF0, 0x1FBF9)]"

definition isdigit_char :: "int \<Rightarrow> bool" where
  "isdigit_char c = in_runs isdigit_runs c"

text \<open>\<^verbatim>\<open>[A-Za-z]\<close>.\<close>

definition is_ascii_alpha :: "int \<Rightarrow> bool" where
  "is_ascii_alpha c = ((65 \<le> c \<and> c \<le> 90) \<or> (97 \<le> c \<and> c \<le> 122))"

text \<open>\<^verbatim>\<open>s.isdigit()\<close>: non-empty and every character a digit.\<close>

definition py_isdigit :: "ustring \<Rightarrow> bool" where
  "py_isdigit s = (s \<noteq> [] \<and> list_all isdigit_char s)"

text \<open>\<^verbatim>\<open>s.startswith(p)\<close>.\<close>

definition startswith :: "ustring \<Rightarrow> ustring \<Rightarrow> bool" where
  "startswith s p = (take (length p) s = p)"

text \<open>\<^verbatim>\<open>sub in s\<close> for strings.\<close>

fun py_in :: "ustring \<Rightarrow> ustring \<Rightarrow> bool" where
  "py_in sub [] = (sub = [])"
| "py_in sub (c # cs) = (startswith (c # cs) sub \<or> py_in sub cs)"

text \<open>
  \<^verbatim>\<open>s.replace(old, new)\<close> for a non-empty \<^verbatim>\<open>old\<close> (the converter only replaces the literals
  \<^verbatim>\<open>%3D\<close>, \<^verbatim>\<open>chr\<close>, \<^verbatim>\<open>fs\<close> and \<^verbatim>\<open>ext\<close>): every non-overlapping occurrence, left to right.
\<close>

function py_replace :: "ustring \<Rightarrow> ustring \<Rightarrow> ustring \<Rightarrow> ustring" where
  "py_replace old new [] = []"
| "py_replace old new (c # cs) =
     (if old \<noteq> [] \<and> startswith (c # cs) old
      then new @ py_replace old new (drop (length old) (c # cs))
      else c # py_replace old new cs)"
  by pat_completeness auto
termination
  by (relation "measure (\<lambda>(old, new, s). length s)") auto

text \<open>\<^verbatim>\<open>s.split(sep)\<close> for a one-character separator.\<close>

fun py_split :: "int \<Rightarrow> ustring \<Rightarrow> ustring list" where
  "py_split sep [] = [[]]"
| "py_split sep (c # cs) =
     (if c = sep then [] # py_split sep cs
      else (case py_split sep cs of
              w # ws \<Rightarrow> (c # w) # ws
            | [] \<Rightarrow> [[c]]))"

text \<open>\<^verbatim>\<open>s.split(sep, 1)\<close>: at most one split, at the first separator.\<close>

definition py_split1 :: "int \<Rightarrow> ustring \<Rightarrow> ustring list" where
  "py_split1 sep s =
     (if sep \<in> set s
      then [takeWhile (\<lambda>c. c \<noteq> sep) s, tl (dropWhile (\<lambda>c. c \<noteq> sep) s)]
      else [s])"

text \<open>\<^verbatim>\<open>s.strip()\<close>.\<close>

definition py_strip :: "ustring \<Rightarrow> ustring" where
  "py_strip s = rev (dropWhile is_space (rev (dropWhile is_space s)))"

text \<open>\<^verbatim>\<open>d.get(key, default)\<close> on a dictionary given as a finite map.\<close>

definition dict_get :: "('k \<rightharpoonup> 'v) \<Rightarrow> 'k \<Rightarrow> 'v \<Rightarrow> 'v" where
  "dict_get d k dflt = (case d k of Some v \<Rightarrow> v | None \<Rightarrow> dflt)"


section \<open>Case mapping\<close>

text \<open>
  \<^verbatim>\<open>str.lower\<close>, \<^verbatim>\<open>str.upper\<close> and \<^verbatim>\<open>str.capitalize\<close> use the full case mappings: a character
  maps to one character or to a short string.  Below 128 the mapping is the ASCII one.  For
  the other code points a table holds the characters that change: an entry
  \<open>(a, n, k, d)\<close> stands for the \<open>n\<close> code points \<open>a\<close>, \<open>a + k\<close>, \<open>a + 2 * k\<close>, ...,
  each of which maps to itself plus \<open>d\<close>; a second table holds the characters that map to
  a string.
\<close>

type_synonym case_runs = "(int \<times> int \<times> int \<times> int) list"

definition case_map :: "case_runs \<Rightarrow> (int \<times> ustring) list \<Rightarrow> int \<Rightarrow> ustring" where
  "case_map rs ms c =
     (case map_of ms c of
        Some t \<Rightarrow> t
      | None \<Rightarrow>
          (case find (\<lambda>(a, n, k, d). a \<le> c \<and> c < a + n * k \<and> (c - a) mod k = 0) rs of
             Some (a, n, k, d) \<Rightarrow> [c + d]
           | None \<Rightarrow> [c]))"

definition lower_runs :: case_runs where
  "lower_runs = [
     (0xC0, 23, 1, 32), (0xD8, 7, 1, 32), (0x100, 24, 2, 1),
     (0x132, 3, 2, 1), (0x139, 8, 2, 1), (0x14A, 23, 2, 1),
     (0x178, 1, 1, - 121), (0x179, 3, 2, 1), (0x181, 1, 1, 210),
     (0x182, 2, 2, 1), (0x186, 1, 1, 206), (0x187, 1, 1, 1),
     (0x189, 2, 1, 205), (0x18B, 1, 1, 1), (0x18E, 1, 1, 79),
     (0x18F, 1, 1, 202), (0x190, 1, 1, 203), (0x191, 1, 1, 1),
     (0x193, 1, 1, 205), (0x194, 1, 1, 207), (0x196, 1, 1, 211),
     (0x197, 1, 1, 209), (0x198, 1, 1, 1), (0x19C, 1, 1, 211),
     (0x19D, 1, 1, 213), (0x19F, 1, 1, 214), (0x1A0, 3, 2, 1),
     (0x1A6, 1, 1, 218), (0x1A7, 1, 1, 1), (0x1A9, 1, 1, 218),
     (0x1AC, 1, 1, 1), (0x1AE, 1, 1, 218), (0x1AF, 1, 1, 1),
     (0x1B1, 2, 1, 217), (0x1B3, 2, 2, 1), (0x1B7, 1, 1, 219),
     (0x1B8, 1, 1, 1), (0x1BC, 1, 1, 1), (0x1C4, 1, 1, 2),
     (0x1C5, 1, 1, 1), (0x1C7, 1, 1, 2), (0x1C8, 1, 1, 1),
     (0x1CA, 1, 1, 2), (0x1CB, 9, 2, 1), (0x1DE, 9, 2, 1),
     (0x1F1, 1, 1, 2), (0x1F2, 2, 2, 1), (0x1F6, 1, 1, - 97),
     (0x1F7, 1, 1, - 56), (0x1F8, 20, 2, 1), (0x220, 1, 1, - 130),
     (0x222, 9, 2, 1), (0x23A, 1, 1, 10795), (0x23B, 1, 1, 1),
     (0x23D, 1, 1, - 163), (0x23E, 1, 1, 10792), (0x241, 1, 1, 1),
     (0x243, 1, 1, - 195), (0x244, 1, 1, 69), (0x245, 1, 1, 71),
     (0x246, 5, 2, 1), (0x370, 2, 2, 1), (0x376, 1, 1, 1),
     (0x37F, 1, 1, 116), (0x386, 1, 1, 38), (0x388, 3, 1, 37),
     (0x38C, 1, 1, 64), (0x38E, 2, 1, 63), (0x391, 17, 1, 32),
     (0x3A3, 9, 1, 32), (0x3CF, 1, 1, 8), (0x3D8, 12, 2, 1),
     (0x3F4, 1, 1, - 60), (0x3F7, 1, 1, 1), (0x3F9, 1, 1, - 7),
     (0x3FA, 1, 1, 1), (0x3FD, 3, 1, - 130), (0x400, 16, 1, 80),
     (0x410, 32, 1, 32), (0x460, 17, 2, 1), (0x48A, 27, 2, 1),
     (0x4C0, 1, 1, 15), (0x4C1, 7, 2, 1), (0x4D0, 48, 2, 1),
     (0x531, 38, 1, 48), (0x10A0, 38, 1, 7264), (0x10C7, 1, 1, 7264),
     (0x10CD, 1, 1, 7264), (0x13A0, 80, 1, 38864), (0x13F0, 6, 1, 8),
     (0x1C90, 43, 1, - 3008), (0x1CBD, 3, 1, - 3008), (0x1E00, 75, 2, 1),
     (0x1E9E, 1, 1, - 7615), (0x1EA0, 48, 2, 1), (0x1F08, 8, 1, - 8),
     (0x1F18, 6, 1, - 8), (0x1F28, 8, 1, - 8), (0x1F38, 8, 1, - 8),
     (0x1F48, 6, 1, - 8), (0x1F59, 4, 2, - 8), (0x1F68, 8, 1, - 8),
     (0x1F88, 8, 1, - 8), (0x1F98, 8, 1, - 8), (0x1FA8, 8, 1, - 8),
     (0x1FB8, 2, 1, - 8), (0x1FBA, 2, 1, - 74), (0x1FBC, 1, 1, - 9),
     (0x1FC8, 4, 1, - 86), (0x1FCC, 1, 1, - 9), (0x1FD8, 2, 1, - 8),
     (0x1FDA, 2, 1, - 100), (0x1FE8, 2, 1, - 8), (0x1FEA, 2, 1, - 112),
     (0x1FEC, 1, 1, - 7), (0x1FF8, 2, 1, - 128), (0x1FFA, 2, 1, - 126),
     (0x1FFC, 1, 1, - 9), (0x2126, 1, 1, - 7517), (0x212A, 1, 1, - 8383),
     (0x212B, 1, 1, - 8262), (0x2132, 1, 1, 28), (0x2160, 16, 1, 16),
     (0x2183, 1, 1, 1), (0x24B6, 26, 1, 26), (0x2C00, 48, 1, 48),
     (0x2C60, 1, 1, 1), (0x2C62, 1, 1, - 10743), (0x2C63, 1, 1, - 3814),
     (0x2C64, 1, 1, - 10727), (0x2C67, 3, 2, 1), (0x2C6D, 1, 1, - 10780),
     (0x2C6E, 1, 1, - 10749), (0x2C6F, 1, 1, - 10783), (0x2C70, 1, 1, - 10782),
     (0x2C72, 1, 1, 1), (0x2C75, 1, 1, 1), (0x2C7E, 2, 1, - 10815),
     (0x2C80, 50, 2, 1), (0x2CEB, 2, 2, 1), (0x2CF2, 1, 1, 1),
     (0xA640, 23, 2, 1), (0xA680, 14, 2, 1), (0xA722, 7, 2, 1),
     (0xA732, 31, 2, 1), (0xA779, 2, 2, 1), (0xA77D, 1, 1, - 35332),
     (0xA77E, 5, 2, 1), (0xA78B, 1, 1, 1), (0xA78D, 1, 1, - 42280),
     (0xA790, 2, 2, 1), (0xA796, 10, 2, 1), (0xA7AA, 1, 1, - 42308),
     (0xA7AB, 1, 1, - 42319), (0xA7AC, 1, 1, - 42315), (0xA7AD, 1, 1, - 42305),
     (0xA7AE, 1, 1, - 42308), (0xA7B0, 1, 1, - 42258), (0xA7B1, 1, 1, - 42282),
     (0xA7B2, 1, 1, - 42261), (0xA7B3, 1, 1, 928), (0xA7B4, 8, 2, 1),
     (0xA7C4, 1, 1, - 48), (0xA7C5, 1, 1, - 42307), (0xA7C6, 1, 1, - 35384),
     (0xA7C7, 2, 2, 1), (0xA7D0, 1, 1, 1), (0xA7D6, 2, 2, 1),
     (0xA7F5, 1, 1, 1), (0xFF21, 26, 1, 32), (0x10400, 40, 1, 40),
     (0x104B0, 36, 1, 40), (0x10570, 19, 2, 39), (0x10571, 5, 2, 39),
     (0x1057D, 7, 2, 39), (0x1058D, 3, 2, 39), (0x10595, 1, 1, 39),
     (0x10C80, 51, 1, 64), (0x118A0, 32, 1, 32), (0x16E40, 32, 1, 32),
     (0x1E900, 34, 1, 34)]"

definition lower_multi :: "(int \<times> ustring) list" where
  "lower_multi = [
     (0x130, [0x69, 0x307])]"

definition upper_runs :: case_runs where
  "upper_runs = [
     (0xB5, 1, 1, 743), (0xE0, 23, 1, - 32), (0xF8, 7, 1, - 32),
     (0xFF, 1, 1, 121), (0x101, 24, 2, - 1), (0x131, 1, 1, - 232),
     (0x133, 3, 2, - 1), (0x13A, 8, 2, - 1), (0x14B, 23, 2, - 1),
     (0x17A, 3, 2, - 1), (0x17F, 1, 1, - 300), (0x180, 1, 1, 195),
     (0x183, 2, 2, - 1), (0x188, 1, 1, - 1), (0x18C, 1, 1, - 1),
     (0x192, 1, 1, - 1), (0x195, 1, 1, 97), (0x199, 1, 1, - 1),
     (0x19A, 1, 1, 163), (0x19E, 1, 1, 130), (0x1A1, 3, 2, - 1),
     (0x1A8, 1, 1, - 1), (0x1AD, 1, 1, - 1), (0x1B0, 1, 1, - 1),
     (0x1B4, 2, 2, - 1), (0x1B9, 1, 1, - 1), (0x1BD, 1, 1, - 1),
     (0x1BF, 1, 1, 56), (0x1C5, 1, 1, - 1), (0x1C6, 1, 1, - 2),
     (0x1C8, 1, 1, - 1), (0x1C9, 1, 1, - 2), (0x1CB, 1, 1, - 1),
     (0x1CC, 1, 1, - 2), (0x1CE, 8, 2, - 1), (0x1DD, 1, 1, - 79),
     (0x1DF, 9, 2, - 1), (0x1F2, 1, 1, - 1), (0x1F3, 1, 1, - 2),
     (0x1F5, 1, 1, - 1), (0x1F9, 20, 2, - 1), (0x223, 9, 2, - 1),
     (0x23C, 1, 1, - 1), (0x23F, 2, 1, 10815), (0x242, 1, 1, - 1),
     (0x247, 5, 2, - 1), (0x250, 1, 1, 10783), (0x251, 1, 1, 10780),
     (0x252, 1, 1, 10782), (0x253, 1, 1, - 210), (0x254, 1, 1, - 206),
     (0x256, 2, 1, - 205), (0x259, 1, 1, - 202), (0x25B, 1, 1, - 203),
     (0x25C, 1, 1, 42319), (0x260, 1, 1, - 205), (0x261, 1, 1, 42315),
     (0x263, 1, 1, - 207), (0x265, 1, 1, 42280), (0x266, 1, 1, 42308),
     (0x268, 1, 1, - 209), (0x269, 1, 1, - 211), (0x26A, 1, 1, 42308),
     (0x26B, 1, 1, 10743), (0x26C, 1, 1, 42305), (0x26F, 1, 1, - 211),
     (0x271, 1, 1, 10749), (0x272, 1, 1, - 213), (0x275, 1, 1, - 214),
     (0x27D, 1, 1, 10727), (0x280, 1, 1, - 218), (0x282, 1, 1, 42307),
     (0x283, 1, 1, - 218), (0x287, 1, 1, 42282), (0x288, 1, 1, - 218),
     (0x289, 1, 1, - 69), (0x28A, 2, 1, - 217), (0x28C, 1, 1, - 71),
     (0x292, 1, 1, - 219), (0x29D, 1, 1, 42261), (0x29E, 1, 1, 42258),
     (0x345, 1, 1, 84), (0x371, 2, 2, - 1), (0x377, 1, 1, - 1),
     (0x37B, 3, 1, 130), (0x3AC, 1, 1, - 38), (0x3AD, 3, 1, - 37),
     (0x3B1, 17, 1, - 32), (0x3C2, 1, 1, - 31), (0x3C3, 9, 1, - 32),
     (0x3CC, 1, 1, - 64), (0x3CD, 2, 1, - 63), (0x3D0, 1, 1, - 62),
     (0x3D1, 1, 1, - 57), (0x3D5, 1, 1, - 47), (0x3D6, 1, 1, - 54),
     (0x3D7, 1, 1, - 8), (0x3D9, 12, 2, - 1), (0x3F0, 1, 1, - 86),
     (0x3F1, 1, 1, - 80), (0x3F2, 1, 1, 7), (0x3F3, 1, 1, - 116),
     (0x3F5, 1, 1, - 96), (0x3F8, 1, 1, - 1), (0x3FB, 1, 1, - 1),
     (0x430, 32, 1, - 32), (0x450, 16, 1, - 80), (0x461, 17, 2, - 1),
     (0x48B, 27, 2, - 1), (0x4C2, 7, 2, - 1), (0x4CF, 1, 1, - 15),
     (0x4D1, 48, 2, - 1), (0x561, 38, 1, - 48), (0x10D0, 43, 1, 3008),
     (0x10FD, 3, 1, 3008), (0x13F8, 6, 1, - 8), (0x1C80, 1, 1, - 6254),
     (0x1C81, 1, 1, - 6253), (0x1C82, 1, 1, - 6244), (0x1C83, 2, 1, - 6242),
     (0x1C85, 1, 1, - 6243), (0x1C86, 1, 1, - 6236), (0x1C87, 1, 1, - 6181),
     (0x1C88, 1, 1, 35266), (0x1D79, 1, 1, 35332), (0x1D7D, 1, 1, 3814),
     (0x1D8E, 1, 1, 35384), (0x1E01, 75, 2, - 1), (0x1E9B, 1, 1, - 59),
     (0x1EA1, 48, 2, - 1), (0x1F00, 8, 1, 8), (0x1F10, 6, 1, 8),
     (0x1F20, 8, 1, 8), (0x1F30, 8, 1, 8), (0x1F40, 6, 1, 8),
     (0x1F51, 4, 2, 8), (0x1F60, 8, 1, 8), (0x1F70, 2, 1, 74),
     (0x1F72, 4, 1, 86), (0x1F76, 2, 1, 100), (0x1F78, 2, 1, 128),
     (0x1F7A, 2, 1, 112), (0x1F7C, 2, 1, 126), (0x1FB0, 2, 1, 8),
     (0x1FBE, 1, 1, - 7205), (0x1FD0, 2, 1, 8), (0x1FE0, 2, 1, 8),
     (0x1FE5, 1, 1, 7), (0x214E, 1, 1, - 28), (0x2170, 16, 1, - 16),
     (0x2184, 1, 1, - 1), (0x24D0, 26, 1, - 26), (0x2C30, 48, 1, - 48),
     (0x2C61, 1, 1, - 1), (0x2C65, 1, 1, - 10795), (0x2C66, 1, 1, - 10792),
     (0x2C68, 3, 2, - 1), (0x2C73, 1, 1, - 1), (0x2C76, 1, 1, - 1),
     (0x2C81, 50, 2, - 1), (0x2CEC, 2, 2, - 1), (0x2CF3, 1, 1, - 1),
     (0x2D00, 38, 1, - 7264), (0x2D27, 1, 1, - 7264), (0x2D2D, 1, 1, - 7264),
     (0xA641, 23, 2, - 1), (0xA681, 14, 2, - 1), (0xA723, 7, 2, - 1),
     (0xA733, 31, 2, - 1), (0xA77A, 2, 2, - 1), (0xA77F, 5, 2, - 1),
     (0xA78C, 1, 1, - 1), (0xA791, 2, 2, - 1), (0xA794, 1, 1, 48),
     (0xA797, 10, 2, - 1), (0xA7B5, 8, 2, - 1), (0xA7C8, 2, 2, - 1),
     (0xA7D1, 1, 1, - 1), (0xA7D7, 2, 2, - 1), (0xA7F6, 1, 1, - 1),
     (0xAB53, 1, 1, - 928), (0xAB70, 80, 1, - 38864), (0xFF41, 26, 1, - 32),
     (0x10428, 40, 1, - 40), (0x104D8, 36, 1, - 40), (0x10597, 19, 2, - 39),
     (0x10598, 5, 2, - 39), (0x105A4, 7, 2, - 39), (0x105B4, 3, 2, - 39),
     (0x105BC, 1, 1, - 39), (0x10CC0, 51, 1, - 64), (0x118C0, 32, 1, - 32),
     (0x16E60, 32, 1, - 32), (0x1E922, 34, 1, - 34)]"

definition upper_multi :: "(int \<times> ustring) list" where
  "upper_multi = [
     (0xDF, [0x53, 0x53]), (0x149, [0x2BC, 0x4E]), (0x1F0, [0x4A, 0x30C]),
     (0x390, [0x399, 0x308, 0x301]), (0x3B0, [0x3A5, 0x308, 0x301]), (0x587, [0x535, 0x552]),
     (0x1E96, [0x48, 0x331]), (0x1E97, [0x54, 0x308]), (0x1E98, [0x57, 0x30A]),
     (0x1E99, [0x59, 0x30A]), (0x1E9A, [0x41, 0x2BE]), (0x1F50, [0x3A5, 0x313]),
     (0x1F52, [0x3A5, 0x313, 0x300]), (0x1F54, [0x3A5, 0x313, 0x301]), (0x1F56, [0x3A5, 0x313, 0x342]),
     (0x1F80, [0x1F08, 0x399]), (0x1F81, [0x1F09, 0x399]), (0x1F82, [0x1F0A, 0x399]),
     (0x1F83, [0x1F0B, 0x399]), (0x1F84, [0x1F0C, 0x399]), (0x1F85, [0x1F0D, 0x399]),
     (0x1F86, [0x1F0E, 0x399]), (0x1F87, [0x1F0F, 0x399]), (0x1F88, [0x1F08, 0x399]),
     (0x1F89, [0x1F09, 0x399]), (0x1F8A, [0x1F0A, 0x399]), (0x1F8B, [0x1F0B, 0x399]),
     (0x1F8C, [0x1F0C, 0x399]), (0x1F8D, [0x1F0D, 0x399]), (0x1F8E, [0x1F0E, 0x399]),
     (0x1F8F, [0x1F0F, 0x399]), (0x1F90, [0x1F28, 0x399]), (0x1F91, [0x1F29, 0x399]),
     (0x1F92, [0x1F2A, 0x399]), (0x1F93, [0x1F2B, 0x399]), (0x1F94, [0x1F2C, 0x399]),
     (0x1F95, [0x1F2D, 0x399]), (0x1F96, [0x1F2E, 0x399]), (0x1F97, [0x1F2F, 0x399]),
     (0x1F98, [0x1F28, 0x399]), (0x1F99, [0x1F29, 0x399]), (0x1F9A, [0x1F2A, 0x399]),
     (0x1F9B, [0x1F2B, 0x399]), (0x1F9C, [0x1F2C, 0x399]), (0x1F9D, [0x1F2D, 0x399]),
     (0x1F9E, [0x1F2E, 0x399]), (0x1F9F, [0x1F2F, 0x399]), (0x1FA0, [0x1F68, 0x399]),
     (0x1FA1, [0x1F69, 0x399]), (0x1FA2, [0x1F6A, 0x399]), (0x1FA3, [0x1F6B, 0x399]),
     (0x1FA4, [0x1F6C, 0x399]), (0x1FA5, [0x1F6D, 0x399]), (0x1FA6, [0x1F6E, 0x399]),
     (0x1FA7, [0x1F6F, 0x399]), (0x1FA8, [0x1F68, 0x399]), (0x1FA9, [0x1F69, 0x399]),
     (0x1FAA, [0x1F6A, 0x399]), (0x1FAB, [0x1F6B, 0x399]), (0x1FAC, [0x1F6C, 0x399]),
     (0x1FAD, [0x1F6D, 0x399]), (0x1FAE, [0x1F6E, 0x399]), (0x1FAF, [0x1F6F, 0x399]),
     (0x1FB2, [0x1FBA, 0x399]), (0x1FB3, [0x391, 0x399]), (0x1FB4, [0x386, 0x399]),
     (0x1FB6, [0x391, 0x342]), (0x1FB7, [0x391, 0x342, 0x399]), (0x1FBC, [0x391, 0x399]),
     (0x1FC2, [0x1FCA, 0x399]), (0x1FC3, [0x397, 0x399]), (0x1FC4, [0x389, 0x399]),
     (0x1FC6, [0x397, 0x342]), (0x1FC7, [0x397, 0x342, 0x399]), (0x1FCC, [0x397, 0x399]),
     (0x1FD2, [0x399, 0x308, 0x300]), (0x1FD3, [0x399, 0x308, 0x301]), (0x1FD6, [0x399, 0x342]),
     (0x1FD7, [0x399, 0x308, 0x342]), (0x1FE2, [0x3A5, 0x308, 0x300]), (0x1FE3, [0x3A5, 0x308, 0x301]),
     (0x1FE4, [0x3A1, 0x313]), (0x1FE6, [0x3A5, 0x342]), (0x1FE7, [0x3A5, 0x308, 0x342]),
     (0x1FF2, [0x1FFA, 0x399]), (0x1FF3, [0x3A9, 0x399]), (0x1FF4, [0x38F, 0x399]),
     (0x1FF6, [0x3A9, 0x342]), (0x1FF7, [0x3A9, 0x342, 0x399]), (0x1FFC, [0x3A9, 0x399]),
     (0xFB00, [0x46, 0x46]), (0xFB01, [0x46, 0x49]), (0xFB02, [0x46, 0x4C]),
     (0xFB03, [0x46, 0x46, 0x49]), (0xFB04, [0x46, 0x46, 0x4C]), (0xFB05, [0x53, 0x54]),
     (0xFB06, [0x53, 0x54]), (0xFB13, [0x544, 0x546]), (0xFB14, [0x544, 0x535]),
     (0xFB15, [0x544, 0x53B]), (0xFB16, [0x54E, 0x546]), (0xFB17, [0x544, 0x53D])]"

definition title_runs :: case_runs where
  "title_runs = [
     (0xB5, 1, 1, 743), (0xE0, 23, 1, - 32), (0xF8, 7, 1, - 32),
     (0xFF, 1, 1, 121), (0x101, 24, 2, - 1), (0x131, 1, 1, - 232),
     (0x133, 3, 2, - 1), (0x13A, 8, 2, - 1), (0x14B, 23, 2, - 1),
     (0x17A, 3, 2, - 1), (0x17F, 1, 1, - 300), (0x180, 1, 1, 195),
     (0x183, 2, 2, - 1), (0x188, 1, 1, - 1), (0x18C, 1, 1, - 1),
     (0x192, 1, 1, - 1), (0x195, 1, 1, 97), (0x199, 1, 1, - 1),
     (0x19A, 1, 1, 163), (0x19E, 1, 1, 130), (0x1A1, 3, 2, - 1),
     (0x1A8, 1, 1, - 1), (0x1AD, 1, 1, - 1), (0x1B0, 1, 1, - 1),
     (0x1B4, 2, 2, - 1), (0x1B9, 1, 1, - 1), (0x1BD, 1, 1, - 1),
     (0x1BF, 1, 1, 56), (0x1C4, 1, 1, 1), (0x1C6, 1, 1, - 1),
     (0x1C7, 1, 1, 1), (0x1C9, 1, 1, - 1), (0x1CA, 1, 1, 1),
     (0x1CC, 9, 2, - 1), (0x1DD, 1, 1, - 79), (0x1DF, 9, 2, - 1),
     (0x1F1, 1, 1, 1), (0x1F3, 2, 2, - 1), (0x1F9, 20, 2, - 1),
     (0x223, 9, 2, - 1), (0x23C, 1, 1, - 1), (0x23F, 2, 1, 10815),
     (0x242, 1, 1, - 1), (0x247, 5, 2, - 1), (0x250, 1, 1, 10783),
     (0x251, 1, 1, 10780), (0x252, 1, 1, 10782), (0x253, 1, 1, - 210),
     (0x254, 1, 1, - 206), (0x256, 2, 1, - 205), (0x259, 1, 1, - 202),
     (0x25B, 1, 1, - 203), (0x25C, 1, 1, 42319), (0x260, 1, 1, - 205),
     (0x261, 1, 1, 42315), (0x263, 1, 1, - 207), (0x265, 1, 1, 42280),
     (0x266, 1, 1, 42308), (0x268, 1, 1, - 209), (0x269, 1, 1, - 211),
     (0x26A, 1, 1, 42308), (0x26B, 1, 1, 10743), (0x26C, 1, 1, 42305),
     (0x26F, 1, 1, - 211), (0x271, 1, 1, 10749), (0x272, 1, 1, - 213),
     (0x275, 1, 1, - 214), (0x27D, 1, 1, 10727), (0x280, 1, 1, - 218),
     (0x282, 1, 1, 42307), (0x283, 1, 1, - 218), (0x287, 1, 1, 42282),
     (0x288, 1, 1, - 218), (0x289, 1, 1, - 69), (0x28A, 2, 1, - 217),
     (0x28C, 1, 1, - 71), (0x292, 1, 1, - 219), (0x29D, 1, 1, 42261),
     (0x29E, 1, 1, 42258), (0x345, 1, 1, 84), (0x371, 2, 2, - 1),
     (0x377, 1, 1, - 1), (0x37B, 3, 1, 130), (0x3AC, 1, 1, - 38),
     (0x3AD, 3, 1, - 37), (0x3B1, 17, 1, - 32), (0x3C2, 1, 1, - 31),
     (0x3C3, 9, 1, - 32), (0x3CC, 1, 1, - 64), (0x3CD, 2, 1, - 63),
     (0x3D0, 1, 1, - 62), (0x3D1, 1, 1, - 57), (0x3D5, 1, 1, - 47),
     (0x3D6, 1, 1, - 54), (0x3D7, 1, 1, - 8), (0x3D9, 12, 2, - 1),
     (0x3F0, 1, 1, - 86), (0x3F1, 1, 1, - 80), (0x3F2, 1, 1, 7),
     (0x3F3, 1, 1, - 116), (0x3F5, 1, 1, - 96), (0x3F8, 1, 1, - 1),
     (0x3FB, 1, 1, - 1), (0x430, 32, 1, - 32), (0x450, 16, 1, - 80),
     (0x461, 17, 2, - 1), (0x48B, 27, 2, - 1), (0x4C2, 7, 2, - 1),
     (0x4CF, 1, 1, - 15), (0x4D1, 48, 2, - 1), (0x561, 38, 1, - 48),
     (0x13F8, 6, 1, - 8), (0x1C80, 1, 1, - 6254), (0x1C81, 1, 1, - 6253),
     (0x1C82, 1, 1, - 6244), (0x1C83, 2, 1, - 6242), (0x1C85, 1, 1, - 6243),
     (0x1C86, 1, 1, - 6236), (0x1C87, 1, 1, - 6181), (0x1C88, 1, 1, 35266),
     (0x1D79, 1, 1, 35332), (0x1D7D, 1, 1, 3814), (0x1D8E, 1, 1, 35384),
     (0x1E01, 75, 2, - 1), (0x1E9B, 1, 1, - 59), (0x1EA1, 48, 2, - 1),
     (0x1F00, 8, 1, 8), (0x1F10, 6, 1, 8), (0x1F20, 8, 1, 8),
     (0x1F30, 8, 1, 8), (0x1F40, 6, 1, 8), (0x1F51, 4, 2, 8),
     (0x1F60, 8, 1, 8), (0x1F70, 2, 1, 74), (0x1F72, 4, 1, 86),
     (0x1F76, 2, 1, 100), (0x1F78, 2, 1, 128), (0x1F7A, 2, 1, 112),
     (0x1F7C, 2, 1, 126), (0x1F80, 8, 1, 8), (0x1F90, 8, 1, 8),
     (0x1FA0, 8, 1, 8), (0x1FB0, 2, 1, 8), (0x1FB3, 1, 1, 9),
     (0x1FBE, 1, 1, - 7205), (0x1FC3, 1, 1, 9), (0x1FD0, 2, 1, 8),
     (0x1FE0, 2, 1, 8), (0x1FE5, 1, 1, 7), (0x1FF3, 1, 1, 9),
     (0x214E, 1, 1, - 28), (0x2170, 16, 1, - 16), (0x2184, 1, 1, - 1),
     (0x24D0, 26, 1, - 26), (0x2C30, 48, 1, - 48), (0x2C61, 1, 1, - 1),
     (0x2C65, 1, 1, - 10795), (0x2C66, 1, 1, - 10792), (0x2C68, 3, 2, - 1),
     (0x2C73, 1, 1, - 1), (0x2C76, 1, 1, - 1), (0x2C81, 50, 2, - 1),
     (0x2CEC, 2, 2, - 1), (0x2CF3, 1, 1, - 1), (0x2D00, 38, 1, - 7264),
     (0x2D27, 1, 1, - 7264), (0x2D2D, 1, 1, - 7264), (0xA641, 23, 2, - 1),
     (0xA681, 14, 2, - 1), (0xA723, 7, 2, - 1), (0xA733, 31, 2, - 1),
     (0xA77A, 2, 2, - 1), (0xA77F, 5, 2, - 1), (0xA78C, 1, 1, - 1),
     (0xA791, 2, 2, - 1), (0xA794, 1, 1, 48), (0xA797, 10, 2, - 1),
     (0xA7B5, 8, 2, - 1), (0xA7C8, 2, 2, - 1), (0xA7D1, 1, 1, - 1),
     (0xA7D7, 2, 2, - 1), (0xA7F6, 1, 1, - 1), (0xAB53, 1, 1, - 928),
     (0xAB70, 80, 1, - 38864), (0xFF41, 26, 1, - 32), (0x10428, 40, 1, - 40),
     (0x104D8, 36, 1, - 40), (0x10597, 19, 2, - 39), (0x10598, 5, 2, - 39),
     (0x105A4, 7, 2, - 39), (0x105B4, 3, 2, - 39), (0x105BC, 1, 1, - 39),
     (0x10CC0, 51, 1, - 64), (0x118C0, 32, 1, - 32), (0x16E60, 32, 1, - 32),
     (0x1E922, 34, 1, - 34)]"

definition title_multi :: "(int \<times> ustring) list" where
  "title_multi = [
     (0xDF, [0x53, 0x73]), (0x149, [0x2BC, 0x4E]), (0x1F0, [0x4A, 0x30C]),
     (0x390, [0x399, 0x308, 0x301]), (0x3B0, [0x3A5, 0x308, 0x301]), (0x587, [0x535, 0x582]),
     (0x1E96, [0x48, 0x331]), (0x1E97, [0x54, 0x308]), (0x1E98, [0x57, 0x30A]),
     (0x1E99, [0x59, 0x30A]), (0x1E9A, [0x41, 0x2BE]), (0x1F50, [0x3A5, 0x313]),
     (0x1F52, [0x3A5, 0x313, 0x300]), (0x1F54, [0x3A5, 0x313, 0x301]), (0x1F56, [0x3A5, 0x313, 0x342]),
     (0x1FB2, [0x1FBA, 0x345]), (0x1FB4, [0x386, 0x345]), (0x1FB6, [0x391, 0x342]),
     (0x1FB7, [0x391, 0x342, 0x345]), (0x1FC2, [0x1FCA, 0x345]), (0x1FC4, [0x389, 0x345]),
     (0x1FC6, [0x397, 0x342]), (0x1FC7, [0x397, 0x342, 0x345]), (0x1FD2, [0x399, 0x308, 0x300]),
     (0x1FD3, [0x399, 0x308, 0x301]), (0x1FD6, [0x399, 0x342]), (0x1FD7, [0x399, 0x308, 0x342]),
     (0x1FE2, [0x3A5, 0x308, 0x300]), (0x1FE3, [0x3A5, 0x308, 0x301]), (0x1FE4, [0x3A1, 0x313]),
     (0x1FE6, [0x3A5, 0x342]), (0x1FE7, [0x3A5, 0x308, 0x342]), (0x1FF2, [0x1FFA, 0x345]),
     (0x1FF4, [0x38F, 0x345]), (0x1FF6, [0x3A9, 0x342]), (0x1FF7, [0x3A9, 0x342, 0x345]),
     (0xFB00, [0x46, 0x66]), (0xFB01, [0x46, 0x69]), (0xFB02, [0x46, 0x6C]),
     (0xFB03, [0x46, 0x66, 0x69]), (0xFB04, [0x46, 0x66, 0x6C]), (0xFB05, [0x53, 0x74]),
     (0xFB06, [0x53, 0x74]), (0xFB13, [0x544, 0x576]), (0xFB14, [0x544, 0x565]),
     (0xFB15, [0x544, 0x56B]), (0xFB16, [0x54E, 0x576]), (0xFB17, [0x544, 0x56D])]"

definition lower_char :: "int \<Rightarrow> ustring" where
  "lower_char c =
     (if c < 128 then (if 65 \<le> c \<and> c \<le> 90 then [c + 32] else [c])
      else case_map lower_runs lower_multi c)"

definition upper_char :: "int \<Rightarrow> ustring" where
  "upper_char c =
     (if c < 128 then (if 97 \<le> c \<and> c \<le> 122 then [c - 32] else [c])
      else case_map upper_runs upper_multi c)"

definition title_char :: "int \<Rightarrow> ustring" where
  "title_char c =
     (if c < 128 then (if 97 \<le> c \<and> c \<le> 122 then [c - 32] else [c])
      else case_map title_runs title_multi c)"

text \<open>
  Lower-casing treats the capital sigma (0x3A3) by its context: it becomes the final sigma
  (0x3C2) when the nearest character before it that is not case-ignorable is cased and the
  nearest one after it that is not case-ignorable is not cased (or there is none), and the
  small sigma (0x3C3) otherwise.  \<open>cased_runs\<close> lists the cased characters among those
  that are not case-ignorable; the others are never looked up.
\<close>

definition case_ignorable_runs :: "(int \<times> int) list" where
  "case_ignorable_runs = [
     (0x27, 0x27), (0x2E, 0x2E), (0x3A, 0x3A), (0x5E, 0x5E), (0x60, 0x60),
     (0xA8, 0xA8), (0xAD, 0xAD), (0xAF, 0xAF), (0xB4, 0xB4), (0xB7, 0xB8),
     (0x2B0, 0x36F), (0x374, 0x375), (0x37A, 0x37A), (0x384, 0x385), (0x387, 0x387),
     (0x483, 0x489), (0x559, 0x559), (0x55F, 0x55F), (0x591, 0x5BD), (0x5BF, 0x5BF),
     (0x5C1, 0x5C2), (0x5C4, 0x5C5), (0x5C7, 0x5C7), (0x5F4, 0x5F4), (0x600, 0x605),
     (0x610, 0x61A), (0x61C, 0x61C), (0x640, 0x640), (0x64B, 0x65F), (0x670, 0x670),
     (0x6D6, 0x6DD), (0x6DF, 0x6E8), (0x6EA, 0x6ED), (0x70F, 0x70F), (0x711, 0x711),
     (0x730, 0x74A), (0x7A6, 0x7B0), (0x7EB, 0x7F5), (0x7FA, 0x7FA), (0x7FD, 0x7FD),
     (0x816, 0x82D), (0x859, 0x85B), (0x888, 0x888), (0x890, 0x891), (0x898, 0x89F),
     (0x8C9, 0x902), (0x93A, 0x93A), (0x93C, 0x93C), (0x941, 0x948), (0x94D, 0x94D),
     (0x951, 0x957), (0x962, 0x963), (0x971, 0x971), (0x981, 0x981), (0x9BC, 0x9BC),
     (0x9C1, 0x9C4), (0x9CD, 0x9CD), (0x9E2, 0x9E3), (0x9FE, 0x9FE), (0xA01, 0xA02),
     (0xA3C, 0xA3C), (0xA41, 0xA42), (0xA47, 0xA48), (0xA4B, 0xA4D), (0xA51, 0xA51),
     (0xA70, 0xA71), (0xA75, 0xA75), (0xA81, 0xA82), (0xABC, 0xABC), (0xAC1, 0xAC5),
     (0xAC7, 0xAC8), (0xACD, 0xACD), (0xAE2, 0xAE3), (0xAFA, 0xAFF), (0xB01, 0xB01),
     (0xB3C, 0xB3C), (0xB3F, 0xB3F), (0xB41, 0xB44), (0xB4D, 0xB4D), (0xB55, 0xB56),
     (0xB62, 0xB63), (0xB82, 0xB82), (0xBC0, 0xBC0), (0xBCD, 0xBCD), (0xC00, 0xC00),
     (0xC04, 0xC04), (0xC3C, 0xC3C), (0xC3E, 0xC40), (0xC46, 0xC48), (0xC4A, 0xC4D),
     (0xC55, 0xC56), (0xC62, 0xC63), (0xC81, 0xC81), (0xCBC, 0xCBC), (0xCBF, 0xCBF),
     (0xCC6, 0xCC6), (0xCCC, 0xCCD), (0xCE2, 0xCE3), (0xD00, 0xD01), (0xD3B, 0xD3C),
     (0xD41, 0xD44), (0xD4D, 0xD4D), (0xD62, 0xD63), (0xD81, 0xD81), (0xDCA, 0xDCA),
     (0xDD2, 0xDD4), (0xDD6, 0xDD6), (0xE31, 0xE31), (0xE34, 0xE3A), (0xE46, 0xE4E),
     (0xEB1, 0xEB1), (0xEB4, 0xEBC), (0xEC6, 0xEC6), (0xEC8, 0xECD), (0xF18, 0xF19),
     (0xF35, 0xF35), (0xF37, 0xF37), (0xF39, 0xF39), (0xF71, 0xF7E), (0xF80, 0xF84),
     (0xF86, 0xF87), (0xF8D, 0xF97), (0xF99, 0xFBC), (0xFC6, 0xFC6), (0x102D, 0x1030),
     (0x1032, 0x1037), (0x1039, 0x103A), (0x103D, 0x103E), (0x1058, 0x1059), (0x105E, 0x1060),
     (0x1071, 0x1074), (0x1082, 0x1082), (0x1085, 0x1086), (0x108D, 0x108D), (0x109D, 0x109D),
     (0x10FC, 0x10FC), (0x135D, 0x135F), (0x1712, 0x1714), (0x1732, 0x1733), (0x1752, 0x1753),
     (0x1772, 0x1773), (0x17B4, 0x17B5), (0x17B7, 0x17BD), (0x17C6, 0x17C6), (0x17C9, 0x17D3),
     (0x17D7, 0x17D7), (0x17DD, 0x17DD), (0x180B, 0x180F), (0x1843, 0x1843), (0x1885, 0x1886),
     (0x18A9, 0x18A9), (0x1920, 0x1922), (0x1927, 0x1928), (0x1932, 0x1932), (0x1939, 0x193B),
     (0x1A17, 0x1A18), (0x1A1B, 0x1A1B), (0x1A56, 0x1A56), (0x1A58, 0x1A5E), (0x1A60, 0x1A60),
     (0x1A62, 0x1A62), (0x1A65, 0x1A6C), (0x1A73, 0x1A7C), (0x1A7F, 0x1A7F), (0x1AA7, 0x1AA7),
     (0x1AB0, 0x1ACE), (0x1B00, 0x1B03), (0x1B34, 0x1B34), (0x1B36, 0x1B3A), (0x1B3C, 0x1B3C),
     (0x1B42, 0x1B42), (0x1B6B, 0x1B73), (0x1B80, 0x1B81), (0x1BA2, 0x1BA5), (0x1BA8, 0x1BA9),
     (0x1BAB, 0x1BAD), (0x1BE6, 0x1BE6), (0x1BE8, 0x1BE9), (0x1BED, 0x1BED), (0x1BEF, 0x1BF1),
     (0x1C2C, 0x1C33), (0x1C36, 0x1C37), (0x1C78, 0x1C7D), (0x1CD0, 0x1CD2), (0x1CD4, 0x1CE0),
     (0x1CE2, 0x1CE8), (0x1CED, 0x1CED), (0x1CF4, 0x1CF4), (0x1CF8, 0x1CF9), (0x1D2C, 0x1D6A),
     (0x1D78, 0x1D78), (0x1D9B, 0x1DFF), (0x1FBD, 0x1FBD), (0x1FBF, 0x1FC1), (0x1FCD, 0x1FCF),
     (0x1FDD, 0x1FDF), (0x1FED, 0x1FEF), (0x1FFD, 0x1FFE), (0x200B, 0x200F), (0x2018, 0x2019),
     (0x2024, 0x2024), (0x2027, 0x2027), (0x202A, 0x202E), (0x2060, 0x2064), (0x2066, 0x206F),
     (0x2071, 0x2071), (0x207F, 0x207F), (0x2090, 0x209C), (0x20D0, 0x20F0), (0x2C7C, 0x2C7D),
     (0x2CEF, 0x2CF1), (0x2D6F, 0x2D6F), (0x2D7F, 0x2D7F), (0x2DE0, 0x2DFF), (0x2E2F, 0x2E2F),
     (0x3005, 0x3005), (0x302A, 0x302D), (0x3031, 0x3035), (0x303B, 0x303B), (0x3099, 0x309E),
     (0x30FC, 0x30FE), (0xA015, 0xA015), (0xA4F8, 0xA4FD), (0xA60C, 0xA60C), (0xA66F, 0xA672),
     (0xA674, 0xA67D), (0xA67F, 0xA67F), (0xA69C, 0xA69F), (0xA6F0, 0xA6F1), (0xA700, 0xA721),
     (0xA770, 0xA770), (0xA788, 0xA78A), (0xA7F2, 0xA7F4), (0xA7F8, 0xA7F9), (0xA802, 0xA802),
     (0xA806, 0xA806), (0xA80B, 0xA80B), (0xA825, 0xA826), (0xA82C, 0xA82C), (0xA8C4, 0xA8C5),
     (0xA8E0, 0xA8F1), (0xA8FF, 0xA8FF), (0xA926, 0xA92D), (0xA947, 0xA951), (0xA980, 0xA982),
     (0xA9B3, 0xA9B3), (0xA9B6, 0xA9B9), (0xA9BC, 0xA9BD), (0xA9CF, 0xA9CF), (0xA9E5, 0xA9E6),
     (0xAA29, 0xAA2E), (0xAA31, 0xAA32), (0xAA35, 0xAA36), (0xAA43, 0xAA43), (0xAA4C, 0xAA4C),
     (0xAA70, 0xAA70), (0xAA7C, 0xAA7C), (0xAAB0, 0xAAB0), (0xAAB2, 0xAAB4), (0xAAB7, 0xAAB8),
     (0xAABE, 0xAABF), (0xAAC1, 0xAAC1), (0xAADD, 0xAADD), (0xAAEC, 0xAAED), (0xAAF3, 0xAAF4),
     (0xAAF6, 0xAAF6), (0xAB5B, 0xAB5F), (0xAB69, 0xAB6B), (0xABE5, 0xABE5), (0xABE8, 0xABE8),
     (0xABED, 0xABED), (0xFB1E, 0xFB1E), (0xFBB2, 0xFBC2), (0xFE00, 0xFE0F), (0xFE13, 0xFE13),
     (0xFE20, 0xFE2F), (0xFE52, 0xFE52), (0xFE55, 0xFE55), (0xFEFF, 0xFEFF), (0xFF07, 0xFF07),
     (0xFF0E, 0xFF0E), (0xFF1A, 0xFF1A), (0xFF3E, 0xFF3E), (0xFF40, 0xFF40), (0xFF70, 0xFF70),
     (0xFF9E, 0xFF9F), (0xFFE3, 0xFFE3), (0xFFF9, 0xFFFB), (0x101FD, 0x101FD), (0x102E0, 0x102E0),
     (0x10376, 0x1037A), (0x10780, 0x10785), (0x10787, 0x107B0), (0x107B2, 0x107BA), (0x10A01, 0x10A03),
     (0x10A05, 0x10A06), (0x10A0C, 0x10A0F), (0x10A38, 0x10A3A), (0x10A3F, 0x10A3F), (0x10AE5, 0x10AE6),
     (0x10D24, 0x10D27), (0x10EAB, 0x10EAC), (0x10F46, 0x10F50), (0x10F82, 0x10F85), (0x11001, 0x11001),
     (0x11038, 0x11046), (0x11070, 0x11070), (0x11073, 0x11074), (0x1107F, 0x11081), (0x110B3, 0x110B6),
     (0x110B9, 0x110BA), (0x110BD, 0x110BD), (0x110C2, 0x110C2), (0x110CD, 0x110CD), (0x11100, 0x11102),
     (0x11127, 0x1112B), (0x1112D, 0x11134), (0x11173, 0x11173), (0x11180, 0x11181), (0x111B6, 0x111BE),
     (0x111C9, 0x111CC), (0x111CF, 0x111CF), (0x1122F, 0x11231), (0x11234, 0x11234), (0x11236, 0x11237),
     (0x1123E, 0x1123E), (0x112DF, 0x112DF), (0x112E3, 0x112EA), (0x11300, 0x11301), (0x1133B, 0x1133C),
     (0x11340, 0x11340), (0x11366, 0x1136C), (0x11370, 0x11374), (0x11438, 0x1143F), (0x11442, 0x11444),
     (0x11446, 0x11446), (0x1145E, 0x1145E), (0x114B3, 0x114B8), (0x114BA, 0x114BA), (0x114BF, 0x114C0),
     (0x114C2, 0x114C3), (0x115B2, 0x115B5), (0x115BC, 0x115BD), (0x115BF, 0x115C0), (0x115DC, 0x115DD),
     (0x11633, 0x1163A), (0x1163D, 0x1163D), (0x1163F, 0x11640), (0x116AB, 0x116AB), (0x116AD, 0x116AD),
     (0x116B0, 0x116B5), (0x116B7, 0x116B7), (0x1171D, 0x1171F), (0x11722, 0x11725), (0x11727, 0x1172B),
     (0x1182F, 0x11837), (0x11839, 0x1183A), (0x1193B, 0x1193C), (0x1193E, 0x1193E), (0x11943, 0x11943),
     (0x119D4, 0x119D7), (0x119DA, 0x119DB), (0x119E0, 0x119E0), (0x11A01, 0x11A0A), (0x11A33, 0x11A38),
     (0x11A3B, 0x11A3E), (0x11A47, 0x11A47), (0x11A51, 0x11A56), (0x11A59, 0x11A5B), (0x11A8A, 0x11A96),
     (0x11A98, 0x11A99), (0x11C30, 0x11C36), (0x11C38, 0x11C3D), (0x11C3F, 0x11C3F), (0x11C92, 0x11CA7),
     (0x11CAA, 0x11CB0), (0x11CB2, 0x11CB3), (0x11CB5, 0x11CB6), (0x11D31, 0x11D36), (0x11D3A, 0x11D3A),
     (0x11D3C, 0x11D3D), (0x11D3F, 0x11D45), (0x11D47, 0x11D47), (0x11D90, 0x11D91), (0x11D95, 0x11D95),
     (0x11D97, 0x11D97), (0x11EF3, 0x11EF4), (0x13430, 0x13438), (0x16AF0, 0x16AF4), (0x16B30, 0x16B36),
     (0x16B40, 0x16B43), (0x16F4F, 0x16F4F), (0x16F8F, 0x16F9F), (0x16FE0, 0x16FE1), (0x16FE3, 0x16FE4),
     (0x1AFF0, 0x1AFF3), (0x1AFF5, 0x1AFFB), (0x1AFFD, 0x1AFFE), (0x1BC9D, 0x1BC9E), (0x1BCA0, 0x1BCA3),
     (0x1CF00, 0x1CF2D), (0x1CF30, 0x1CF46), (0x1D167, 0x1D169), (0x1D173, 0x1D182), (0x1D185, 0x1D18B),
     (0x1D1AA, 0x1D1AD), (0x1D242, 0x1D244), (0x1DA00, 0x1DA36), (0x1DA3B, 0x1DA6C), (0x1DA75, 0x1DA75),
     (0x1DA84, 0x1DA84), (0x1DA9B, 0x1DA9F), (0x1DAA1, 0x1DAAF), (0x1E000, 0x1E006), (0x1E008, 0x1E018),
     (0x1E01B, 0x1E021), (0x1E023, 0x1E024), (0x1E026, 0x1E02A), (0x1E130, 0x1E13D), (0x1E2AE, 0x1E2AE),
     (0x1E2EC, 0x1E2EF), (0x1E8D0, 0x1E8D6), (0x1E944, 0x1E94B), (0x1F3FB, 0x1F3FF), (0xE0001, 0xE0001),
     (0xE0020, 0xE007F), (0xE0100, 0xE01EF)]"

definition cased_runs :: "(int \<times> int) list" where
  "cased_runs = [
     (0x41, 0x5A), (0x61, 0x7A), (0xAA, 0xAA), (0xB5, 0xB5), (0xBA, 0xBA),
     (0xC0, 0xD6), (0xD8, 0xF6), (0xF8, 0x1BA), (0x1BC, 0x1BF), (0x1C4, 0x293),
     (0x295, 0x2AF), (0x370, 0x373), (0x376, 0x377), (0x37B, 0x37D), (0x37F, 0x37F),
     (0x386, 0x386), (0x388, 0x38A), (0x38C, 0x38C), (0x38E, 0x3A1), (0x3A3, 0x3F5),
     (0x3F7, 0x481), (0x48A, 0x52F), (0x531, 0x556), (0x560, 0x588), (0x10A0, 0x10C5),
     (0x10C7, 0x10C7), (0x10CD, 0x10CD), (0x10D0, 0x10FA), (0x10FD, 0x10FF), (0x13A0, 0x13F5),
     (0x13F8, 0x13FD), (0x1C80, 0x1C88), (0x1C90, 0x1CBA), (0x1CBD, 0x1CBF), (0x1D00, 0x1D2B),
     (0x1D6B, 0x1D77), (0x1D79, 0x1D9A), (0x1E00, 0x1F15), (0x1F18, 0x1F1D), (0x1F20, 0x1F45),
     (0x1F48, 0x1F4D), (0x1F50, 0x1F57), (0x1F59, 0x1F59), (0x1F5B, 0x1F5B), (0x1F5D, 0x1F5D),
     (0x1F5F, 0x1F7D), (0x1F80, 0x1FB4), (0x1FB6, 0x1FBC), (0x1FBE, 0x1FBE), (0x1FC2, 0x1FC4),
     (0x1FC6, 0x1FCC), (0x1FD0, 0x1FD3), (0x1FD6, 0x1FDB), (0x1FE0, 0x1FEC), (0x1FF2, 0x1FF4),
     (0x1FF6, 0x1FFC), (0x2102, 0x2102), (0x2107, 0x2107), (0x210A, 0x2113), (0x2115, 0x2115),
     (0x2119, 0x211D), (0x2124, 0x2124), (0x2126, 0x2126), (0x2128, 0x2128), (0x212A, 0x212D),
     (0x212F, 0x2134), (0x2139, 0x2139), (0x213C, 0x213F), (0x2145, 0x2149), (0x214E, 0x214E),
     (0x2160, 0x217F), (0x2183, 0x2184), (0x24B6, 0x24E9), (0x2C00, 0x2C7B), (0x2C7E, 0x2CE4),
     (0x2CEB, 0x2CEE), (0x2CF2, 0x2CF3), (0x2D00, 0x2D25), (0x2D27, 0x2D27), (0x2D2D, 0x2D2D),
     (0xA640, 0xA66D), (0xA680, 0xA69B), (0xA722, 0xA76F), (0xA771, 0xA787), (0xA78B, 0xA78E),
     (0xA790, 0xA7CA), (0xA7D0, 0xA7D1), (0xA7D3, 0xA7D3), (0xA7D5, 0xA7D9), (0xA7F5, 0xA7F6),
     (0xA7FA, 0xA7FA), (0xAB30, 0xAB5A), (0xAB60, 0xAB68), (0xAB70, 0xABBF), (0xFB00, 0xFB06),
     (0xFB13, 0xFB17), (0xFF21, 0xFF3A), (0xFF41, 0xFF5A), (0x10400, 0x1044F), (0x104B0, 0x104D3),
     (0x104D8, 0x104FB), (0x10570, 0x1057A), (0x1057C, 0x1058A), (0x1058C, 0x10592), (0x10594, 0x10595),
     (0x10597, 0x105A1), (0x105A3, 0x105B1), (0x105B3, 0x105B9), (0x105BB, 0x105BC), (0x10C80, 0x10CB2),
     (0x10CC0, 0x10CF2), (0x118A0, 0x118DF), (0x16E40, 0x16E7F), (0x1D400, 0x1D454), (0x1D456, 0x1D49C),
     (0x1D49E, 0x1D49F), (0x1D4A2, 0x1D4A2), (0x1D4A5, 0x1D4A6), (0x1D4A9, 0x1D4AC), (0x1D4AE, 0x1D4B9),
     (0x1D4BB, 0x1D4BB), (0x1D4BD, 0x1D4C3), (0x1D4C5, 0x1D505), (0x1D507, 0x1D50A), (0x1D50D, 0x1D514),
     (0x1D516, 0x1D51C), (0x1D51E, 0x1D539), (0x1D53B, 0x1D53E), (0x1D540, 0x1D544), (0x1D546, 0x1D546),
     (0x1D54A, 0x1D550), (0x1D552, 0x1D6A5), (0x1D6A8, 0x1D6C0), (0x1D6C2, 0x1D6DA), (0x1D6DC, 0x1D6FA),
     (0x1D6FC, 0x1D714), (0x1D716, 0x1D734), (0x1D736, 0x1D74E), (0x1D750, 0x1D76E), (0x1D770, 0x1D788),
     (0x1D78A, 0x1D7A8), (0x1D7AA, 0x1D7C2), (0x1D7C4, 0x1D7CB), (0x1DF00, 0x1DF09), (0x1DF0B, 0x1DF1E),
     (0x1E900, 0x1E943), (0x1F130, 0x1F149), (0x1F150, 0x1F169), (0x1F170, 0x1F189)]"

definition case_ignorable :: "int \<Rightarrow> bool" where
  "case_ignorable c = in_runs case_ignorable_runs c"

definition cased :: "int \<Rightarrow> bool" where
  "cased c = in_runs cased_runs c"

text \<open>\<open>seen\<close> holds the characters before the sigma, the nearest first.\<close>

definition final_sigma :: "ustring \<Rightarrow> ustring \<Rightarrow> bool" where
  "final_sigma seen rest =
     ((case dropWhile case_ignorable seen of [] \<Rightarrow> False | b # bs \<Rightarrow> cased b)
      \<and> (case dropWhile case_ignorable rest of [] \<Rightarrow> True | a # cs \<Rightarrow> \<not> cased a))"

fun lower_from :: "ustring \<Rightarrow> ustring \<Rightarrow> ustring" where
  "lower_from seen [] = []"
| "lower_from seen (c # cs) =
     (if c = 0x3A3 then [if final_sigma seen cs then 0x3C2 else 0x3C3] else lower_char c)
     @ lower_from (c # seen) cs"

definition py_lower :: "ustring \<Rightarrow> ustring" where
  "py_lower s = lower_from [] s"

definition py_upper :: "ustring \<Rightarrow> ustring" where
  "py_upper s = concat (map upper_char s)"

text \<open>\<^verbatim>\<open>s.capitalize()\<close>: first character title-cased, the rest lower-cased.\<close>

fun capitalize :: "ustring \<Rightarrow> ustring" where
  "capitalize [] = []"
| "capitalize (c # cs) = title_char c @ lower_from [c] cs"


section \<open>Amino-acid code table\<close>

text \<open>The literal \<^verbatim>\<open>AA_3_TO_1_MAP\<close>, in source order; its keys are distinct.\<close>

definition AA_3_TO_1_items :: "(ustring \<times> ustring) list" where
  "AA_3_TO_1_items = map (\<lambda>(k, v). (py k, py v))
     [(''Ala'', ''A''), (''Arg'', ''R''), (''Asn'', ''N''), (''Asp'', ''D''),
      (''Cys'', ''C''), (''Gln'', ''Q''), (''Glu'', ''E''), (''Gly'', ''G''),
      (''His'', ''H''), (''Ile'', ''I''), (''Leu'', ''L''), (''Lys'', ''K''),
      (''Met'', ''M''), (''Phe'', ''F''), (''Pro'', ''P''), (''Ser'', ''S''),
      (''Thr'', ''T''), (''Trp'', ''W''), (''Tyr'', ''Y''), (''Val'', ''V''),
      (''Ter'', ''*''), (''Stop'', ''*''), (''Xaa'', ''X'')]"

definition AA_3_TO_1_MAP :: "ustring \<rightharpoonup> ustring" where
  "AA_3_TO_1_MAP = map_of AA_3_TO_1_items"

text \<open>
  \<^verbatim>\<open>AA_1_TO_3_MAP = {v: k for k, v in AA_3_TO_1_MAP.items() if len(v) == 1}\<close>: the
  comprehension inserts in source order, so of two entries with the same one-letter code
  the later one stays (\<^verbatim>\<open>*\<close> is bound to \<^verbatim>\<open>Stop\<close>).  \<^const>\<open>map_of\<close> returns the first
  binding, hence the reversal.
\<close>

definition AA_1_TO_3_items :: "(ustring \<times> ustring) list" where
  "AA_1_TO_3_items = rev (map (\<lambda>(k, v). (v, k)) (filter (\<lambda>(k, v). length v = 1) AA_3_TO_1_items))"

definition AA_1_TO_3_MAP :: "ustring \<rightharpoonup> ustring" where
  "AA_1_TO_3_MAP = map_of AA_1_TO_3_items"

definition convert_aa_3_to_1 :: "ustring \<Rightarrow> ustring" where
  "convert_aa_3_to_1 aa_3letter =
     (if aa_3letter \<in> set [py ''del'', py ''ins'', py ''dup'', py ''fs'', py ''ext''] then aa_3letter
      else if py_in (py ''fs'') aa_3letter then
        (let aa_part = py_replace (py ''fs'') [] aa_3letter in
         if aa_part \<noteq> [] then dict_get AA_3_TO_1_MAP (capitalize aa_part) aa_part @ py ''fs''
         else aa_3letter)
      else if py_in (py ''ext'') aa_3letter then
        (let aa_part = py_replace (py ''ext'') [] aa_3letter in
         if aa_part \<noteq> [] then dict_get AA_3_TO_1_MAP (capitalize aa_part) aa_part @ py ''ext''
         else aa_3letter)
      else (let aa_cap = capitalize aa_3letter in dict_get AA_3_TO_1_MAP aa_cap aa_cap))"

definition convert_1_to_3 :: "ustring \<Rightarrow> ustring" where
  "convert_1_to_3 aa_1letter =
     (if aa_1letter = py ''*'' then py ''Ter''
      else dict_get AA_1_TO_3_MAP (py_upper aa_1letter) aa_1letter)"


section \<open>Integers in text\<close>

text \<open>
  \<^verbatim>\<open>int(s)\<close> on a string.  White space at both ends is skipped: the characters of
  \<^verbatim>\<open>str.isspace\<close> without the four separators 0x1C to 0x1F, which \<^verbatim>\<open>int\<close> does not accept.
  One sign may follow; the body is a non-empty run of decimal digits, of any script, in
  which single underscores may separate digits.  More than 4300 digits are refused.  A
  string of any other form raises \<^verbatim>\<open>ValueError\<close>: the model returns \<^const>\<open>None\<close>.
\<close>

definition is_int_space :: "int \<Rightarrow> bool" where
  "is_int_space c = (is_space c \<and> \<not> (0x1C \<le> c \<and> c \<le> 0x1F))"

fun int_body :: "ustring \<Rightarrow> bool" where
  "int_body [] = False"
| "int_body [c] = is_decimal c"
| "int_body (c # d # cs) =
     (is_decimal c \<and> (if d = ch CHR ''_'' then int_body cs else int_body (d # cs)))"

definition dec_value :: "ustring \<Rightarrow> nat" where
  "dec_value ds = foldl (\<lambda>a c. 10 * a + the (decimal_value c)) 0 ds"

definition int_max_str_digits :: nat where
  "int_max_str_digits = 4300"

definition py_int :: "ustring \<Rightarrow> int option" where
  "py_int s =
     (let t = rev (dropWhile is_int_space (rev (dropWhile is_int_space s)));
          neg = (t \<noteq> [] \<and> hd t = ch CHR ''-'');
          body = (if t \<noteq> [] \<and> (hd t = ch CHR ''-'' \<or> hd t = ch CHR ''+'') then tl t else t);
          digits = filter (\<lambda>c. c \<noteq> ch CHR ''_'') body
      in if int_body body \<and> length digits \<le> int_max_str_digits
         then Some ((if neg then - 1 else 1) * int (dec_value digits))
         else None)"

text \<open>
  \<^verbatim>\<open>str(n)\<close> for an integer, as the f-string of the SPDI position renders it.  (The
  converter renders one less than a position that \<^verbatim>\<open>int\<close> accepted and found positive, which
  has at most 4300 digits; the limit on the conversion to text is therefore never met.)
\<close>

definition digit_char :: "nat \<Rightarrow> int" where
  "digit_char d = 48 + int d"

fun dec_digits :: "nat \<Rightarrow> ustring" where
  "dec_digits n = (if n < 10 then [digit_char n] else dec_digits (n div 10) @ [digit_char (n mod 10)])"

declare dec_digits.simps [simp del]

definition py_str_int :: "int \<Rightarrow> ustring" where
  "py_str_int i = (if i < 0 then ch CHR ''-'' # dec_digits (nat (- i)) else dec_digits (nat i))"


section \<open>Regular expressions\<close>

text \<open>
  The fragment of Python's \<^verbatim>\<open>re\<close> that \<^verbatim>\<open>parse_hgvsp\<close> uses, with the semantics of a
  backtracking matcher: all ways of matching a prefix of the text are listed, in the order
  in which the matcher tries them, and \<^verbatim>\<open>re.match\<close> takes the first one.  Quantifiers are
  greedy.  A capturing group appends the text it consumed to the list of groups; no pattern
  of the parser nests groups, so this list is in the order of \<^verbatim>\<open>match.groups()\<close>, up to
  trailing groups that took no part in the match.
\<close>

datatype cls = Alpha | Digit | NotColon

fun in_cls :: "cls \<Rightarrow> int \<Rightarrow> bool" where
  "in_cls Alpha c = is_ascii_alpha c"
| "in_cls Digit c = is_decimal c"
| "in_cls NotColon c = (c \<noteq> ch CHR '':'')"

datatype rx =
    Lit ustring
  | Plus cls
  | Rep nat cls
  | Seq rx rx
  | Alt rx rx
  | Opt rx
  | Grp rx
  | Eol

type_synonym mstate = "ustring \<times> ustring list"

fun rmatch :: "rx \<Rightarrow> mstate \<Rightarrow> mstate list" where
  "rmatch (Lit t) (s, g) = (if startswith s t then [(drop (length t) s, g)] else [])"
| "rmatch (Plus c) (s, g) =
     map (\<lambda>k. (drop k s, g)) (rev [1 ..< Suc (length (takeWhile (in_cls c) s))])"
| "rmatch (Rep n c) (s, g) =
     (if n \<le> length s \<and> list_all (in_cls c) (take n s) then [(drop n s, g)] else [])"
| "rmatch (Seq a b) x = concat (map (rmatch b) (rmatch a x))"
| "rmatch (Alt a b) x = rmatch a x @ rmatch b x"
| "rmatch (Opt a) x = rmatch a x @ [x]"
| "rmatch (Grp a) (s, g) =
     map (\<lambda>(s', g'). (s', g' @ [take (length s - length s') s])) (rmatch a (s, g))"
| "rmatch Eol (s, g) = (if s = [] \<or> s = [0x0A] then [(s, g)] else [])"

definition seqs :: "rx list \<Rightarrow> rx" where
  "seqs rs = foldr Seq rs (Lit [])"

text \<open>\<^verbatim>\<open>re.match(pattern, s)\<close>: the groups of the first match at the start of \<^verbatim>\<open>s\<close>.\<close>

definition re_match :: "rx \<Rightarrow> ustring \<Rightarrow> ustring list option" where
  "re_match r s = (case rmatch r (s, []) of [] \<Rightarrow> None | (s', g) # ms \<Rightarrow> Some g)"

text \<open>A pattern without capturing groups.\<close>

fun groupless :: "rx \<Rightarrow> bool" where
  "groupless (Grp a) = False"
| "groupless (Seq a b) = (groupless a \<and> groupless b)"
| "groupless (Alt a b) = (groupless a \<and> groupless b)"
| "groupless (Opt a) = groupless a"
| "groupless r = True"


section \<open>Notation parser (class VariantParser)\<close>

text \<open>\<^verbatim>\<open>^([^:]+):p\.?\(?([A-Za-z]{3})(\d+)([A-Za-z]{3}|\*)\)?$\<close>\<close>

definition pattern :: rx where
  "pattern = seqs [Grp (Plus NotColon), Lit (py '':p''), Opt (Lit (py ''.'')), Opt (Lit (py ''('')),
     Grp (Rep 3 Alpha), Grp (Plus Digit), Grp (Alt (Rep 3 Alpha) (Lit (py ''*''))),
     Opt (Lit (py '')'')), Eol]"

text \<open>\<^verbatim>\<open>^([^:]+):p\.?\(?([A-Za-z]{3})(\d+)([A-Za-z]{3})fs(?:Ter(\d+))?\<close>\<close>

definition fs_pattern :: rx where
  "fs_pattern = seqs [Grp (Plus NotColon), Lit (py '':p''), Opt (Lit (py ''.'')), Opt (Lit (py ''('')),
     Grp (Rep 3 Alpha), Grp (Plus Digit), Grp (Rep 3 Alpha), Lit (py ''fs''),
     Opt (Seq (Lit (py ''Ter'')) (Grp (Plus Digit)))]"

text \<open>\<^verbatim>\<open>^([^:]+):p\.?\(?([A-Za-z]{3})(\d+)(?:_[A-Za-z]{3}\d+)?del\<close>\<close>

definition del_pattern :: rx where
  "del_pattern = seqs [Grp (Plus NotColon), Lit (py '':p''), Opt (Lit (py ''.'')), Opt (Lit (py ''('')),
     Grp (Rep 3 Alpha), Grp (Plus Digit),
     Opt (seqs [Lit (py ''_''), Rep 3 Alpha, Plus Digit]), Lit (py ''del'')]"

text \<open>\<^verbatim>\<open>^([^:]+):p\.?\(?([A-Za-z]{3})(\d+)_[A-Za-z]{3}\d+ins[A-Za-z]+\<close>\<close>

definition ins_pattern :: rx where
  "ins_pattern = seqs [Grp (Plus NotColon), Lit (py '':p''), Opt (Lit (py ''.'')), Opt (Lit (py ''('')),
     Grp (Rep 3 Alpha), Grp (Plus Digit),
     Lit (py ''_''), Rep 3 Alpha, Plus Digit, Lit (py ''ins''), Plus Alpha]"

text \<open>\<^verbatim>\<open>^([^:]+):p\.?\(?([A-Za-z]{3})(\d+)(?:_[A-Za-z]{3}\d+)?dup\<close>\<close>

definition dup_pattern :: rx where
  "dup_pattern = seqs [Grp (Plus NotColon), Lit (py '':p''), Opt (Lit (py ''.'')), Opt (Lit (py ''('')),
     Grp (Rep 3 Alpha), Grp (Plus Digit),
     Opt (seqs [Lit (py ''_''), Rep 3 Alpha, Plus Digit]), Lit (py ''dup'')]"

text \<open>\<^verbatim>\<open>^([^:]+):p\.?\(?\*(\d+)([A-Za-z]{3})ext\<close>\<close>

definition ext_pattern :: rx where
  "ext_pattern = seqs [Grp (Plus NotColon), Lit (py '':p''), Opt (Lit (py ''.'')), Opt (Lit (py ''('')),
     Lit (py ''*''), Grp (Plus Digit), Grp (Rep 3 Alpha), Lit (py ''ext'')]"

text \<open>
  \<^verbatim>\<open>parse_hgvsp\<close> returns \<^verbatim>\<open>(protein_id, position, ref_aa, alt_aa)\<close> or \<^verbatim>\<open>None\<close>.  The
  logging calls have no effect on the result and are left out, here and below.
\<close>

type_synonym protein_change = "ustring \<times> ustring \<times> ustring \<times> ustring"

definition parse_hgvsp :: "ustring \<Rightarrow> protein_change option" where
  "parse_hgvsp hgvsp0 =
     (if hgvsp0 = [] \<or> hgvsp0 = py ''-'' then None
      else let hgvsp = py_replace (py ''%3D'') (py ''='') hgvsp0 in
        if ch CHR ''='' \<in> set hgvsp then None
        else (case re_match pattern hgvsp of
            Some g \<Rightarrow> Some (g ! 0, g ! 2, g ! 1, g ! 3)
          | None \<Rightarrow>
        (case re_match fs_pattern hgvsp of
            Some g \<Rightarrow> Some (g ! 0, g ! 2, g ! 1, g ! 3 @ py ''fs'')
          | None \<Rightarrow>
        (case re_match del_pattern hgvsp of
            Some g \<Rightarrow> Some (g ! 0, g ! 2, g ! 1, py ''del'')
          | None \<Rightarrow>
        (case re_match ins_pattern hgvsp of
            Some g \<Rightarrow> Some (g ! 0, g ! 2, g ! 1, py ''ins'')
          | None \<Rightarrow>
        (case re_match dup_pattern hgvsp of
            Some g \<Rightarrow> Some (g ! 0, g ! 2, g ! 1, py ''dup'')
          | None \<Rightarrow>
        (case re_match ext_pattern hgvsp of
            Some g \<Rightarrow> Some (g ! 0, g ! 1, py ''*'', g ! 2 @ py ''ext'')
          | None \<Rightarrow> None)))))))"

definition extract_rsid :: "ustring \<Rightarrow> ustring option" where
  "extract_rsid existing_variation =
     (if existing_variation = [] \<or> existing_variation = py ''-'' then None
      else find (\<lambda>v. startswith (py_lower v) (py ''rs'') \<and> py_isdigit (drop 2 v))
                (map py_strip (py_split (ch CHR '','') existing_variation)))"

definition VALID_CHROMOSOMES :: "ustring list" where
  "VALID_CHROMOSOMES =
     map (\<lambda>i. py ''chr'' @ dec_digits i) [1 ..< 23]
     @ [py ''chrX'', py ''chrY'', py ''chrM'', py ''chrMT'']
     @ map dec_digits [1 ..< 23] @ [py ''X'', py ''Y'', py ''M'', py ''MT'']"

definition validate_chromosome :: "ustring \<Rightarrow> bool" where
  "validate_chromosome chrom =
     (chrom \<in> set VALID_CHROMOSOMES \<or> startswith chrom (py ''chr'') \<or> py_isdigit chrom)"

definition validate_position :: "ustring \<Rightarrow> bool" where
  "validate_position pos = (case py_int pos of Some position \<Rightarrow> position > 0 | None \<Rightarrow> False)"


section \<open>Conversion driver state and rows (class BedToJsonConverter)\<close>

record stats =
  total_rows :: nat
  processed :: nat
  skipped :: nat
  errors :: nat
  missing_rsid :: nat
  missing_hgvsp :: nat
  invalid_chromosome :: nat
  invalid_position :: nat

definition init_stats :: stats where
  "init_stats = \<lparr>total_rows = 0, processed = 0, skipped = 0, errors = 0, missing_rsid = 0,
     missing_hgvsp = 0, invalid_chromosome = 0, invalid_position = 0\<rparr>"

text \<open>
  A variant record is an \<^verbatim>\<open>OrderedDict\<close> from keys to strings; every key is assigned once,
  so the record is the list of its items in insertion order.
\<close>

type_synonym variant = "(ustring \<times> ustring) list"

type_synonym column_map = "ustring \<rightharpoonup> nat"

datatype error = IndexError | ValueError

definition required_columns :: "ustring list" where
  "required_columns = map py [''CHROM'', ''POS'', ''ID'', ''REF'', ''ALT'', ''SYMBOL'',
     ''Existing_variation'', ''Gene'', ''Feature'', ''Protein_position'',
     ''Amino_acids'', ''MANE_SELECT'', ''HGVSc'', ''HGVSp'']"

text \<open>
  \<^verbatim>\<open>parse_header\<close> returns whether the header is usable, together with the column map it
  stored.  Of two columns with the same name the later index stays.  \<^verbatim>\<open>header[0]\<close> raises
  on an empty header.
\<close>

definition parse_header :: "ustring list \<Rightarrow> error + (bool \<times> column_map)" where
  "parse_header header =
     (case header of
        [] \<Rightarrow> Inl IndexError
      | h # hs \<Rightarrow>
          (let header' = (if startswith h (py ''#'') then drop 1 h # hs else h # hs);
               cm = foldl (\<lambda>m (idx, col). m(col \<mapsto> idx)) Map.empty (enumerate 0 header');
               missing_columns = filter (\<lambda>col. cm col = None) required_columns
           in Inr (missing_columns = [], cm)))"

definition get_column_value :: "column_map \<Rightarrow> ustring list \<Rightarrow> ustring \<Rightarrow> ustring" where
  "get_column_value cm row column_name =
     (case cm column_name of
        None \<Rightarrow> []
      | Some idx \<Rightarrow> if idx < length row then py_strip (row ! idx) else [])"

text \<open>\<^verbatim>\<open>extract_clean_change\<close> and \<^verbatim>\<open>extract_clean_protein_change\<close> have the same body.\<close>

definition extract_clean_change :: "ustring \<Rightarrow> ustring" where
  "extract_clean_change hgvsc =
     (if ch CHR '':'' \<in> set hgvsc
      then (let parts = py_split1 (ch CHR '':'') hgvsc in
            if length parts \<ge> 2 then parts ! 1 else hgvsc)
      else hgvsc)"

definition extract_clean_protein_change :: "ustring \<Rightarrow> ustring" where
  "extract_clean_protein_change hgvsp =
     (if ch CHR '':'' \<in> set hgvsp
      then (let parts = py_split1 (ch CHR '':'') hgvsp in
            if length parts \<ge> 2 then parts ! 1 else hgvsp)
      else hgvsp)"

definition parse_amino_acids :: "ustring \<Rightarrow> (ustring \<times> ustring) option" where
  "parse_amino_acids amino_acids =
     (if amino_acids = [] \<or> amino_acids = py ''-'' then None
      else (let parts = (if ch CHR ''/'' \<in> set amino_acids then py_split1 (ch CHR ''/'') amino_acids
                         else if ch CHR ''>'' \<in> set amino_acids then py_split1 (ch CHR ''>'') amino_acids
                         else [])
            in if length parts = 2
               then (let ref_aa = py_strip (parts ! 0); alt_aa = py_strip (parts ! 1) in
                     if ref_aa \<noteq> [] \<and> alt_aa \<noteq> [] then Some (ref_aa, alt_aa) else None)
               else None))"

definition handle_multiallelic :: "ustring \<Rightarrow> ustring list" where
  "handle_multiallelic alt =
     (if ch CHR '','' \<in> set alt
      then [py_strip a. a \<leftarrow> py_split (ch CHR '','') alt, py_strip a \<noteq> []]
      else [alt])"

text \<open>\<^verbatim>\<open>if rsid:\<close> on an optional string: neither \<^verbatim>\<open>None\<close> nor empty.\<close>

definition truthy :: "ustring option \<Rightarrow> bool" where
  "truthy r = (case r of None \<Rightarrow> False | Some s \<Rightarrow> s \<noteq> [])"

text \<open>The recurring test \<^verbatim>\<open>x and x != '-'\<close> on a column value.\<close>

definition present :: "ustring \<Rightarrow> bool" where
  "present s = (s \<noteq> [] \<and> s \<noteq> py ''-'')"

text \<open>
  The record built from \<^verbatim>\<open>Protein_position\<close> and \<^verbatim>\<open>Amino_acids\<close> when the row has no HGVSp
  (the body of the innermost \<^verbatim>\<open>if aa_parsed:\<close> of \<^verbatim>\<open>process_row\<close>).
\<close>

definition fallback_variant ::
  "ustring \<Rightarrow> ustring option \<Rightarrow> ustring \<Rightarrow> ustring \<Rightarrow> ustring \<Rightarrow> ustring \<Rightarrow> ustring
    \<Rightarrow> ustring \<Rightarrow> ustring \<Rightarrow> variant" where
  "fallback_variant var_id rsid spdi hgvsc mane_select gene_symbol protein_position
       ref_aa_1 alt_aa_1 =
     (let ref_aa_3 = (if length ref_aa_1 = 1 then convert_1_to_3 ref_aa_1 else ref_aa_1);
          alt_aa_3 = (if length alt_aa_1 = 1 then convert_1_to_3 alt_aa_1 else alt_aa_1);
          prot = py ''p.'' @ ref_aa_3 @ protein_position @ alt_aa_3
      in [(py ''internal_id'', var_id)]
         @ (if truthy rsid then [(py ''rsid'', the rsid)] else [])
         @ [(py ''spdi'', spdi)]
         @ (if present hgvsc
            then (let clean_hgvsc = extract_clean_change hgvsc in
                  [(py ''hgvs_full'',
                    (if present mane_select
                     then (let mane_transcript = py_strip (hd (py_split (ch CHR '','') mane_select)) in
                           if startswith mane_transcript (py ''NM_'')
                           then mane_transcript @ py ''('' @ gene_symbol @ py ''):'' @ clean_hgvsc
                                  @ py ''('' @ prot @ py '')''
                           else gene_symbol @ py '':'' @ clean_hgvsc @ py ''('' @ prot @ py '')'')
                     else gene_symbol @ py '':'' @ clean_hgvsc @ py ''('' @ prot @ py '')'')),
                   (py ''hgvsc'', gene_symbol @ py '' '' @ clean_hgvsc)])
            else [])
         @ [(py ''hgvsp_3p'', gene_symbol @ py '' p.'' @ ref_aa_3 @ protein_position @ alt_aa_3),
            (py ''hgvsp_3'', gene_symbol @ py '' '' @ ref_aa_3 @ protein_position @ alt_aa_3),
            (py ''hgvsp_1p'', gene_symbol @ py '' p.'' @ ref_aa_1 @ protein_position @ alt_aa_1),
            (py ''hgvsp_1'', gene_symbol @ py '' '' @ ref_aa_1 @ protein_position @ alt_aa_1)])"

text \<open>The record built from a parsed HGVSp (the tail of \<^verbatim>\<open>process_row\<close>).\<close>

definition primary_variant ::
  "ustring \<Rightarrow> ustring option \<Rightarrow> ustring \<Rightarrow> ustring \<Rightarrow> ustring \<Rightarrow> ustring \<Rightarrow> ustring
    \<Rightarrow> protein_change \<Rightarrow> variant" where
  "primary_variant var_id rsid spdi hgvsc hgvsp mane_select gene_symbol hgvsp_parsed =
     (case hgvsp_parsed of (protein_id, position, ref_aa_3, alt_aa_3) \<Rightarrow>
      (let ref_aa_1 = convert_aa_3_to_1 ref_aa_3;
           alt_aa_1 = convert_aa_3_to_1 alt_aa_3;
           clean_hgvsc = (if present hgvsc then extract_clean_change hgvsc else []);
           clean_hgvsp = extract_clean_protein_change hgvsp;
           plain = (if clean_hgvsc \<noteq> []
                    then gene_symbol @ py '':'' @ clean_hgvsc @ py ''('' @ clean_hgvsp @ py '')''
                    else gene_symbol @ py '':'' @ clean_hgvsp)
       in [(py ''internal_id'', var_id)]
          @ (if truthy rsid then [(py ''rsid'', the rsid)] else [])
          @ [(py ''spdi'', spdi)]
          @ [(py ''hgvs_full'',
              (if present mane_select
               then (let mane_transcript = py_strip (hd (py_split (ch CHR '','') mane_select)) in
                     if startswith mane_transcript (py ''NM_'')
                     then (if clean_hgvsc \<noteq> []
                           then mane_transcript @ py ''('' @ gene_symbol @ py ''):'' @ clean_hgvsc
                                  @ py ''('' @ clean_hgvsp @ py '')''
                           else mane_transcript @ py ''('' @ gene_symbol @ py ''):'' @ clean_hgvsp)
                     else plain)
               else plain))]
          @ (if clean_hgvsc \<noteq> [] then [(py ''hgvsc'', gene_symbol @ py '' '' @ clean_hgvsc)] else [])
          @ [(py ''hgvsp_3p'', gene_symbol @ py '' p.'' @ ref_aa_3 @ position @ alt_aa_3),
             (py ''hgvsp_3'', gene_symbol @ py '' '' @ ref_aa_3 @ position @ alt_aa_3),
             (py ''hgvsp_1p'', gene_symbol @ py '' p.'' @ ref_aa_1 @ position @ alt_aa_1),
             (py ''hgvsp_1'', gene_symbol @ py '' '' @ ref_aa_1 @ position @ alt_aa_1)]))"

text \<open>
  The body of the \<^verbatim>\<open>try\<close> block of \<^verbatim>\<open>process_row\<close>: the record or \<^verbatim>\<open>None\<close>, or the
  exception raised, together with the counters as they stand at that moment.  The only
  expressions that can raise are \<^verbatim>\<open>alt_alleles[0]\<close> and \<^verbatim>\<open>int(pos)\<close>.
\<close>

definition process_row_try ::
  "column_map \<Rightarrow> ustring list \<Rightarrow> stats \<Rightarrow> (error + variant option) \<times> stats" where
  "process_row_try cm row st =
     (let chrom = get_column_value cm row (py ''CHROM'');
          pos = get_column_value cm row (py ''POS'');
          var_id = get_column_value cm row (py ''ID'');
          ref = get_column_value cm row (py ''REF'');
          alt = get_column_value cm row (py ''ALT'');
          gene_symbol = get_column_value cm row (py ''SYMBOL'')
      in if \<not> validate_chromosome chrom
         then (Inr None, st\<lparr>invalid_chromosome := invalid_chromosome st + 1\<rparr>)
         else if \<not> validate_position pos
         then (Inr None, st\<lparr>invalid_position := invalid_position st + 1\<rparr>)
         else if startswith var_id (py ''Sniffles2'')
         then (Inr None, st)
         else
          (let existing_variation = get_column_value cm row (py ''Existing_variation'');
               hgvsc = get_column_value cm row (py ''HGVSc'');
               hgvsp = get_column_value cm row (py ''HGVSp'');
               mane_select = get_column_value cm row (py ''MANE_SELECT'');
               protein_position = get_column_value cm row (py ''Protein_position'');
               amino_acids = get_column_value cm row (py ''Amino_acids'');
               rsid = extract_rsid existing_variation;
               st1 = (if \<not> truthy rsid then st\<lparr>missing_rsid := missing_rsid st + 1\<rparr> else st)
           in case handle_multiallelic alt of
                [] \<Rightarrow> (Inl IndexError, st1)
              | alt0 # other_alleles \<Rightarrow>
             (case py_int pos of
                None \<Rightarrow> (Inl ValueError, st1)
              | Some p \<Rightarrow>
             (let spdi_pos = p - 1;
                  spdi_chrom = py_replace (py ''chr'') [] chrom;
                  spdi = spdi_chrom @ py '':'' @ py_str_int spdi_pos @ py '':'' @ ref @ py '':'' @ alt0
              in if \<not> present hgvsp
                 then (let st2 = st1\<lparr>missing_hgvsp := missing_hgvsp st1 + 1\<rparr> in
                       if present protein_position
                       then (case parse_amino_acids amino_acids of
                               Some (ref_aa_1, alt_aa_1) \<Rightarrow>
                                 (Inr (Some (fallback_variant var_id rsid spdi hgvsc mane_select
                                        gene_symbol protein_position ref_aa_1 alt_aa_1)), st2)
                             | None \<Rightarrow> (Inr None, st2))
                       else (Inr None, st2))
                 else (case parse_hgvsp hgvsp of
                         None \<Rightarrow> (Inr None, st1)
                       | Some hgvsp_parsed \<Rightarrow>
                           (Inr (Some (primary_variant var_id rsid spdi hgvsc hgvsp mane_select
                                  gene_symbol hgvsp_parsed)), st1))))))"

text \<open>\<^verbatim>\<open>process_row\<close>: \<^verbatim>\<open>except Exception\<close> counts the row under \<^verbatim>\<open>errors\<close> and returns \<^verbatim>\<open>None\<close>.\<close>

definition process_row :: "column_map \<Rightarrow> ustring list \<Rightarrow> stats \<Rightarrow> variant option \<times> stats" where
  "process_row cm row st =
     (case process_row_try cm row st of
        (Inr result, st') \<Rightarrow> (result, st')
      | (Inl e, st') \<Rightarrow> (None, st'\<lparr>errors := errors st' + 1\<rparr>))"

text \<open>
  What the drivers write.  The JSON text of a record is produced by \<^verbatim>\<open>json.dump\<close>, outside
  the converter; an output is therefore a sequence of plain writes and of dumps of a record
  (streaming) or of a list of records (buffered).
\<close>

datatype out_event = Write ustring | JsonDump variant | JsonDumpList "variant list"

text \<open>\<^verbatim>\<open>if variant:\<close> in the drivers: a record that is neither \<^verbatim>\<open>None\<close> nor empty.\<close>

definition accepted :: "variant option \<Rightarrow> bool" where
  "accepted v = (case v of None \<Rightarrow> False | Some d \<Rightarrow> d \<noteq> [])"

text \<open>The row loop of \<^verbatim>\<open>process_file_streaming\<close>: counters, \<^verbatim>\<open>first_variant\<close>, the writes so far.\<close>

fun stream_rows ::
  "column_map \<Rightarrow> ustring list list \<Rightarrow> stats \<times> bool \<times> out_event list
    \<Rightarrow> stats \<times> bool \<times> out_event list" where
  "stream_rows cm [] acc = acc"
| "stream_rows cm (row # rows) (st, first_variant, out) =
     (case process_row cm row (st\<lparr>total_rows := total_rows st + 1\<rparr>) of (variant, st') \<Rightarrow>
        if accepted variant
        then stream_rows cm rows
               (st'\<lparr>processed := processed st' + 1\<rparr>, False,
                out @ (if \<not> first_variant then [Write [ch CHR '','', 0x0A]] else [])
                    @ [JsonDump (the variant)])
        else stream_rows cm rows (st'\<lparr>skipped := skipped st' + 1\<rparr>, first_variant, out))"

text \<open>The row loop of the buffered branch of \<^verbatim>\<open>convert_file\<close>: counters and \<^verbatim>\<open>variants\<close>.\<close>

fun buffer_rows ::
  "column_map \<Rightarrow> ustring list list \<Rightarrow> stats \<times> variant list \<Rightarrow> stats \<times> variant list" where
  "buffer_rows cm [] acc = acc"
| "buffer_rows cm (row # rows) (st, variants) =
     (case process_row cm row (st\<lparr>total_rows := total_rows st + 1\<rparr>) of (variant, st') \<Rightarrow>
        if accepted variant
        then buffer_rows cm rows (st'\<lparr>processed := processed st' + 1\<rparr>, variants @ [the variant])
        else buffer_rows cm rows (st'\<lparr>skipped := skipped st' + 1\<rparr>, variants))"

text \<open>
  The two drivers.  The input file is given by what \<^verbatim>\<open>csv.reader\<close> makes of it: the rows it
  yields (header first) and whether it then comes to the end of the file or raises (bytes
  that are not UTF-8, a field longer than the limit of the \<^verbatim>\<open>csv\<close> module).  The result is
  the success flag, the writes to the output file and the final counters.  A missing or
  unusable header ends the run with \<^verbatim>\<open>False\<close> before any write.  An exception raised while
  reading is caught by \<^verbatim>\<open>except Exception\<close>, which returns \<^verbatim>\<open>False\<close>: the streaming driver has
  then written the records of the rows read so far, and they stay in the output file, which
  the \<^verbatim>\<open>with\<close> statement closes; the buffered driver has not opened the output file yet.  The
  files can be opened and the output file takes every write.
\<close>

definition process_file_streaming ::
  "ustring list list \<Rightarrow> bool \<Rightarrow> bool \<times> out_event list \<times> stats" where
  "process_file_streaming file_rows read_fails =
     (case file_rows of
        [] \<Rightarrow> (False, [], init_stats)
      | header # data \<Rightarrow>
          if header = [] then (False, [], init_stats)
          else (case parse_header header of
                  Inl e \<Rightarrow> (False, [], init_stats)
                | Inr (ok, cm) \<Rightarrow>
                    if \<not> ok then (False, [], init_stats)
                    else (case stream_rows cm data (init_stats, True, [Write [ch CHR ''['', 0x0A]]) of
                            (st, first_variant, out) \<Rightarrow>
                              if read_fails then (False, out, st)
                              else (True, out @ [Write [0x0A, ch CHR '']'', 0x0A]], st))))"

definition convert_file ::
  "bool \<Rightarrow> ustring list list \<Rightarrow> bool \<Rightarrow> bool \<times> out_event list \<times> stats" where
  "convert_file stream_output file_rows read_fails =
     (if stream_output then process_file_streaming file_rows read_fails
      else (case file_rows of
              [] \<Rightarrow> (False, [], init_stats)
            | header # data \<Rightarrow>
                if header = [] then (False, [], init_stats)
                else (case parse_header header of
                        Inl e \<Rightarrow> (False, [], init_stats)
                      | Inr (ok, cm) \<Rightarrow>
                          if \<not> ok then (False, [], init_stats)
                          else (case buffer_rows cm data (init_stats, []) of
                                  (st, variants) \<Rightarrow>
                                    if read_fails then (False, [], st)
                                    else (True, [JsonDumpList variants], st)))))"

text \<open>The records an output holds, in the order in which they stand in it.\<close>

fun records_of :: "out_event list \<Rightarrow> variant list" where
  "records_of [] = []"
| "records_of (Write t # es) = records_of es"
| "records_of (JsonDump v # es) = v # records_of es"
| "records_of (JsonDumpList vs # es) = vs @ records_of es"


section \<open>Vocabulary of the properties\<close>

text \<open>The codes of the table: the one-letter values and the three-letter keys.\<close>

definition one_letter_codes :: "ustring list" where
  "one_letter_codes = map snd AA_3_TO_1_items"

definition three_letter_codes :: "ustring list" where
  "three_letter_codes = map fst AA_3_TO_1_items"

text \<open>
  A header with the fourteen required columns, the column map \<^verbatim>\<open>parse_header\<close> stores for
  it, and a row given by its fourteen fields in that order; the examples below use them.
\<close>

definition std_header :: "ustring list" where
  "std_header = map py [''#CHROM'', ''POS'', ''ID'', ''REF'', ''ALT'', ''SYMBOL'',
     ''Existing_variation'', ''Gene'', ''Feature'', ''Protein_position'',
     ''Amino_acids'', ''MANE_SELECT'', ''HGVSc'', ''HGVSp'']"

definition std_cm :: column_map where
  "std_cm = (case parse_header std_header of Inr (ok, cm) \<Rightarrow> cm | Inl e \<Rightarrow> Map.empty)"

text \<open>The value of an alias of an emitted record.\<close>

definition alias_value :: "variant option \<Rightarrow> ustring \<Rightarrow> ustring option" where
  "alias_value v key = (case v of None \<Rightarrow> None | Some d \<Rightarrow> map_of d key)"

text \<open>The record of a row, whatever the counters, and the records of the accepted rows in row order.\<close>

definition row_record :: "column_map \<Rightarrow> ustring list \<Rightarrow> variant option" where
  "row_record cm row = fst (process_row cm row init_stats)"

definition records_in_row_order :: "column_map \<Rightarrow> ustring list list \<Rightarrow> variant list" where
  "records_in_row_order cm rows =
     concat (map (\<lambda>row. if accepted (row_record cm row) then [the (row_record cm row)] else []) rows)"

text \<open>
  The chromosome without its \<^verbatim>\<open>chr\<close> prefix, in the words of the specification and of the
  comment above \<^verbatim>\<open>chrom.replace('chr', '')\<close>.
\<close>

definition spec_chrom_without_chr_prefix :: "ustring \<Rightarrow> ustring" where
  "spec_chrom_without_chr_prefix chrom = (if startswith chrom (py ''chr'') then drop 3 chrom else chrom)"


text \<open>
  Two rows that agree, as \<^verbatim>\<open>process_row\<close> reads them, in every column it reads other than
  \<^verbatim>\<open>HGVSp\<close>.
\<close>

definition other_columns :: "ustring list" where
  "other_columns = map py [''CHROM'', ''POS'', ''ID'', ''REF'', ''ALT'', ''SYMBOL'',
     ''Existing_variation'', ''HGVSc'', ''MANE_SELECT'', ''Protein_position'', ''Amino_acids'']"

definition same_but_hgvsp :: "column_map \<Rightarrow> ustring list \<Rightarrow> ustring list \<Rightarrow> bool" where
  "same_but_hgvsp cm row_a row_b =
     list_all (\<lambda>col. get_column_value cm row_a col = get_column_value cm row_b col) other_columns"


section \<open>Example rows\<close>

text \<open>
  Rows under \<^const>\<open>std_header\<close>, fields in its order.  The first has a simple substitution
  in \<^verbatim>\<open>HGVSp\<close>; each of the others differs from it in the field its name tells.
\<close>

definition ex_primary :: "ustring list" where
  "ex_primary = map py [''chr1'', ''100'', ''var1'', ''G'', ''A'', ''GENE'',
     ''rs123'', ''ENSG1'', ''ENST1'', ''446'', ''A/T'', ''-'', ''-'', ''X:p.Ala446Thr'']"

definition ex_fallback :: "ustring list" where
  "ex_fallback = map py [''chr1'', ''100'', ''var1'', ''G'', ''A'', ''GENE'',
     ''rs123'', ''ENSG1'', ''ENST1'', ''446'', ''A/T'', ''-'', ''-'', ''-'']"

definition ex_unparsed :: "ustring list" where
  "ex_unparsed = map py [''chr1'', ''100'', ''var1'', ''G'', ''A'', ''GENE'',
     ''rs123'', ''ENSG1'', ''ENST1'', ''1'', ''M/V'', ''-'', ''-'', ''X:p.Met1?'']"


definition ex_sniffles :: "ustring list" where
  "ex_sniffles = map py [''chr1'', ''100'', ''Sniffles2.INS.1'', ''G'', ''A'', ''GENE'',
     ''rs123'', ''ENSG1'', ''ENST1'', ''446'', ''A/T'', ''-'', ''-'', ''X:p.Ala446Thr'']"

definition ex_three_letter :: "ustring list" where
  "ex_three_letter = map py [''chr1'', ''100'', ''var1'', ''G'', ''A'', ''GENE'',
     ''rs123'', ''ENSG1'', ''ENST1'', ''446'', ''Ala/Thr'', ''-'', ''-'', ''-'']"

definition ex_breakend :: "ustring list" where
  "ex_breakend = map py [''chr1'', ''100'', ''var1'', ''G'', ''G]17:198982]'', ''GENE'',
     ''rs123'', ''ENSG1'', ''ENST1'', ''446'', ''A/T'', ''-'', ''-'', ''X:p.Ala446Thr'']"

definition ex_blank_alt :: "ustring list" where
  "ex_blank_alt = map py [''chr1'', ''100'', ''var1'', ''G'', '' '', ''GENE'',
     ''rs123'', ''ENSG1'', ''ENST1'', ''446'', ''A/T'', ''-'', ''-'', ''X:p.Ala446Thr'']"

definition ex_comma_alt :: "ustring list" where
  "ex_comma_alt = map py [''chr1'', ''100'', ''var1'', ''G'', '' , ,'', ''GENE'',
     ''rs123'', ''ENSG1'', ''ENST1'', ''446'', ''A/T'', ''-'', ''-'', ''X:p.Ala446Thr'']"

text \<open>The records of \<^const>\<open>ex_primary\<close> and of \<^const>\<open>ex_fallback\<close>.\<close>

definition ex_primary_record :: variant where
  "ex_primary_record =
     [(py ''internal_id'', py ''var1''), (py ''rsid'', py ''rs123''), (py ''spdi'', py ''1:99:G:A''),
      (py ''hgvs_full'', py ''GENE:p.Ala446Thr''),
      (py ''hgvsp_3p'', py ''GENE p.Ala446Thr''), (py ''hgvsp_3'', py ''GENE Ala446Thr''),
      (py ''hgvsp_1p'', py ''GENE p.A446T''), (py ''hgvsp_1'', py ''GENE A446T'')]"

definition ex_fallback_record :: variant where
  "ex_fallback_record =
     [(py ''internal_id'', py ''var1''), (py ''rsid'', py ''rs123''), (py ''spdi'', py ''1:99:G:A''),
      (py ''hgvsp_3p'', py ''GENE p.Ala446Thr''), (py ''hgvsp_3'', py ''GENE Ala446Thr''),
      (py ''hgvsp_1p'', py ''GENE p.A446T''), (py ''hgvsp_1'', py ''GENE A446T'')]"


section \<open>String literals\<close>

lemma ch_simps:
  "ch CHR '':'' = 58" "ch CHR '','' = 44" "ch CHR ''/'' = 47" "ch CHR ''>'' = 62"
  "ch CHR ''-'' = 45" "ch CHR ''+'' = 43" "ch CHR ''_'' = 95" "ch CHR ''='' = 61"
  by (simp_all add: ch_def)

lemma py_Nil [simp]: "py [] = []"
  by (simp add: py_def)

lemma py_eq_Nil [simp]: "py s = [] \<longleftrightarrow> s = []"
  by (simp add: py_def)

lemma py_inject [simp]: "py s = py t \<longleftrightarrow> s = t"
  by (simp add: py_def ch_def inj_map_eq_map inj_def)

lemma length_py [simp]: "length (py s) = length s"
  by (simp add: py_def)

lemma py_Cons: "py (c # cs) = ch c # py cs"
  by (simp add: py_def)

lemma py_append: "py (s @ t) = py s @ py t"
  by (simp add: py_def)

section \<open>Amino-acid conversions\<close>

text \<open>
  C4.  Every one-letter code of the table is restored by \<^verbatim>\<open>convert_1_to_3\<close> followed by
  \<^verbatim>\<open>convert_aa_3_to_1\<close>, and every three-letter code of the table is restored by
  \<^verbatim>\<open>convert_aa_3_to_1\<close> followed by \<^verbatim>\<open>convert_1_to_3\<close>, the stop codon apart: it
  round-trips as \<^verbatim>\<open>*\<close>, \<^verbatim>\<open>Ter\<close>, \<^verbatim>\<open>*\<close>, so its second spelling \<^verbatim>\<open>Stop\<close> comes back as
  \<^verbatim>\<open>Ter\<close>.
\<close>

theorem aa_round_trip:
  "(\<forall>x \<in> set one_letter_codes. convert_aa_3_to_1 (convert_1_to_3 x) = x)
   \<and> (\<forall>y \<in> set three_letter_codes. y \<noteq> py ''Stop'' \<longrightarrow> convert_1_to_3 (convert_aa_3_to_1 y) = y)
   \<and> convert_1_to_3 (py ''*'') = py ''Ter'' \<and> convert_aa_3_to_1 (py ''Ter'') = py ''*''
   \<and> convert_1_to_3 (convert_aa_3_to_1 (py ''Stop'')) = py ''Ter''"
  by code_simp

theorem aa_round_trip_witness:
  "py ''W'' \<in> set one_letter_codes \<and> convert_aa_3_to_1 (convert_1_to_3 (py ''W'')) = py ''W''
   \<and> py ''Trp'' \<in> set three_letter_codes \<and> py ''Trp'' \<noteq> py ''Stop''
   \<and> convert_1_to_3 (convert_aa_3_to_1 (py ''Trp'')) = py ''Trp''"
proof -
  have m1: "py ''W'' \<in> set one_letter_codes"
    by code_simp
  have m3: "py ''Trp'' \<in> set three_letter_codes"
    by code_simp
  have ne: "py ''Trp'' \<noteq> py ''Stop''"
    by simp
  note r1 = aa_round_trip [THEN conjunct1, THEN bspec, OF m1]
  note r3 = aa_round_trip [THEN conjunct2, THEN conjunct1, THEN bspec, OF m3, THEN mp, OF ne]
  show ?thesis
    by (intro conjI m1 m3 ne r1 r3)
qed

text \<open>
  C7.  \<^verbatim>\<open>convert_aa_3_to_1\<close> does not hand back an unmapped code as it got it: \<^verbatim>\<open>xyz\<close> is no
  symbolic token, contains neither \<^verbatim>\<open>fs\<close> nor \<^verbatim>\<open>ext\<close>, is in the table neither as written
  nor capitalised, and comes back as \<^verbatim>\<open>Xyz\<close>: the last branch of the function returns the
  capitalised string when the table does not hold it.  \<^verbatim>\<open>convert_1_to_3\<close> returns the same
  code unchanged.
\<close>

theorem convert_aa_3_to_1_unmapped_capitalised:
  "py ''xyz'' \<notin> set three_letter_codes \<and> capitalize (py ''xyz'') \<notin> set three_letter_codes
   \<and> py ''xyz'' \<notin> set [py ''del'', py ''ins'', py ''dup'', py ''fs'', py ''ext'']
   \<and> \<not> py_in (py ''fs'') (py ''xyz'') \<and> \<not> py_in (py ''ext'') (py ''xyz'')
   \<and> convert_aa_3_to_1 (py ''xyz'') = py ''Xyz'' \<and> convert_1_to_3 (py ''xyz'') = py ''xyz''"
  by code_simp


section \<open>What the patterns capture\<close>

text \<open>
  The groups of a match are read off the pattern: a group over a character class holds a
  non-empty run of that class, a group of fixed width holds that many characters, and a
  part without groups leaves the groups as they are.
\<close>

lemma rmatch_SeqE:
  assumes "y \<in> set (rmatch (Seq a b) x)"
  obtains s1 g1 where "(s1, g1) \<in> set (rmatch a x)" and "y \<in> set (rmatch b (s1, g1))"
  using assms by auto

lemma rmatch_groupless:
  "(s', g') \<in> set (rmatch r (s, g)) \<Longrightarrow> groupless r \<Longrightarrow> g' = g"
proof (induction r arbitrary: s g s' g')
  case (Seq a b)
  from Seq.prems(1) obtain s1 g1 where 1: "(s1, g1) \<in> set (rmatch a (s, g))"
    and 2: "(s', g') \<in> set (rmatch b (s1, g1))" by (rule rmatch_SeqE)
  from Seq.prems(2) Seq.IH(1)[OF 1] Seq.IH(2)[OF 2] show ?case by simp
qed (auto split: if_splits)

lemma rmatch_extends:
  "(s', g') \<in> set (rmatch r (s, g)) \<Longrightarrow> \<exists>ex. g' = g @ ex"
proof (induction r arbitrary: s g s' g')
  case (Seq a b)
  from Seq.prems(1) obtain s1 g1 where 1: "(s1, g1) \<in> set (rmatch a (s, g))"
    and 2: "(s', g') \<in> set (rmatch b (s1, g1))" by (rule rmatch_SeqE)
  from Seq.IH(1)[OF 1] Seq.IH(2)[OF 2] show ?case by auto
next
  case (Grp a)
  from Grp.prems obtain g0 where "(s', g0) \<in> set (rmatch a (s, g))"
    and "g' = g0 @ [take (length s - length s') s]" by auto
  with Grp.IH show ?case by fastforce
qed (auto split: if_splits)

lemma rmatch_Grp_Plus:
  assumes "(s', g') \<in> set (rmatch (Grp (Plus c)) (s, g))"
  shows "\<exists>pre. g' = g @ [pre] \<and> pre \<noteq> [] \<and> list_all (in_cls c) pre"
proof -
  from assms obtain k where k: "1 \<le> k" "k \<le> length (takeWhile (in_cls c) s)"
    and s': "s' = drop k s" and g': "g' = g @ [take (length s - length s') s]"
    by auto
  have le: "k \<le> length s" using k(2) length_takeWhile_le[of "in_cls c" s] by simp
  have tk: "take (length s - length s') s = take k s" using s' le by simp
  have "take k s = take k (takeWhile (in_cls c) s)"
    using k(2) by (metis takeWhile_dropWhile_id take_append diff_is_0_eq take_0 append_Nil2)
  then have "list_all (in_cls c) (take k s)"
    by (metis list_all_iff set_takeWhileD in_set_takeD)
  moreover have "take k s \<noteq> []" using k(1) le by (cases s) auto
  ultimately show ?thesis using g' tk by simp
qed

lemma rmatch_Grp_Rep:
  assumes "(s', g') \<in> set (rmatch (Grp (Rep n c)) (s, g))"
  shows "\<exists>pre. g' = g @ [pre] \<and> length pre = n \<and> list_all (in_cls c) pre"
  using assms by (auto split: if_splits)

lemma rmatch_Grp_Alt_Rep_Lit:
  assumes "(s', g') \<in> set (rmatch (Grp (Alt (Rep n c) (Lit t))) (s, g))"
    and "0 < n" and "t \<noteq> []"
  shows "\<exists>pre. g' = g @ [pre] \<and> pre \<noteq> []"
proof -
  from assms(1) obtain g0 where m: "(s', g0) \<in> set (rmatch (Alt (Rep n c) (Lit t)) (s, g))"
    and g': "g' = g0 @ [take (length s - length s') s]" by auto
  from m have "(g0 = g \<and> n \<le> length s \<and> s' = drop n s)
      \<or> (g0 = g \<and> take (length t) s = t \<and> s' = drop (length t) s)"
    by (auto simp: startswith_def split: if_splits)
  then show ?thesis
  proof
    assume a: "g0 = g \<and> n \<le> length s \<and> s' = drop n s"
    then have "length (take (length s - length s') s) = n" by simp
    with assms(2) have "take (length s - length s') s \<noteq> []" by auto
    with a g' show ?thesis by simp
  next
    assume a: "g0 = g \<and> take (length t) s = t \<and> s' = drop (length t) s"
    then have "length (take (length t) s) = length t" by simp
    then have "length t \<le> length s" by simp
    with a have "take (length s - length s') s = t" by simp
    with a g' assms(3) show ?thesis by simp
  qed
qed

lemma re_match_SomeD:
  "re_match r s = Some g \<Longrightarrow> \<exists>s'. (s', g) \<in> set (rmatch r (s, []))"
  by (auto simp: re_match_def split: list.splits)

declare rmatch.simps [simp del]

lemma step_plus:
  assumes "y \<in> set (rmatch (Seq (Grp (Plus c)) rest) (s, g))"
  shows "\<exists>p s1. p \<noteq> [] \<and> list_all (in_cls c) p \<and> y \<in> set (rmatch rest (s1, g @ [p]))"
proof -
  from assms obtain s1 g1 where 1: "(s1, g1) \<in> set (rmatch (Grp (Plus c)) (s, g))"
    and 2: "y \<in> set (rmatch rest (s1, g1))" by (rule rmatch_SeqE)
  from rmatch_Grp_Plus[OF 1] 2 show ?thesis by blast
qed

lemma step_rep:
  assumes "y \<in> set (rmatch (Seq (Grp (Rep n c)) rest) (s, g))"
  shows "\<exists>r s1. length r = n \<and> y \<in> set (rmatch rest (s1, g @ [r]))"
proof -
  from assms obtain s1 g1 where 1: "(s1, g1) \<in> set (rmatch (Grp (Rep n c)) (s, g))"
    and 2: "y \<in> set (rmatch rest (s1, g1))" by (rule rmatch_SeqE)
  from rmatch_Grp_Rep[OF 1] 2 show ?thesis by blast
qed

lemma step_alt:
  assumes "y \<in> set (rmatch (Seq (Grp (Alt (Rep n c) (Lit t))) rest) (s, g))"
    and "0 < n" and "t \<noteq> []"
  shows "\<exists>a s1. a \<noteq> [] \<and> y \<in> set (rmatch rest (s1, g @ [a]))"
proof -
  from assms(1) obtain s1 g1
    where 1: "(s1, g1) \<in> set (rmatch (Grp (Alt (Rep n c) (Lit t))) (s, g))"
    and 2: "y \<in> set (rmatch rest (s1, g1))" by (rule rmatch_SeqE)
  from rmatch_Grp_Alt_Rep_Lit[OF 1 assms(2,3)] 2 show ?thesis by blast
qed

lemma step_groupless:
  assumes "y \<in> set (rmatch (Seq a rest) (s, g))" and "groupless a"
  shows "\<exists>s1. y \<in> set (rmatch rest (s1, g))"
proof -
  from assms(1) obtain s1 g1 where 1: "(s1, g1) \<in> set (rmatch a (s, g))"
    and 2: "y \<in> set (rmatch rest (s1, g1))" by (rule rmatch_SeqE)
  from rmatch_groupless[OF 1 assms(2)] 2 show ?thesis by blast
qed

lemma pattern_unfold:
  "pattern = Seq (Grp (Plus NotColon)) (Seq (Lit (py '':p'')) (Seq (Opt (Lit (py ''.'')))
     (Seq (Opt (Lit (py ''(''))) (Seq (Grp (Rep 3 Alpha)) (Seq (Grp (Plus Digit))
       (Seq (Grp (Alt (Rep 3 Alpha) (Lit (py ''*''))))
          (Seq (Opt (Lit (py '')''))) (Seq Eol (Lit [])))))))))"
  by (simp add: pattern_def seqs_def)

lemma pattern_groups:
  "re_match pattern h = Some g \<Longrightarrow>
     \<exists>pid r p a. g = [pid, r, p, a] \<and> pid \<noteq> [] \<and> length r = 3 \<and> p \<noteq> []
        \<and> list_all is_decimal p \<and> a \<noteq> []"
  unfolding pattern_unfold
  apply (drule re_match_SomeD, erule exE)
  apply (drule step_plus, elim exE conjE)
  apply (drule step_groupless, simp, erule exE)
  apply (drule step_groupless, simp, erule exE)
  apply (drule step_groupless, simp, erule exE)
  apply (drule step_rep, elim exE conjE)
  apply (drule step_plus, elim exE conjE)
  apply (drule step_alt, simp, simp, elim exE conjE)
  apply (drule rmatch_groupless, simp)
  apply (simp add: list_all_iff)
  done

lemma fs_pattern_unfold:
  "fs_pattern = Seq (Grp (Plus NotColon)) (Seq (Lit (py '':p'')) (Seq (Opt (Lit (py ''.'')))
     (Seq (Opt (Lit (py ''(''))) (Seq (Grp (Rep 3 Alpha)) (Seq (Grp (Plus Digit))
       (Seq (Grp (Rep 3 Alpha)) (Seq (Lit (py ''fs''))
          (Seq (Opt (Seq (Lit (py ''Ter'')) (Grp (Plus Digit)))) (Lit [])))))))))"
  by (simp add: fs_pattern_def seqs_def)

lemma fs_pattern_groups:
  "re_match fs_pattern h = Some g \<Longrightarrow>
     \<exists>pid r p a ex. g = [pid, r, p, a] @ ex \<and> pid \<noteq> [] \<and> length r = 3 \<and> p \<noteq> []
        \<and> list_all is_decimal p \<and> length a = 3"
  unfolding fs_pattern_unfold
  apply (drule re_match_SomeD, erule exE)
  apply (drule step_plus, elim exE conjE)
  apply (drule step_groupless, simp, erule exE)
  apply (drule step_groupless, simp, erule exE)
  apply (drule step_groupless, simp, erule exE)
  apply (drule step_rep, elim exE conjE)
  apply (drule step_plus, elim exE conjE)
  apply (drule step_rep, elim exE conjE)
  apply (drule step_groupless, simp, erule exE)
  apply (drule rmatch_extends, erule exE)
  apply (simp add: list_all_iff)
  done

lemma del_pattern_unfold:
  "del_pattern = Seq (Grp (Plus NotColon)) (Seq (Lit (py '':p'')) (Seq (Opt (Lit (py ''.'')))
     (Seq (Opt (Lit (py ''(''))) (Seq (Grp (Rep 3 Alpha)) (Seq (Grp (Plus Digit))
       (Seq (Opt (Seq (Lit (py ''_'')) (Seq (Rep 3 Alpha) (Seq (Plus Digit) (Lit [])))))
         (Seq (Lit (py ''del'')) (Lit []))))))))"
  by (simp add: del_pattern_def seqs_def)

lemma del_pattern_groups:
  "re_match del_pattern h = Some g \<Longrightarrow>
     \<exists>pid r p. g = [pid, r, p] \<and> pid \<noteq> [] \<and> length r = 3 \<and> p \<noteq> [] \<and> list_all is_decimal p"
  unfolding del_pattern_unfold
  apply (drule re_match_SomeD, erule exE)
  apply (drule step_plus, elim exE conjE)
  apply (drule step_groupless, simp, erule exE)
  apply (drule step_groupless, simp, erule exE)
  apply (drule step_groupless, simp, erule exE)
  apply (drule step_rep, elim exE conjE)
  apply (drule step_plus, elim exE conjE)
  apply (drule rmatch_groupless, simp)
  apply (simp add: list_all_iff)
  done

lemma ins_pattern_unfold:
  "ins_pattern = Seq (Grp (Plus NotColon)) (Seq (Lit (py '':p'')) (Seq (Opt (Lit (py ''.'')))
     (Seq (Opt (Lit (py ''(''))) (Seq (Grp (Rep 3 Alpha)) (Seq (Grp (Plus Digit))
       (Seq (Lit (py ''_'')) (Seq (Rep 3 Alpha) (Seq (Plus Digit) (Seq (Lit (py ''ins''))
         (Seq (Plus Alpha) (Lit [])))))))))))"
  by (simp add: ins_pattern_def seqs_def)

lemma ins_pattern_groups:
  "re_match ins_pattern h = Some g \<Longrightarrow>
     \<exists>pid r p. g = [pid, r, p] \<and> pid \<noteq> [] \<and> length r = 3 \<and> p \<noteq> [] \<and> list_all is_decimal p"
  unfolding ins_pattern_unfold
  apply (drule re_match_SomeD, erule exE)
  apply (drule step_plus, elim exE conjE)
  apply (drule step_groupless, simp, erule exE)
  apply (drule step_groupless, simp, erule exE)
  apply (drule step_groupless, simp, erule exE)
  apply (drule step_rep, elim exE conjE)
  apply (drule step_plus, elim exE conjE)
  apply (drule rmatch_groupless, simp)
  apply (simp add: list_all_iff)
  done

lemma dup_pattern_unfold:
  "dup_pattern = Seq (Grp (Plus NotColon)) (Seq (Lit (py '':p'')) (Seq (Opt (Lit (py ''.'')))
     (Seq (Opt (Lit (py ''(''))) (Seq (Grp (Rep 3 Alpha)) (Seq (Grp (Plus Digit))
       (Seq (Opt (Seq (Lit (py ''_'')) (Seq (Rep 3 Alpha) (Seq (Plus Digit) (Lit [])))))
         (Seq (Lit (py ''dup'')) (Lit []))))))))"
  by (simp add: dup_pattern_def seqs_def)

lemma dup_pattern_groups:
  "re_match dup_pattern h = Some g \<Longrightarrow>
     \<exists>pid r p. g = [pid, r, p] \<and> pid \<noteq> [] \<and> length r = 3 \<and> p \<noteq> [] \<and> list_all is_decimal p"
  unfolding dup_pattern_unfold
  apply (drule re_match_SomeD, erule exE)
  apply (drule step_plus, elim exE conjE)
  apply (drule step_groupless, simp, erule exE)
  apply (drule step_groupless, simp, erule exE)
  apply (drule step_groupless, simp, erule exE)
  apply (drule step_rep, elim exE conjE)
  apply (drule step_plus, elim exE conjE)
  apply (drule rmatch_groupless, simp)
  apply (simp add: list_all_iff)
  done

lemma ext_pattern_unfold:
  "ext_pattern = Seq (Grp (Plus NotColon)) (Seq (Lit (py '':p'')) (Seq (Opt (Lit (py ''.'')))
     (Seq (Opt (Lit (py ''(''))) (Seq (Lit (py ''*'')) (Seq (Grp (Plus Digit))
       (Seq (Grp (Rep 3 Alpha)) (Seq (Lit (py ''ext'')) (Lit []))))))))"
  by (simp add: ext_pattern_def seqs_def)

lemma ext_pattern_groups:
  "re_match ext_pattern h = Some g \<Longrightarrow>
     \<exists>pid p a. g = [pid, p, a] \<and> pid \<noteq> [] \<and> p \<noteq> [] \<and> list_all is_decimal p \<and> length a = 3"
  unfolding ext_pattern_unfold
  apply (drule re_match_SomeD, erule exE)
  apply (drule step_plus, elim exE conjE)
  apply (drule step_groupless, simp, erule exE)
  apply (drule step_groupless, simp, erule exE)
  apply (drule step_groupless, simp, erule exE)
  apply (drule step_groupless, simp, erule exE)
  apply (drule step_plus, elim exE conjE)
  apply (drule step_rep, elim exE conjE)
  apply (drule rmatch_groupless, simp)
  apply (simp add: list_all_iff)
  done

lemma parse_hgvsp_groups:
  assumes "parse_hgvsp hgvsp = Some (protein_id, position, ref_aa, alt_aa)"
  shows "position \<noteq> [] \<and> list_all is_decimal position \<and> ref_aa \<noteq> [] \<and> alt_aa \<noteq> []"
  using assms
  unfolding parse_hgvsp_def Let_def
  by (auto split: if_splits option.splits
      dest!: pattern_groups fs_pattern_groups del_pattern_groups ins_pattern_groups
             dup_pattern_groups ext_pattern_groups)

subsection \<open>Digit strings\<close>

lemma decimal_valueD:
  "decimal_value c = Some v \<Longrightarrow> \<exists>z \<in> set decimal_starts. z \<le> c \<and> c < z + 10 \<and> v = nat (c - z)"
  by (auto simp: decimal_value_def find_Some_iff split: option.splits)

lemma decimal_starts_bounds:
  "\<forall>z \<in> set decimal_starts.
     z = 48 \<or> (0x660 \<le> z \<and> z \<le> 0x1676) \<or> (0x1681 \<le> z \<and> z \<le> 0x1FF6) \<or> 0x3001 \<le> z"
  by (simp add: decimal_starts_def)

lemma is_decimal_range:
  assumes "is_decimal c"
  shows "(48 \<le> c \<and> c \<le> 57) \<or> (0x660 \<le> c \<and> c \<le> 0x167F) \<or> (0x1681 \<le> c \<and> c \<le> 0x1FFF)
         \<or> 0x3001 \<le> c"
proof -
  from assms obtain v where "decimal_value c = Some v"
    by (auto simp: is_decimal_def)
  then obtain z where z: "z \<in> set decimal_starts" "z \<le> c" "c < z + 10"
    using decimal_valueD by blast
  from decimal_starts_bounds z(1)
  have "z = 48 \<or> (0x660 \<le> z \<and> z \<le> 0x1676) \<or> (0x1681 \<le> z \<and> z \<le> 0x1FF6) \<or> 0x3001 \<le> z"
    by blast
  with z(2,3) show ?thesis by arith
qed

lemma decimal_value_le_9: "decimal_value c = Some v \<Longrightarrow> v \<le> 9"
  using decimal_valueD[of c v] by auto

lemma is_space_range:
  "is_space c \<Longrightarrow> c \<le> 0x20 \<or> c = 0x85 \<or> c = 0xA0 \<or> c = 0x1680 \<or> (0x2000 \<le> c \<and> c \<le> 0x205F)
     \<or> c = 0x3000"
  by (auto simp: is_space_def in_runs_def space_runs_def)

lemma decimal_not_space: "is_decimal c \<Longrightarrow> \<not> is_space c"
  using is_decimal_range[of c] is_space_range[of c] by arith

lemma decimal_not_int_space: "is_decimal c \<Longrightarrow> \<not> is_int_space c"
  by (simp add: is_int_space_def decimal_not_space)

lemma decimal_not_sign:
  "is_decimal c \<Longrightarrow> c \<noteq> ch CHR ''-'' \<and> c \<noteq> ch CHR ''+'' \<and> c \<noteq> ch CHR ''_''"
  using is_decimal_range[of c] by (auto simp: ch_simps)

lemma int_body_digits:
  "ds \<noteq> [] \<Longrightarrow> list_all is_decimal ds \<Longrightarrow> int_body ds"
proof (induction ds rule: int_body.induct)
  case 1
  then show ?case by simp
next
  case (2 c)
  then show ?case by simp
next
  case (3 c d cs)
  from "3.prems"(2) have c: "is_decimal c" and d: "is_decimal d"
    and r: "list_all is_decimal (d # cs)" by simp_all
  from d have ne: "d \<noteq> ch CHR ''_''" by (simp add: decimal_not_sign)
  from "3.IH"(2)[OF ne _ r] have "int_body (d # cs)" by simp
  with c ne show ?case by simp
qed

lemma strip_no_space:
  assumes "s \<noteq> []" and "\<not> P (hd s)" and "\<not> P (last s)"
  shows "rev (dropWhile P (rev (dropWhile P s))) = s"
proof (cases s rule: rev_cases)
  case Nil
  with assms(1) show ?thesis by simp
next
  case (snoc xs x)
  have 1: "dropWhile P s = s" using assms(1,2) by (cases s) auto
  have 2: "dropWhile P (rev s) = rev s" using assms(3) snoc by simp
  show ?thesis by (simp add: 1 2)
qed

lemma py_int_digits:
  assumes "ds \<noteq> []" and "list_all is_decimal ds" and "length ds \<le> int_max_str_digits"
  shows "py_int ds = Some (int (dec_value ds))"
proof -
  have h: "is_decimal (hd ds)" and l: "is_decimal (last ds)"
    using assms by (simp_all add: list_all_iff)
  have st: "rev (dropWhile is_int_space (rev (dropWhile is_int_space ds))) = ds"
    using assms(1) decimal_not_int_space[OF h] decimal_not_int_space[OF l]
    by (rule strip_no_space)
  have "\<forall>c \<in> set ds. c \<noteq> ch CHR ''_''"
    using assms(2) decimal_not_sign by (simp add: list_all_iff)
  then have f: "filter (\<lambda>c. c \<noteq> ch CHR ''_'') ds = ds"
    by simp
  have sg: "hd ds \<noteq> ch CHR ''-''" "hd ds \<noteq> ch CHR ''+''"
    using decimal_not_sign[OF h] by simp_all
  show ?thesis
    using int_body_digits[OF assms(1,2)] sg assms(1,3) by (simp add: py_int_def st f Let_def)
qed

lemma py_int_digits_refused:
  assumes "list_all is_decimal ds" and "int_max_str_digits < length ds"
  shows "py_int ds = None"
proof -
  have ne: "ds \<noteq> []" using assms(2) by auto
  have h: "is_decimal (hd ds)" and l: "is_decimal (last ds)"
    using assms(1) ne by (simp_all add: list_all_iff)
  have st: "rev (dropWhile is_int_space (rev (dropWhile is_int_space ds))) = ds"
    using ne decimal_not_int_space[OF h] decimal_not_int_space[OF l]
    by (rule strip_no_space)
  have "\<forall>c \<in> set ds. c \<noteq> ch CHR ''_''"
    using assms(1) decimal_not_sign by (simp add: list_all_iff)
  then have f: "filter (\<lambda>c. c \<noteq> ch CHR ''_'') ds = ds"
    by simp
  have sg: "hd ds \<noteq> ch CHR ''-''" "hd ds \<noteq> ch CHR ''+''"
    using decimal_not_sign[OF h] by simp_all
  show ?thesis
    using sg ne assms(2) by (simp add: py_int_def st f Let_def)
qed

subsection \<open>The parsed protein change\<close>

text \<open>
  C6, as the parser has it.  Whenever \<^verbatim>\<open>parse_hgvsp\<close> returns a tuple, the position is a
  non-empty string of decimal digits: of any script, since \<^verbatim>\<open>\d\<close> matches every decimal digit
  of Unicode.  \<^verbatim>\<open>int\<close> reads such a string as the number it denotes, which is not negative
  (zero and leading zeros are possible), provided it has at most 4300 digits, and refuses a
  longer one.  The reference and alternate components are not empty.
\<close>

theorem parse_hgvsp_shape:
  assumes "parse_hgvsp hgvsp = Some (protein_id, position, ref_aa, alt_aa)"
  shows "position \<noteq> [] \<and> list_all is_decimal position
         \<and> (if length position \<le> int_max_str_digits
            then py_int position = Some (int (dec_value position))
            else py_int position = None)
         \<and> ref_aa \<noteq> [] \<and> alt_aa \<noteq> []"
proof -
  have g: "position \<noteq> [] \<and> list_all is_decimal position \<and> ref_aa \<noteq> [] \<and> alt_aa \<noteq> []"
    using assms by (rule parse_hgvsp_groups)
  show ?thesis
  proof (cases "length position \<le> int_max_str_digits")
    case True
    with g py_int_digits[of position] show ?thesis by simp
  next
    case False
    with g py_int_digits_refused[of position] show ?thesis by simp
  qed
qed

theorem parse_hgvsp_shape_witness:
  "parse_hgvsp (py ''X:p.Ala'' @ [0x661, 0x32] @ py ''Thr'') = Some (py ''X'', [0x661, 0x32], py ''Ala'', py ''Thr'')
   \<and> [0x661, 0x32] \<noteq> ([] :: ustring) \<and> list_all is_decimal [0x661, 0x32]
   \<and> py_int [0x661, 0x32] = Some 12
   \<and> py ''Ala'' \<noteq> [] \<and> py ''Thr'' \<noteq> []"
proof -
  have e: "parse_hgvsp (py ''X:p.Ala'' @ [0x661, 0x32] @ py ''Thr'')
      = Some (py ''X'', [0x661, 0x32], py ''Ala'', py ''Thr'')"
    by code_simp
  have l: "length [0x661, 0x32 :: int] \<le> int_max_str_digits"
    by (simp add: int_max_str_digits_def)
  have v: "int (dec_value [0x661, 0x32]) = 12"
    by code_simp
  from parse_hgvsp_shape [OF e] l v show ?thesis
    using e by simp
qed

text \<open>
  C6 as stated fails: position zero is parsed, and zero is not strictly positive.
\<close>

theorem parse_hgvsp_position_zero:
  "parse_hgvsp (py ''X:p.Ala0Thr'') = Some (py ''X'', py ''0'', py ''Ala'', py ''Thr'')
   \<and> py_int (py ''0'') = Some 0 \<and> \<not> (0 :: int) < 0"
  by code_simp


section \<open>The example header and rows\<close>

lemma std_header_ok: "parse_header std_header = Inr (True, std_cm)"
proof -
  obtain ok cm where p: "parse_header std_header = Inr (ok, cm)"
    by (simp add: parse_header_def std_header_def Let_def)
  have "case parse_header std_header of Inr (ok, cm) \<Rightarrow> ok | Inl e \<Rightarrow> False"
    by code_simp
  with p have "ok" by simp
  moreover from p have "std_cm = cm" by (simp add: std_cm_def)
  ultimately show ?thesis using p by simp
qed

lemma ex_primary_row: "process_row std_cm ex_primary init_stats = (Some ex_primary_record, init_stats)"
  by code_simp


lemma ex_primary_gates:
  "validate_chromosome (get_column_value std_cm ex_primary (py ''CHROM''))"
  "validate_position (get_column_value std_cm ex_primary (py ''POS''))"
  "\<not> startswith (get_column_value std_cm ex_primary (py ''ID'')) (py ''Sniffles2'')"
  "handle_multiallelic (get_column_value std_cm ex_primary (py ''ALT'')) \<noteq> []"
  by code_simp+

lemma ex_fallback_gates:
  "validate_chromosome (get_column_value std_cm ex_fallback (py ''CHROM''))"
  "validate_position (get_column_value std_cm ex_fallback (py ''POS''))"
  "\<not> startswith (get_column_value std_cm ex_fallback (py ''ID'')) (py ''Sniffles2'')"
  "handle_multiallelic (get_column_value std_cm ex_fallback (py ''ALT'')) \<noteq> []"
  by code_simp+


section \<open>The exits of a row\<close>

text \<open>
  \<^verbatim>\<open>process_row\<close> leaves by one of eight ways: three gates (chromosome, position, Sniffles2),
  the exception of \<^verbatim>\<open>alt_alleles[0]\<close>, the fallback path with and without a record, an
  \<^verbatim>\<open>HGVSp\<close> that does not parse, and the record of a parsed \<^verbatim>\<open>HGVSp\<close>.
\<close>

lemma validate_position_int:
  "validate_position pos \<Longrightarrow> \<exists>p. py_int pos = Some p \<and> 0 < p"
  by (auto simp: validate_position_def split: option.splits)

lemma process_row_exits:
  fixes cm row st
  defines "chrom \<equiv> get_column_value cm row (py ''CHROM'')"
    and "pos \<equiv> get_column_value cm row (py ''POS'')"
    and "var_id \<equiv> get_column_value cm row (py ''ID'')"
    and "ref \<equiv> get_column_value cm row (py ''REF'')"
    and "alt \<equiv> get_column_value cm row (py ''ALT'')"
    and "gene_symbol \<equiv> get_column_value cm row (py ''SYMBOL'')"
    and "hgvsc \<equiv> get_column_value cm row (py ''HGVSc'')"
    and "hgvsp \<equiv> get_column_value cm row (py ''HGVSp'')"
    and "mane_select \<equiv> get_column_value cm row (py ''MANE_SELECT'')"
    and "protein_position \<equiv> get_column_value cm row (py ''Protein_position'')"
    and "amino_acids \<equiv> get_column_value cm row (py ''Amino_acids'')"
    and "rsid \<equiv> extract_rsid (get_column_value cm row (py ''Existing_variation''))"
    and "st1 \<equiv> (if \<not> truthy (extract_rsid (get_column_value cm row (py ''Existing_variation'')))
                then st\<lparr>missing_rsid := missing_rsid st + 1\<rparr> else st)"
  shows exit_chromosome:
      "\<not> validate_chromosome chrom \<Longrightarrow>
       process_row cm row st = (None, st\<lparr>invalid_chromosome := invalid_chromosome st + 1\<rparr>)"
    and exit_position:
      "validate_chromosome chrom \<Longrightarrow> \<not> validate_position pos \<Longrightarrow>
       process_row cm row st = (None, st\<lparr>invalid_position := invalid_position st + 1\<rparr>)"
    and exit_sniffles:
      "validate_chromosome chrom \<Longrightarrow> validate_position pos \<Longrightarrow> startswith var_id (py ''Sniffles2'') \<Longrightarrow>
       process_row cm row st = (None, st)"
    and exit_no_allele:
      "validate_chromosome chrom \<Longrightarrow> validate_position pos \<Longrightarrow> \<not> startswith var_id (py ''Sniffles2'') \<Longrightarrow>
       handle_multiallelic alt = [] \<Longrightarrow>
       process_row cm row st = (None, st1\<lparr>errors := errors st1 + 1\<rparr>)"
    and exit_fallback:
      "validate_chromosome chrom \<Longrightarrow> validate_position pos \<Longrightarrow> \<not> startswith var_id (py ''Sniffles2'') \<Longrightarrow>
       handle_multiallelic alt = alt0 # others \<Longrightarrow> py_int pos = Some p \<Longrightarrow>
       \<not> present hgvsp \<Longrightarrow> present protein_position \<Longrightarrow>
       parse_amino_acids amino_acids = Some (ref_aa_1, alt_aa_1) \<Longrightarrow>
       process_row cm row st =
         (Some (fallback_variant var_id rsid
            (py_replace (py ''chr'') [] chrom @ (py '':'') @ py_str_int (p - 1) @ (py '':'') @ ref @ (py '':'') @ alt0)
            hgvsc mane_select gene_symbol protein_position ref_aa_1 alt_aa_1),
          st1\<lparr>missing_hgvsp := missing_hgvsp st1 + 1\<rparr>)"
    and exit_no_fallback:
      "validate_chromosome chrom \<Longrightarrow> validate_position pos \<Longrightarrow> \<not> startswith var_id (py ''Sniffles2'') \<Longrightarrow>
       handle_multiallelic alt \<noteq> [] \<Longrightarrow>
       \<not> present hgvsp \<Longrightarrow> \<not> present protein_position \<or> parse_amino_acids amino_acids = None \<Longrightarrow>
       process_row cm row st = (None, st1\<lparr>missing_hgvsp := missing_hgvsp st1 + 1\<rparr>)"
    and exit_unparsed:
      "validate_chromosome chrom \<Longrightarrow> validate_position pos \<Longrightarrow> \<not> startswith var_id (py ''Sniffles2'') \<Longrightarrow>
       handle_multiallelic alt \<noteq> [] \<Longrightarrow>
       present hgvsp \<Longrightarrow> parse_hgvsp hgvsp = None \<Longrightarrow>
       process_row cm row st = (None, st1)"
    and exit_primary:
      "validate_chromosome chrom \<Longrightarrow> validate_position pos \<Longrightarrow> \<not> startswith var_id (py ''Sniffles2'') \<Longrightarrow>
       handle_multiallelic alt = alt0 # others \<Longrightarrow> py_int pos = Some p \<Longrightarrow>
       present hgvsp \<Longrightarrow> parse_hgvsp hgvsp = Some parsed \<Longrightarrow>
       process_row cm row st =
         (Some (primary_variant var_id rsid
            (py_replace (py ''chr'') [] chrom @ (py '':'') @ py_str_int (p - 1) @ (py '':'') @ ref @ (py '':'') @ alt0)
            hgvsc hgvsp mane_select gene_symbol parsed),
          st1)"
  unfolding process_row_def process_row_try_def Let_def assms
  by (auto dest!: validate_position_int split: list.splits)


lemma process_row_cases [case_names chromosome position sniffles no_allele fallback no_fallback
    unparsed primary]:
  fixes cm row st
  defines "chrom \<equiv> get_column_value cm row (py ''CHROM'')"
    and "pos \<equiv> get_column_value cm row (py ''POS'')"
    and "var_id \<equiv> get_column_value cm row (py ''ID'')"
    and "ref \<equiv> get_column_value cm row (py ''REF'')"
    and "alt \<equiv> get_column_value cm row (py ''ALT'')"
    and "gene_symbol \<equiv> get_column_value cm row (py ''SYMBOL'')"
    and "hgvsc \<equiv> get_column_value cm row (py ''HGVSc'')"
    and "hgvsp \<equiv> get_column_value cm row (py ''HGVSp'')"
    and "mane_select \<equiv> get_column_value cm row (py ''MANE_SELECT'')"
    and "protein_position \<equiv> get_column_value cm row (py ''Protein_position'')"
    and "amino_acids \<equiv> get_column_value cm row (py ''Amino_acids'')"
    and "rsid \<equiv> extract_rsid (get_column_value cm row (py ''Existing_variation''))"
    and "st1 \<equiv> (if \<not> truthy (extract_rsid (get_column_value cm row (py ''Existing_variation'')))
                then st\<lparr>missing_rsid := missing_rsid st + 1\<rparr> else st)"
  obtains
    (chromosome) "\<not> validate_chromosome chrom"
      "process_row cm row st = (None, st\<lparr>invalid_chromosome := invalid_chromosome st + 1\<rparr>)"
  | (position) "validate_chromosome chrom" "\<not> validate_position pos"
      "process_row cm row st = (None, st\<lparr>invalid_position := invalid_position st + 1\<rparr>)"
  | (sniffles) "validate_chromosome chrom" "validate_position pos" "startswith var_id (py ''Sniffles2'')"
      "process_row cm row st = (None, st)"
  | (no_allele) "validate_chromosome chrom" "validate_position pos"
      "\<not> startswith var_id (py ''Sniffles2'')" "handle_multiallelic alt = []"
      "process_row cm row st = (None, st1\<lparr>errors := errors st1 + 1\<rparr>)"
  | (fallback) alt0 others p ref_aa_1 alt_aa_1 where
      "validate_chromosome chrom" "validate_position pos" "\<not> startswith var_id (py ''Sniffles2'')"
      "handle_multiallelic alt = alt0 # others" "py_int pos = Some p" "0 < p"
      "\<not> present hgvsp" "present protein_position"
      "parse_amino_acids amino_acids = Some (ref_aa_1, alt_aa_1)"
      "process_row cm row st =
         (Some (fallback_variant var_id rsid
            (py_replace (py ''chr'') [] chrom @ (py '':'') @ py_str_int (p - 1) @ (py '':'') @ ref @ (py '':'') @ alt0)
            hgvsc mane_select gene_symbol protein_position ref_aa_1 alt_aa_1),
          st1\<lparr>missing_hgvsp := missing_hgvsp st1 + 1\<rparr>)"
  | (no_fallback) "validate_chromosome chrom" "validate_position pos"
      "\<not> startswith var_id (py ''Sniffles2'')" "handle_multiallelic alt \<noteq> []"
      "\<not> present hgvsp" "\<not> present protein_position \<or> parse_amino_acids amino_acids = None"
      "process_row cm row st = (None, st1\<lparr>missing_hgvsp := missing_hgvsp st1 + 1\<rparr>)"
  | (unparsed) "validate_chromosome chrom" "validate_position pos"
      "\<not> startswith var_id (py ''Sniffles2'')" "handle_multiallelic alt \<noteq> []"
      "present hgvsp" "parse_hgvsp hgvsp = None"
      "process_row cm row st = (None, st1)"
  | (primary) alt0 others p parsed where
      "validate_chromosome chrom" "validate_position pos" "\<not> startswith var_id (py ''Sniffles2'')"
      "handle_multiallelic alt = alt0 # others" "py_int pos = Some p" "0 < p"
      "present hgvsp" "parse_hgvsp hgvsp = Some parsed"
      "process_row cm row st =
         (Some (primary_variant var_id rsid
            (py_replace (py ''chr'') [] chrom @ (py '':'') @ py_str_int (p - 1) @ (py '':'') @ ref @ (py '':'') @ alt0)
            hgvsc hgvsp mane_select gene_symbol parsed),
          st1)"
proof (cases "validate_chromosome chrom")
  case False
  with chromosome exit_chromosome show ?thesis
    unfolding assms by blast
next
  case vc: True
  show ?thesis
  proof (cases "validate_position pos")
    case False
    with vc position exit_position show ?thesis
      unfolding assms by blast
  next
    case vp: True
    then obtain p where p: "py_int pos = Some p" "0 < p"
      using validate_position_int by blast
    show ?thesis
    proof (cases "startswith var_id (py ''Sniffles2'')")
      case True
      with vc vp sniffles exit_sniffles show ?thesis
        unfolding assms by blast
    next
      case ns: False
      show ?thesis
      proof (cases "handle_multiallelic alt")
        case Nil
        with vc vp ns no_allele exit_no_allele show ?thesis
          unfolding assms by blast
      next
        case al: (Cons alt0 others)
        then have ne: "handle_multiallelic alt \<noteq> []" by simp
        show ?thesis
        proof (cases "present hgvsp")
          case ph: True
          show ?thesis
          proof (cases "parse_hgvsp hgvsp")
            case None
            with vc vp ns ne ph unparsed exit_unparsed show ?thesis
              unfolding assms by blast
          next
            case (Some parsed)
            with vc vp ns al p ph primary
              exit_primary show ?thesis
              unfolding assms by blast
          qed
        next
          case nh: False
          show ?thesis
          proof (cases "present protein_position \<and> parse_amino_acids amino_acids \<noteq> None")
            case True
            then obtain r a where ra: "parse_amino_acids amino_acids = Some (r, a)"
              and pp: "present protein_position" by auto
            with vc vp ns al p nh fallback
              exit_fallback show ?thesis
              unfolding assms by blast
          next
            case False
            then have "\<not> present protein_position \<or> parse_amino_acids amino_acids = None"
              by blast
            with vc vp ns ne nh no_fallback exit_no_fallback show ?thesis
              unfolding assms by blast
          qed
        qed
      qed
    qed
  qed
qed


lemma fallback_variant_aliases:
  "map_of (fallback_variant var_id rsid spdi hgvsc mane g pp r1 a1) (py ''spdi'') = Some spdi"
  "map_of (fallback_variant var_id rsid spdi hgvsc mane g pp r1 a1) (py ''hgvsp_3p'') =
     Some (g @ (py '' p.'') @ (if length r1 = 1 then convert_1_to_3 r1 else r1) @ pp
             @ (if length a1 = 1 then convert_1_to_3 a1 else a1))"
  "map_of (fallback_variant var_id rsid spdi hgvsc mane g pp r1 a1) (py ''hgvsp_3'') =
     Some (g @ (py '' '') @ (if length r1 = 1 then convert_1_to_3 r1 else r1) @ pp
             @ (if length a1 = 1 then convert_1_to_3 a1 else a1))"
  "map_of (fallback_variant var_id rsid spdi hgvsc mane g pp r1 a1) (py ''hgvsp_1p'') =
     Some (g @ (py '' p.'') @ r1 @ pp @ a1)"
  "map_of (fallback_variant var_id rsid spdi hgvsc mane g pp r1 a1) (py ''hgvsp_1'') =
     Some (g @ (py '' '') @ r1 @ pp @ a1)"
  by (simp_all add: fallback_variant_def Let_def)

lemma primary_variant_aliases:
  "map_of (primary_variant var_id rsid spdi hgvsc hgvsp mane g (pid, pos, r3, a3)) (py ''spdi'') = Some spdi"
  "map_of (primary_variant var_id rsid spdi hgvsc hgvsp mane g (pid, pos, r3, a3)) (py ''hgvsp_3p'') =
     Some (g @ (py '' p.'') @ r3 @ pos @ a3)"
  "map_of (primary_variant var_id rsid spdi hgvsc hgvsp mane g (pid, pos, r3, a3)) (py ''hgvsp_3'') =
     Some (g @ (py '' '') @ r3 @ pos @ a3)"
  "map_of (primary_variant var_id rsid spdi hgvsc hgvsp mane g (pid, pos, r3, a3)) (py ''hgvsp_1p'') =
     Some (g @ (py '' p.'') @ convert_aa_3_to_1 r3 @ pos @ convert_aa_3_to_1 a3)"
  "map_of (primary_variant var_id rsid spdi hgvsc hgvsp mane g (pid, pos, r3, a3)) (py ''hgvsp_1'') =
     Some (g @ (py '' '') @ convert_aa_3_to_1 r3 @ pos @ convert_aa_3_to_1 a3)"
  by (simp_all add: primary_variant_def Let_def)

lemma variants_not_empty:
  "fallback_variant var_id rsid spdi hgvsc mane g pp r1 a1 \<noteq> []"
  "primary_variant var_id rsid spdi hgvsc hgvsp mane g parsed \<noteq> []"
  by (simp_all add: fallback_variant_def primary_variant_def Let_def split: prod.splits)

lemma process_row_record_independent:
  "fst (process_row cm row st) = fst (process_row cm row st')"
  by (cases rule: process_row_cases[of cm row st]; cases rule: process_row_cases[of cm row st'])
     simp_all


section \<open>Counters and the fallback path\<close>





lemma parse_amino_acids_pair:
  assumes "py_strip r \<noteq> []" and "py_strip a \<noteq> []"
    and "(ch CHR ''/'') \<notin> set r" and "sep = (ch CHR ''/'') \<or> (sep = (ch CHR ''>'') \<and> (ch CHR ''>'') \<notin> set r \<and> (ch CHR ''/'') \<notin> set a)"
  shows "parse_amino_acids (r @ sep # a) = Some (py_strip r, py_strip a)"
proof -
  have rne: "r \<noteq> []" using assms(1) by (auto simp: py_strip_def)
  have ane: "a \<noteq> []" using assms(2) by (auto simp: py_strip_def)
  have nd: "r @ sep # a \<noteq> (py ''-'')" using rne by (cases r) (auto simp: py_Cons)
  have nr: "sep \<notin> set r" using assms(3,4) by auto
  have sp: "py_split1 sep (r @ sep # a) = [r, a]"
  proof -
    have al: "\<forall>x\<in>set r. x \<noteq> sep" using nr by blast
    have tw: "takeWhile (\<lambda>c. c \<noteq> sep) (r @ sep # a) = r"
      using al by (simp add: takeWhile_tail)
    have dw: "dropWhile (\<lambda>c. c \<noteq> sep) (r @ sep # a) = sep # a"
      using al by (simp add: dropWhile_append)
    show ?thesis by (simp add: py_split1_def tw dw)
  qed
  show ?thesis
    using assms sp nd rne by (auto simp: parse_amino_acids_def Let_def)
qed

text \<open>
  C1, as the code has it.  For a row that passes the gates and has an allele: the fallback is
  tried only when \<^verbatim>\<open>HGVSp\<close> is absent (empty or \<^verbatim>\<open>-\<close>).  Such a row is counted under
  \<^verbatim>\<open>missing_hgvsp\<close> whether or not the fallback gives a record; it gives one exactly when
  \<^verbatim>\<open>Protein_position\<close> is present and \<^verbatim>\<open>Amino_acids\<close> parses, which a field of the shape
  \<^verbatim>\<open><ref>/<alt>\<close> or \<^verbatim>\<open><ref>><alt>\<close> with two non-blank sides does.  A row whose \<^verbatim>\<open>HGVSp\<close> is
  present but matches none of the six shapes is skipped with no record and is not counted
  under \<^verbatim>\<open>missing_hgvsp\<close>.
\<close>

theorem fallback_gate:
  fixes cm row st
  defines "hgvsp \<equiv> get_column_value cm row (py ''HGVSp'')"
    and "protein_position \<equiv> get_column_value cm row (py ''Protein_position'')"
    and "amino_acids \<equiv> get_column_value cm row (py ''Amino_acids'')"
  assumes "validate_chromosome (get_column_value cm row (py ''CHROM''))"
    and "validate_position (get_column_value cm row (py ''POS''))"
    and "\<not> startswith (get_column_value cm row (py ''ID'')) (py ''Sniffles2'')"
    and "handle_multiallelic (get_column_value cm row (py ''ALT'')) \<noteq> []"
  shows "(present hgvsp \<and> parse_hgvsp hgvsp = None \<longrightarrow>
            fst (process_row cm row st) = None
            \<and> missing_hgvsp (snd (process_row cm row st)) = missing_hgvsp st
            \<and> errors (snd (process_row cm row st)) = errors st)
       \<and> (\<not> present hgvsp \<and> present protein_position \<and> parse_amino_acids amino_acids \<noteq> None \<longrightarrow>
            fst (process_row cm row st) \<noteq> None
            \<and> missing_hgvsp (snd (process_row cm row st)) = missing_hgvsp st + 1
            \<and> errors (snd (process_row cm row st)) = errors st)
       \<and> (\<not> present hgvsp \<and> (\<not> present protein_position \<or> parse_amino_acids amino_acids = None) \<longrightarrow>
            fst (process_row cm row st) = None
            \<and> missing_hgvsp (snd (process_row cm row st)) = missing_hgvsp st + 1
            \<and> errors (snd (process_row cm row st)) = errors st)
       \<and> (\<forall>r a sep. py_strip r \<noteq> [] \<and> py_strip a \<noteq> [] \<and> (ch CHR ''/'') \<notin> set r
             \<and> (sep = (ch CHR ''/'') \<or> (sep = (ch CHR ''>'') \<and> (ch CHR ''>'') \<notin> set r \<and> (ch CHR ''/'') \<notin> set a))
             \<longrightarrow> parse_amino_acids (r @ sep # a) = Some (py_strip r, py_strip a))"
proof -
  have main: "(present hgvsp \<and> parse_hgvsp hgvsp = None \<longrightarrow>
            fst (process_row cm row st) = None
            \<and> missing_hgvsp (snd (process_row cm row st)) = missing_hgvsp st
            \<and> errors (snd (process_row cm row st)) = errors st)
       \<and> (\<not> present hgvsp \<and> present protein_position \<and> parse_amino_acids amino_acids \<noteq> None \<longrightarrow>
            fst (process_row cm row st) \<noteq> None
            \<and> missing_hgvsp (snd (process_row cm row st)) = missing_hgvsp st + 1
            \<and> errors (snd (process_row cm row st)) = errors st)
       \<and> (\<not> present hgvsp \<and> (\<not> present protein_position \<or> parse_amino_acids amino_acids = None) \<longrightarrow>
            fst (process_row cm row st) = None
            \<and> missing_hgvsp (snd (process_row cm row st)) = missing_hgvsp st + 1
            \<and> errors (snd (process_row cm row st)) = errors st)"
    using assms(4-7) unfolding assms(1-3)
    by (cases rule: process_row_cases[of cm row st]) auto
  with parse_amino_acids_pair show ?thesis by blast
qed

theorem fallback_gate_witness:
  "validate_chromosome (get_column_value std_cm ex_fallback (py ''CHROM''))
   \<and> validate_position (get_column_value std_cm ex_fallback (py ''POS''))
   \<and> \<not> startswith (get_column_value std_cm ex_fallback (py ''ID'')) (py ''Sniffles2'')
   \<and> handle_multiallelic (get_column_value std_cm ex_fallback (py ''ALT'')) \<noteq> []
   \<and> \<not> present (get_column_value std_cm ex_fallback (py ''HGVSp''))
   \<and> present (get_column_value std_cm ex_fallback (py ''Protein_position''))
   \<and> parse_amino_acids (get_column_value std_cm ex_fallback (py ''Amino_acids'')) \<noteq> None
   \<and> fst (process_row std_cm ex_fallback init_stats) \<noteq> None
   \<and> missing_hgvsp (snd (process_row std_cm ex_fallback init_stats)) = missing_hgvsp init_stats + 1
   \<and> errors (snd (process_row std_cm ex_fallback init_stats)) = errors init_stats"
proof -
  have a: "\<not> present (get_column_value std_cm ex_fallback (py ''HGVSp''))
      \<and> present (get_column_value std_cm ex_fallback (py ''Protein_position''))
      \<and> parse_amino_acids (get_column_value std_cm ex_fallback (py ''Amino_acids'')) \<noteq> None"
    by code_simp
  note g = fallback_gate [OF ex_fallback_gates, where st = init_stats]
  note r = g [THEN conjunct2, THEN conjunct1, THEN mp, OF a]
  show ?thesis
    by (intro conjI ex_fallback_gates a [THEN conjunct1] a [THEN conjunct2, THEN conjunct1]
        a [THEN conjunct2, THEN conjunct2] r [THEN conjunct1] r [THEN conjunct2, THEN conjunct1]
        r [THEN conjunct2, THEN conjunct2])
qed

text \<open>
  C1 as stated fails.  The row \<^const>\<open>ex_unparsed\<close> has \<^verbatim>\<open>HGVSp\<close> \<^verbatim>\<open>X:p.Met1?\<close>, which is present
  and matches none of the six shapes, \<^verbatim>\<open>Protein_position\<close> \<^verbatim>\<open>1\<close> and \<^verbatim>\<open>Amino_acids\<close> \<^verbatim>\<open>M/V\<close>: no
  record is emitted, and no counter moves.
\<close>

theorem unparsed_hgvsp_no_fallback:
  "present (get_column_value std_cm ex_unparsed (py ''HGVSp''))
   \<and> parse_hgvsp (get_column_value std_cm ex_unparsed (py ''HGVSp'')) = None
   \<and> present (get_column_value std_cm ex_unparsed (py ''Protein_position''))
   \<and> parse_amino_acids (get_column_value std_cm ex_unparsed (py ''Amino_acids''))
       = Some (py ''M'', py ''V'')
   \<and> process_row std_cm ex_unparsed init_stats = (None, init_stats)"
  by code_simp

text \<open>
  C3.  In the fallback path the \<^verbatim>\<open>_1\<close> aliases carry the two sides of \<^verbatim>\<open>Amino_acids\<close> as they
  are given: for \<^verbatim>\<open>Ala/Thr\<close> they hold the three-letter codes, where the record of the same
  change read from \<^verbatim>\<open>HGVSp\<close> holds \<^verbatim>\<open>A\<close> and \<^verbatim>\<open>T\<close>.
\<close>

theorem fallback_three_letter_as_given:
  "fst (process_row std_cm ex_three_letter init_stats)
     = Some [(py ''internal_id'', py ''var1''), (py ''rsid'', py ''rs123''), (py ''spdi'', py ''1:99:G:A''),
         (py ''hgvsp_3p'', py ''GENE p.Ala446Thr''), (py ''hgvsp_3'', py ''GENE Ala446Thr''),
         (py ''hgvsp_1p'', py ''GENE p.Ala446Thr''), (py ''hgvsp_1'', py ''GENE Ala446Thr'')]
   \<and> alias_value (fst (process_row std_cm ex_primary init_stats)) (py ''hgvsp_1p'')
       = Some (py ''GENE p.A446T'')
   \<and> alias_value (fst (process_row std_cm ex_primary init_stats)) (py ''hgvsp_1'')
       = Some (py ''GENE A446T'')"
  by code_simp

text \<open>
  C8.  Take two rows that agree in every column read other than \<^verbatim>\<open>HGVSp\<close>, the first with
  \<^verbatim>\<open>HGVSp\<close> absent, \<^verbatim>\<open>Protein_position\<close> \<^verbatim>\<open>446\<close> and \<^verbatim>\<open>Amino_acids\<close> \<^verbatim>\<open>A/T\<close>, the second with
  \<^verbatim>\<open>HGVSp\<close> \<^verbatim>\<open>X:p.Ala446Thr\<close>.  Either both are skipped or both give a record, and the two
  records have the same four protein aliases: \<^verbatim>\<open>p.Ala446Thr\<close> and \<^verbatim>\<open>A446T\<close> behind the gene
  symbol.
\<close>

theorem fallback_parity:
  assumes same: "same_but_hgvsp cm row_a row_b"
    and absent: "\<not> present (get_column_value cm row_a (py ''HGVSp''))"
    and pp: "get_column_value cm row_a (py ''Protein_position'') = (py ''446'')"
    and aa: "get_column_value cm row_a (py ''Amino_acids'') = (py ''A/T'')"
    and hp: "get_column_value cm row_b (py ''HGVSp'') = (py ''X:p.Ala446Thr'')"
  shows "(fst (process_row cm row_a st) = None \<longleftrightarrow> fst (process_row cm row_b st') = None)
     \<and> (\<forall>key \<in> set [(py ''hgvsp_3p''), (py ''hgvsp_3''), (py ''hgvsp_1p''), (py ''hgvsp_1'')].
          alias_value (fst (process_row cm row_a st)) key
          = alias_value (fst (process_row cm row_b st')) key)
     \<and> (fst (process_row cm row_b st') \<noteq> None \<longrightarrow>
          alias_value (fst (process_row cm row_b st')) (py ''hgvsp_3p'')
            = Some (get_column_value cm row_b (py ''SYMBOL'') @ (py '' p.Ala446Thr''))
          \<and> alias_value (fst (process_row cm row_b st')) (py ''hgvsp_1'')
            = Some (get_column_value cm row_b (py ''SYMBOL'') @ (py '' A446T'')))"
proof -
  have eqs: "get_column_value cm row_a (py ''CHROM'') = get_column_value cm row_b (py ''CHROM'')"
    "get_column_value cm row_a (py ''POS'') = get_column_value cm row_b (py ''POS'')"
    "get_column_value cm row_a (py ''ID'') = get_column_value cm row_b (py ''ID'')"
    "get_column_value cm row_a (py ''ALT'') = get_column_value cm row_b (py ''ALT'')"
    "get_column_value cm row_a (py ''SYMBOL'') = get_column_value cm row_b (py ''SYMBOL'')"
    "get_column_value cm row_a (py ''REF'') = get_column_value cm row_b (py ''REF'')"
    "get_column_value cm row_a (py ''Existing_variation'')
       = get_column_value cm row_b (py ''Existing_variation'')"
    "get_column_value cm row_a (py ''HGVSc'') = get_column_value cm row_b (py ''HGVSc'')"
    "get_column_value cm row_a (py ''MANE_SELECT'') = get_column_value cm row_b (py ''MANE_SELECT'')"
    using same by (simp_all add: same_but_hgvsp_def other_columns_def)
  have pa: "parse_amino_acids (py ''A/T'') = Some ((py ''A''), (py ''T''))" by code_simp
  have ph: "parse_hgvsp (py ''X:p.Ala446Thr'') = Some ((py ''X''), (py ''446''), (py ''Ala''), (py ''Thr''))" by code_simp
  have cv: "convert_1_to_3 (py ''A'') = (py ''Ala'')" "convert_1_to_3 (py ''T'') = (py ''Thr'')"
    "convert_aa_3_to_1 (py ''Ala'') = (py ''A'')" "convert_aa_3_to_1 (py ''Thr'') = (py ''T'')"
    by code_simp+
  have pr: "present (py ''446'')" "present (py ''X:p.Ala446Thr'')" by (simp_all add: present_def)
  show ?thesis
  proof (cases rule: process_row_cases[of cm row_b st'])
    case chromosome
    with exit_chromosome[of cm row_a st] eqs show ?thesis by (simp add: alias_value_def)
  next
    case position
    with exit_position[of cm row_a st] eqs show ?thesis by (simp add: alias_value_def)
  next
    case sniffles
    with exit_sniffles[of cm row_a st] eqs show ?thesis by (simp add: alias_value_def)
  next
    case no_allele
    with exit_no_allele[of cm row_a st] eqs show ?thesis by (simp add: alias_value_def)
  next
    case (fallback alt0 others p r a)
    with hp pr show ?thesis by simp
  next
    case no_fallback
    with hp pr show ?thesis by simp
  next
    case unparsed
    with hp ph show ?thesis by simp
  next
    case (primary alt0 others p parsed)
    from primary(8) hp ph have parsed: "parsed = ((py ''X''), (py ''446''), (py ''Ala''), (py ''Thr''))" by simp
    have a: "process_row cm row_a st =
         (Some (fallback_variant (get_column_value cm row_a (py ''ID''))
            (extract_rsid (get_column_value cm row_a (py ''Existing_variation'')))
            (py_replace (py ''chr'') [] (get_column_value cm row_a (py ''CHROM'')) @ (py '':'') @ py_str_int (p - 1)
               @ (py '':'') @ get_column_value cm row_a (py ''REF'') @ (py '':'') @ alt0)
            (get_column_value cm row_a (py ''HGVSc'')) (get_column_value cm row_a (py ''MANE_SELECT''))
            (get_column_value cm row_a (py ''SYMBOL'')) (py ''446'') (py ''A'') (py ''T'')),
          (if \<not> truthy (extract_rsid (get_column_value cm row_a (py ''Existing_variation'')))
           then st\<lparr>missing_rsid := missing_rsid st + 1\<rparr> else st)
           \<lparr>missing_hgvsp := missing_hgvsp
              (if \<not> truthy (extract_rsid (get_column_value cm row_a (py ''Existing_variation'')))
               then st\<lparr>missing_rsid := missing_rsid st + 1\<rparr> else st) + 1\<rparr>)"
      using exit_fallback[of cm row_a alt0 others p "py ''A''" "py ''T''" st]
        primary(1-5) eqs absent pp aa pa pr by simp
    show ?thesis
      unfolding a primary(9) parsed
      by (simp add: alias_value_def fallback_variant_aliases primary_variant_aliases cv eqs
          py_append [symmetric])
  qed
qed


theorem fallback_parity_witness:
  "same_but_hgvsp std_cm ex_fallback ex_primary
   \<and> \<not> present (get_column_value std_cm ex_fallback (py ''HGVSp''))
   \<and> get_column_value std_cm ex_fallback (py ''Protein_position'') = py ''446''
   \<and> get_column_value std_cm ex_fallback (py ''Amino_acids'') = py ''A/T''
   \<and> get_column_value std_cm ex_primary (py ''HGVSp'') = py ''X:p.Ala446Thr''
   \<and> alias_value (fst (process_row std_cm ex_fallback init_stats)) (py ''hgvsp_3p'')
       = alias_value (fst (process_row std_cm ex_primary init_stats)) (py ''hgvsp_3p'')
   \<and> alias_value (fst (process_row std_cm ex_fallback init_stats)) (py ''hgvsp_3'')
       = alias_value (fst (process_row std_cm ex_primary init_stats)) (py ''hgvsp_3'')
   \<and> alias_value (fst (process_row std_cm ex_fallback init_stats)) (py ''hgvsp_1p'')
       = alias_value (fst (process_row std_cm ex_primary init_stats)) (py ''hgvsp_1p'')
   \<and> alias_value (fst (process_row std_cm ex_fallback init_stats)) (py ''hgvsp_1'')
       = alias_value (fst (process_row std_cm ex_primary init_stats)) (py ''hgvsp_1'')
   \<and> alias_value (fst (process_row std_cm ex_primary init_stats)) (py ''hgvsp_1'')
       = Some (py ''GENE A446T'')"
proof -
  have same: "same_but_hgvsp std_cm ex_fallback ex_primary"
    by code_simp
  have absent: "\<not> present (get_column_value std_cm ex_fallback (py ''HGVSp''))"
    by code_simp
  have pp: "get_column_value std_cm ex_fallback (py ''Protein_position'') = py ''446''"
    by code_simp
  have aa: "get_column_value std_cm ex_fallback (py ''Amino_acids'') = py ''A/T''"
    by code_simp
  have hp: "get_column_value std_cm ex_primary (py ''HGVSp'') = py ''X:p.Ala446Thr''"
    by code_simp
  have v: "alias_value (fst (process_row std_cm ex_primary init_stats)) (py ''hgvsp_1'')
       = Some (py ''GENE A446T'')"
    by code_simp
  note p = fallback_parity [OF same absent pp aa hp, where st = init_stats and st' = init_stats]
  note k = p [THEN conjunct2, THEN conjunct1]
  have 1: "alias_value (fst (process_row std_cm ex_fallback init_stats)) (py ''hgvsp_3p'')
       = alias_value (fst (process_row std_cm ex_primary init_stats)) (py ''hgvsp_3p'')"
    by (rule k [THEN bspec]) simp
  have 2: "alias_value (fst (process_row std_cm ex_fallback init_stats)) (py ''hgvsp_3'')
       = alias_value (fst (process_row std_cm ex_primary init_stats)) (py ''hgvsp_3'')"
    by (rule k [THEN bspec]) simp
  have 3: "alias_value (fst (process_row std_cm ex_fallback init_stats)) (py ''hgvsp_1p'')
       = alias_value (fst (process_row std_cm ex_primary init_stats)) (py ''hgvsp_1p'')"
    by (rule k [THEN bspec]) simp
  have 4: "alias_value (fst (process_row std_cm ex_fallback init_stats)) (py ''hgvsp_1'')
       = alias_value (fst (process_row std_cm ex_primary init_stats)) (py ''hgvsp_1'')"
    by (rule k [THEN bspec]) simp
  show ?thesis
    by (intro conjI same absent pp aa hp 1 2 3 4 v)
qed

section \<open>SPDI\<close>

lemma py_replace_absent: "\<not> py_in old s \<Longrightarrow> py_replace old new s = s"
  by (induction old new s rule: py_replace.induct) auto

lemma py_replace_prefix:
  assumes "startswith s old" and "old \<noteq> []"
  shows "py_replace old new s = new @ py_replace old new (drop (length old) s)"
proof (cases s)
  case Nil
  with assms show ?thesis by (simp add: startswith_def)
next
  case (Cons c cs)
  with assms show ?thesis by simp
qed

lemma replace_chr_is_prefix_removal:
  assumes "\<not> py_in (py ''chr'') (spec_chrom_without_chr_prefix chrom)"
  shows "py_replace (py ''chr'') [] chrom = spec_chrom_without_chr_prefix chrom"
proof (cases "startswith chrom (py ''chr'')")
  case True
  then have s: "spec_chrom_without_chr_prefix chrom = drop 3 chrom"
    by (simp add: spec_chrom_without_chr_prefix_def)
  have "py_replace (py ''chr'') [] chrom = [] @ py_replace (py ''chr'') [] (drop (length (py ''chr'')) chrom)"
    using True by (rule py_replace_prefix) simp
  also have "\<dots> = py_replace (py ''chr'') [] (drop 3 chrom)" by (simp add: numeral_3_eq_3)
  also have "\<dots> = drop 3 chrom" using assms s by (simp add: py_replace_absent)
  finally show ?thesis using s by simp
next
  case False
  then have s: "spec_chrom_without_chr_prefix chrom = chrom"
    by (simp add: spec_chrom_without_chr_prefix_def)
  with assms show ?thesis by (simp add: py_replace_absent)
qed

lemma set_spec_chrom: "set (spec_chrom_without_chr_prefix chrom) \<subseteq> set chrom"
  by (auto simp: spec_chrom_without_chr_prefix_def dest: in_set_dropD)

lemma py_split_none: "sep \<notin> set a \<Longrightarrow> py_split sep a = [a]"
  by (induction a) auto

lemma py_split_first: "sep \<notin> set a \<Longrightarrow> py_split sep (a @ sep # b) = a # py_split sep b"
  by (induction a) auto

lemma py_split_four:
  assumes "sep \<notin> set a" "sep \<notin> set b" "sep \<notin> set c" "sep \<notin> set d"
  shows "py_split sep (a @ [sep] @ b @ [sep] @ c @ [sep] @ d) = [a, b, c, d]"
  using assms by (simp add: py_split_first py_split_none)

subsection \<open>Numerals\<close>

lemma set_dec_digits: "set (dec_digits n) \<subseteq> {48 .. 57}"
proof (induction n rule: dec_digits.induct)
  case (1 n)
  show ?case
  proof (cases "n < 10")
    case True
    then show ?thesis by (subst dec_digits.simps) (simp add: digit_char_def)
  next
    case False
    have "n mod 10 < 10" by simp
    then have "int (n mod 10) \<le> 9" by linarith
    with False 1 show ?thesis by (subst dec_digits.simps) (auto simp: digit_char_def)
  qed
qed


lemma ascii_digit_decimal:
  assumes "48 \<le> c" and "c \<le> 57"
  shows "decimal_value c = Some (nat (c - 48))"
proof -
  have ds: "decimal_starts = 48 # tl decimal_starts"
    by (simp add: decimal_starts_def)
  have f: "find (\<lambda>z. z \<le> c \<and> c < z + 10) (48 # xs) = Some 48" for xs
    using assms by simp
  have "find (\<lambda>z. z \<le> c \<and> c < z + 10) decimal_starts = Some 48"
    by (subst ds) (rule f)
  then show ?thesis by (simp add: decimal_value_def)
qed

lemma dec_digits_decimal: "list_all is_decimal (dec_digits n)"
  using set_dec_digits[of n] ascii_digit_decimal
  by (auto simp: list_all_iff is_decimal_def)

lemma dec_digits_not_Nil: "dec_digits n \<noteq> []"
  by (subst dec_digits.simps) simp

lemma dec_value_snoc: "dec_value (ds @ [c]) = 10 * dec_value ds + the (decimal_value c)"
  by (simp add: dec_value_def)

lemma dec_value_dec_digits: "dec_value (dec_digits n) = n"
proof (induction n rule: dec_digits.induct)
  case (1 n)
  have d: "the (decimal_value (digit_char k)) = k" if "k < 10" for k
    using that ascii_digit_decimal[of "digit_char k"] by (simp add: digit_char_def)
  show ?case
  proof (cases "n < 10")
    case True
    then have "dec_digits n = [] @ [digit_char n]" by (subst dec_digits.simps) simp
    then have "dec_value (dec_digits n) = 10 * dec_value [] + the (decimal_value (digit_char n))"
      by (simp only: dec_value_snoc)
    with True d show ?thesis by (simp add: dec_value_def)
  next
    case False
    then have "dec_digits n = dec_digits (n div 10) @ [digit_char (n mod 10)]"
      by (subst dec_digits.simps) simp
    then have "dec_value (dec_digits n) = 10 * dec_value (dec_digits (n div 10))
        + the (decimal_value (digit_char (n mod 10)))"
      by (simp only: dec_value_snoc)
    with False 1 d[of "n mod 10"] show ?thesis by simp
  qed
qed

lemma length_dec_digits: "n < 10 ^ k \<Longrightarrow> 0 < k \<Longrightarrow> length (dec_digits n) \<le> k"
proof (induction n arbitrary: k rule: dec_digits.induct)
  case (1 n)
  show ?case
  proof (cases "n < 10")
    case True
    then have "length (dec_digits n) = 1" by (subst dec_digits.simps) simp
    with "1.prems" show ?thesis by simp
  next
    case False
    then have l: "length (dec_digits n) = Suc (length (dec_digits (n div 10)))"
      by (subst dec_digits.simps) simp
    from False "1.prems" have k: "1 < k"
      by (cases "k = 1") auto
    then obtain j where j: "k = Suc j" "0 < j" by (cases k) auto
    from "1.prems"(1) j have "n div 10 < 10 ^ j"
      by (simp add: less_mult_imp_div_less mult.commute)
    from "1.IH"[OF False this j(2)] l j show ?thesis by simp
  qed
qed

lemma dec_value_bound:
  assumes "list_all is_decimal ds"
  shows "dec_value ds < 10 ^ length ds"
  using assms
proof (induction ds rule: rev_induct)
  case Nil
  show ?case by (simp add: dec_value_def)
next
  case (snoc c ds)
  from snoc.prems have d: "list_all is_decimal ds" and c: "is_decimal c" by simp_all
  from c obtain v where v: "decimal_value c = Some v" by (auto simp: is_decimal_def)
  with decimal_value_le_9 have "v \<le> 9" by blast
  moreover from snoc.IH[OF d] have "dec_value ds + 1 \<le> 10 ^ length ds" by simp
  then have "10 * (dec_value ds + 1) \<le> 10 * 10 ^ length ds" by (rule mult_le_mono2)
  ultimately have "10 * dec_value ds + v < 10 * 10 ^ length ds" by simp
  then show ?case by (simp add: dec_value_snoc v)
qed

lemma int_body_decimals: "int_body body \<Longrightarrow> list_all is_decimal (filter (\<lambda>c. c \<noteq> ch CHR ''_'') body)"
proof (induction body rule: int_body.induct)
  case 1
  then show ?case by simp
next
  case (2 c)
  then show ?case by (auto dest: decimal_not_sign)
next
  case (3 c d cs)
  from "3.prems" have c: "is_decimal c" by simp
  then have cn: "c \<noteq> ch CHR ''_''" by (simp add: decimal_not_sign)
  show ?case
  proof (cases "d = ch CHR ''_''")
    case True
    with "3.prems" have "int_body cs" by simp
    from "3.IH"(1)[OF True this] True c cn show ?thesis by simp
  next
    case False
    with "3.prems" have "int_body (d # cs)" by simp
    from "3.IH"(2)[OF False this] c cn show ?thesis by simp
  qed
qed

lemma py_int_positive_bound:
  assumes "py_int s = Some p" and "0 < p"
  shows "nat p < 10 ^ int_max_str_digits"
proof -
  define t where "t = rev (dropWhile is_int_space (rev (dropWhile is_int_space s)))"
  define body where "body = (if t \<noteq> [] \<and> (hd t = ch CHR ''-'' \<or> hd t = ch CHR ''+'') then tl t else t)"
  define digits where "digits = filter (\<lambda>c. c \<noteq> ch CHR ''_'') body"
  from assms(1) have b: "int_body body" and l: "length digits \<le> int_max_str_digits"
    and p: "p = (if t \<noteq> [] \<and> hd t = ch CHR ''-'' then - 1 else 1) * int (dec_value digits)"
    unfolding py_int_def Let_def t_def[symmetric] body_def[symmetric] digits_def[symmetric]
    by (auto split: if_splits)
  from p assms(2) have pv: "p = int (dec_value digits)"
    by (auto split: if_splits)
  from b have "list_all is_decimal digits"
    unfolding digits_def by (rule int_body_decimals)
  then have "dec_value digits < 10 ^ length digits" by (rule dec_value_bound)
  also have "\<dots> \<le> 10 ^ int_max_str_digits"
    using l by (simp add: power_increasing)
  finally show ?thesis using pv by simp
qed

lemma py_int_py_str_int:
  assumes "py_int s = Some p" and "0 < p"
  shows "py_int (py_str_int (p - 1)) = Some (p - 1)"
proof -
  let ?n = "nat (p - 1)"
  have s: "py_str_int (p - 1) = dec_digits ?n"
    using assms(2) by (simp add: py_str_int_def)
  have "?n < 10 ^ int_max_str_digits"
    using py_int_positive_bound[OF assms] assms(2) by simp
  then have "length (dec_digits ?n) \<le> int_max_str_digits"
    by (rule length_dec_digits) (simp add: int_max_str_digits_def)
  with py_int_digits[OF dec_digits_not_Nil dec_digits_decimal, of ?n]
  have "py_int (dec_digits ?n) = Some (int (dec_value (dec_digits ?n)))" by simp
  then show ?thesis using assms(2) by (simp add: s dec_value_dec_digits)
qed


lemma colon_not_in_py_str_int:
  assumes "0 \<le> n"
  shows "ch CHR '':'' \<notin> set (py_str_int n)"
  using assms set_dec_digits[of "nat n"] by (auto simp: py_str_int_def ch_simps)

subsection \<open>The SPDI of an accepted row\<close>

text \<open>
  C5, as the code has it.  Take an accepted row whose chromosome holds \<^verbatim>\<open>chr\<close> at most as its
  prefix.  \<^verbatim>\<open>POS\<close> reads as a positive integer \<open>p\<close>, \<^verbatim>\<open>ALT\<close> has a first allele, and the
  \<^verbatim>\<open>spdi\<close> of the record is the chromosome without the prefix, the decimal numeral of
  \<open>p - 1\<close>, \<^verbatim>\<open>REF\<close> and the first allele, joined by colons.  The numeral reads back as
  \<open>p - 1\<close>.  When neither the chromosome nor \<^verbatim>\<open>REF\<close> nor the first allele holds a colon, the
  colons of \<^verbatim>\<open>spdi\<close> separate exactly these four fields.
\<close>

theorem spdi_of_accepted_row:
  fixes cm row st
  defines "chrom \<equiv> get_column_value cm row (py ''CHROM'')"
    and "pos \<equiv> get_column_value cm row (py ''POS'')"
    and "ref \<equiv> get_column_value cm row (py ''REF'')"
    and "alt \<equiv> get_column_value cm row (py ''ALT'')"
  assumes acc: "fst (process_row cm row st) = Some v"
    and prefix_only: "\<not> py_in (py ''chr'') (spec_chrom_without_chr_prefix chrom)"
  shows "\<exists>p alt0 others.
       py_int pos = Some p \<and> 0 < p \<and> handle_multiallelic alt = alt0 # others
     \<and> alias_value (Some v) (py ''spdi'')
         = Some (spec_chrom_without_chr_prefix chrom @ py '':'' @ py_str_int (p - 1) @ py '':''
                 @ ref @ py '':'' @ alt0)
     \<and> py_int (py_str_int (p - 1)) = Some (p - 1)
     \<and> (ch CHR '':'' \<notin> set chrom \<and> ch CHR '':'' \<notin> set ref \<and> ch CHR '':'' \<notin> set alt0 \<longrightarrow>
          py_split (ch CHR '':'')
            (spec_chrom_without_chr_prefix chrom @ py '':'' @ py_str_int (p - 1) @ py '':''
               @ ref @ py '':'' @ alt0)
          = [spec_chrom_without_chr_prefix chrom, py_str_int (p - 1), ref, alt0])"
proof -
  have rp: "py_replace (py ''chr'') [] chrom = spec_chrom_without_chr_prefix chrom"
    using prefix_only by (rule replace_chr_is_prefix_removal)
  have four: "py_split (ch CHR '':'')
            (spec_chrom_without_chr_prefix chrom @ py '':'' @ py_str_int (p - 1) @ py '':''
               @ ref @ py '':'' @ alt0)
          = [spec_chrom_without_chr_prefix chrom, py_str_int (p - 1), ref, alt0]"
    if "0 < p" "ch CHR '':'' \<notin> set chrom" "ch CHR '':'' \<notin> set ref" "ch CHR '':'' \<notin> set alt0"
    for p alt0
  proof -
    have 1: "ch CHR '':'' \<notin> set (spec_chrom_without_chr_prefix chrom)"
      using that(2) set_spec_chrom[of chrom] by blast
    have 2: "ch CHR '':'' \<notin> set (py_str_int (p - 1))"
      using that(1) by (simp add: colon_not_in_py_str_int)
    have c: "py '':'' = [ch CHR '':'']" by (simp add: py_Cons)
    show ?thesis unfolding c using 1 2 that(3,4) by (rule py_split_four)
  qed
  have main: "\<exists>p alt0 others.
       py_int pos = Some p \<and> 0 < p \<and> handle_multiallelic alt = alt0 # others
     \<and> alias_value (Some v) (py ''spdi'')
         = Some (py_replace (py ''chr'') [] chrom @ py '':'' @ py_str_int (p - 1) @ py '':''
                 @ ref @ py '':'' @ alt0)"
  proof (cases rule: process_row_cases[of cm row st])
    case chromosome
    with acc show ?thesis by simp
  next
    case position
    with acc show ?thesis by simp
  next
    case sniffles
    with acc show ?thesis by simp
  next
    case no_allele
    with acc show ?thesis by simp
  next
    case (fallback alt0 others p r a)
    from fallback(10) acc have "alias_value (Some v) (py ''spdi'')
         = Some (py_replace (py ''chr'') [] chrom @ py '':'' @ py_str_int (p - 1) @ py '':''
                 @ ref @ py '':'' @ alt0)"
      unfolding chrom_def ref_def by (auto simp: alias_value_def fallback_variant_aliases)
    with fallback(4,5,6) show ?thesis unfolding pos_def alt_def by blast
  next
    case no_fallback
    with acc show ?thesis by simp
  next
    case unparsed
    with acc show ?thesis by simp
  next
    case (primary alt0 others p parsed)
    obtain pid po r3 a3 where parsed: "parsed = (pid, po, r3, a3)" by (cases parsed)
    from primary(9) acc have "alias_value (Some v) (py ''spdi'')
         = Some (py_replace (py ''chr'') [] chrom @ py '':'' @ py_str_int (p - 1) @ py '':''
                 @ ref @ py '':'' @ alt0)"
      unfolding chrom_def ref_def parsed by (auto simp: alias_value_def primary_variant_aliases)
    with primary(4,5,6) show ?thesis unfolding pos_def alt_def by blast
  qed
  then obtain p alt0 others where p: "py_int pos = Some p" "0 < p"
    and a: "handle_multiallelic alt = alt0 # others"
    and sp: "alias_value (Some v) (py ''spdi'')
         = Some (spec_chrom_without_chr_prefix chrom @ py '':'' @ py_str_int (p - 1) @ py '':''
                 @ ref @ py '':'' @ alt0)"
    unfolding rp by blast
  from p have rt: "py_int (py_str_int (p - 1)) = Some (p - 1)" by (rule py_int_py_str_int)
  from p a sp rt four[OF p(2)] show ?thesis by blast
qed


theorem spdi_of_accepted_row_witness:
  "fst (process_row std_cm ex_primary init_stats) = Some ex_primary_record
   \<and> \<not> py_in (py ''chr'')
         (spec_chrom_without_chr_prefix (get_column_value std_cm ex_primary (py ''CHROM'')))
   \<and> (\<exists>p alt0 others.
       py_int (get_column_value std_cm ex_primary (py ''POS'')) = Some p \<and> 0 < p
     \<and> handle_multiallelic (get_column_value std_cm ex_primary (py ''ALT'')) = alt0 # others
     \<and> alias_value (Some ex_primary_record) (py ''spdi'')
         = Some (spec_chrom_without_chr_prefix (get_column_value std_cm ex_primary (py ''CHROM''))
                 @ py '':'' @ py_str_int (p - 1) @ py '':''
                 @ get_column_value std_cm ex_primary (py ''REF'') @ py '':'' @ alt0)
     \<and> py_int (py_str_int (p - 1)) = Some (p - 1)
     \<and> (ch CHR '':'' \<notin> set (get_column_value std_cm ex_primary (py ''CHROM''))
          \<and> ch CHR '':'' \<notin> set (get_column_value std_cm ex_primary (py ''REF''))
          \<and> ch CHR '':'' \<notin> set alt0 \<longrightarrow>
          py_split (ch CHR '':'')
            (spec_chrom_without_chr_prefix (get_column_value std_cm ex_primary (py ''CHROM''))
               @ py '':'' @ py_str_int (p - 1) @ py '':''
               @ get_column_value std_cm ex_primary (py ''REF'') @ py '':'' @ alt0)
          = [spec_chrom_without_chr_prefix (get_column_value std_cm ex_primary (py ''CHROM'')),
             py_str_int (p - 1), get_column_value std_cm ex_primary (py ''REF''), alt0]))
   \<and> alias_value (Some ex_primary_record) (py ''spdi'') = Some (py ''1:99:G:A'')
   \<and> py_split (ch CHR '':'') (py ''1:99:G:A'') = [py ''1'', py ''99'', py ''G'', py ''A'']"
proof -
  have acc: "fst (process_row std_cm ex_primary init_stats) = Some ex_primary_record"
    by (simp add: ex_primary_row)
  have prefix_only: "\<not> py_in (py ''chr'')
      (spec_chrom_without_chr_prefix (get_column_value std_cm ex_primary (py ''CHROM'')))"
    by code_simp
  have v: "alias_value (Some ex_primary_record) (py ''spdi'') = Some (py ''1:99:G:A'')"
    by code_simp
  have f: "py_split (ch CHR '':'') (py ''1:99:G:A'') = [py ''1'', py ''99'', py ''G'', py ''A'']"
    by code_simp
  show ?thesis
    by (intro conjI acc prefix_only v f spdi_of_accepted_row [OF acc prefix_only])
qed

text \<open>
  C5 as stated fails: the fields are joined as they are, so a colon inside one of them adds a
  field.  The row \<^const>\<open>ex_breakend\<close> has the \<^verbatim>\<open>ALT\<close> allele \<^verbatim>\<open>G]17:198982]\<close>, a breakend in the
  notation of VCF; it is accepted, and its \<^verbatim>\<open>spdi\<close> has five colon-separated fields.
\<close>

theorem spdi_five_fields:
  "alias_value (fst (process_row std_cm ex_breakend init_stats)) (py ''spdi'')
     = Some (py ''1:99:G:G]17:198982]'')
   \<and> py_split (ch CHR '':'') (py ''1:99:G:G]17:198982]'')
       = [py ''1'', py ''99'', py ''G'', py ''G]17'', py ''198982]'']
   \<and> length (py_split (ch CHR '':'') (py ''1:99:G:G]17:198982]'')) = 5"
  by code_simp

section \<open>The two drivers\<close>

lemma records_of_append: "records_of (xs @ ys) = records_of xs @ records_of ys"
  by (induction xs rule: records_of.induct) simp_all

lemma stream_rows_records:
  "records_of (snd (snd (stream_rows cm rows (st, first, out))))
     = records_of out @ records_in_row_order cm rows"
proof (induction rows arbitrary: st first out)
  case Nil
  show ?case by (simp add: records_in_row_order_def)
next
  case (Cons row rows)
  obtain v st' where r: "process_row cm row (st\<lparr>total_rows := total_rows st + 1\<rparr>) = (v, st')"
    by (cases "process_row cm row (st\<lparr>total_rows := total_rows st + 1\<rparr>)")
  have v: "row_record cm row = v"
    using process_row_record_independent[of cm row init_stats "st\<lparr>total_rows := total_rows st + 1\<rparr>"] r
    by (simp add: row_record_def)
  show ?case
    using r v Cons.IH by (simp add: records_in_row_order_def records_of_append)
qed

lemma buffer_rows_records:
  "snd (buffer_rows cm rows (st, variants)) = variants @ records_in_row_order cm rows"
proof (induction rows arbitrary: st variants)
  case Nil
  show ?case by (simp add: records_in_row_order_def)
next
  case (Cons row rows)
  obtain v st' where r: "process_row cm row (st\<lparr>total_rows := total_rows st + 1\<rparr>) = (v, st')"
    by (cases "process_row cm row (st\<lparr>total_rows := total_rows st + 1\<rparr>)")
  have v: "row_record cm row = v"
    using process_row_record_independent[of cm row init_stats "st\<lparr>total_rows := total_rows st + 1\<rparr>"] r
    by (simp add: row_record_def)
  show ?case
    using r v Cons.IH by (simp add: records_in_row_order_def)
qed

lemma drivers_on_rows:
  assumes "parse_header header = Inr (True, cm)" and "header \<noteq> []"
  shows "fst (convert_file True (header # data) read_fails) = (\<not> read_fails)"
    and "fst (convert_file False (header # data) read_fails) = (\<not> read_fails)"
    and "records_of (fst (snd (convert_file True (header # data) read_fails)))
           = records_in_row_order cm data"
    and "records_of (fst (snd (convert_file False (header # data) read_fails)))
           = (if read_fails then [] else records_in_row_order cm data)"
proof -
  obtain st f out where s: "stream_rows cm data (init_stats, True, [Write [ch CHR ''['', 0x0A]]) = (st, f, out)"
    by (cases "stream_rows cm data (init_stats, True, [Write [ch CHR ''['', 0x0A]])")
  obtain st2 vs where b: "buffer_rows cm data (init_stats, []) = (st2, vs)"
    by (cases "buffer_rows cm data (init_stats, [])")
  from stream_rows_records[of cm data init_stats True "[Write [ch CHR ''['', 0x0A]]"] s
  have so: "records_of out = records_in_row_order cm data" by simp
  from buffer_rows_records[of cm data init_stats "[]"] b
  have bo: "vs = records_in_row_order cm data" by simp
  show "fst (convert_file True (header # data) read_fails) = (\<not> read_fails)"
    using assms s by (simp add: convert_file_def process_file_streaming_def)
  show "fst (convert_file False (header # data) read_fails) = (\<not> read_fails)"
    using assms b by (simp add: convert_file_def)
  show "records_of (fst (snd (convert_file True (header # data) read_fails)))
           = records_in_row_order cm data"
    using assms s so by (simp add: convert_file_def process_file_streaming_def records_of_append)
  show "records_of (fst (snd (convert_file False (header # data) read_fails)))
           = (if read_fails then [] else records_in_row_order cm data)"
    using assms b bo by (simp add: convert_file_def)
qed

lemma drivers_without_rows:
  assumes "file_rows = [] \<or> hd file_rows = [] \<or> (\<forall>cm. parse_header (hd file_rows) \<noteq> Inr (True, cm))"
  shows "convert_file True file_rows read_fails = (False, [], init_stats)"
    and "convert_file False file_rows read_fails = (False, [], init_stats)"
  using assms
  by (auto simp: convert_file_def process_file_streaming_def split: list.splits sum.splits)

text \<open>
  C9, as the code has it.  The two drivers return the same flag.  On a file that is read to
  its end they emit the same records, and with a usable header these are the records of the
  accepted rows in row order.  When reading fails after the header, both return
  \<^verbatim>\<open>False\<close>; the streaming driver has then emitted the records of the rows read before
  the failure, in row order, and the buffered driver none.
\<close>

theorem streaming_equals_buffered:
  "fst (convert_file True file_rows read_fails) = fst (convert_file False file_rows read_fails)
   \<and> records_of (fst (snd (convert_file True file_rows False)))
       = records_of (fst (snd (convert_file False file_rows False)))
   \<and> (\<forall>header data cm. file_rows = header # data \<and> header \<noteq> [] \<and> parse_header header = Inr (True, cm)
        \<longrightarrow> fst (convert_file True file_rows read_fails) = (\<not> read_fails)
          \<and> records_of (fst (snd (convert_file True file_rows read_fails)))
              = records_in_row_order cm data
          \<and> records_of (fst (snd (convert_file False file_rows read_fails)))
              = (if read_fails then [] else records_in_row_order cm data))"
proof (cases "file_rows = [] \<or> hd file_rows = [] \<or> (\<forall>cm. parse_header (hd file_rows) \<noteq> Inr (True, cm))")
  case True
  from drivers_without_rows[OF True] have
    "convert_file True file_rows read_fails = (False, [], init_stats)"
    "convert_file False file_rows read_fails = (False, [], init_stats)"
    "convert_file True file_rows False = (False, [], init_stats)"
    "convert_file False file_rows False = (False, [], init_stats)"
    by simp_all
  with True show ?thesis by auto
next
  case False
  then obtain header data cm where f: "file_rows = header # data" and h: "header \<noteq> []"
    and p: "parse_header header = Inr (True, cm)"
    by (cases file_rows) auto
  note d = drivers_on_rows[OF p h, of data]
  show ?thesis
    unfolding f using d p h by simp
qed

theorem streaming_equals_buffered_witness:
  "[std_header, ex_primary, ex_sniffles, ex_fallback] = std_header # [ex_primary, ex_sniffles, ex_fallback]
   \<and> std_header \<noteq> [] \<and> parse_header std_header = Inr (True, std_cm)
   \<and> fst (convert_file True [std_header, ex_primary, ex_sniffles, ex_fallback] False) = (\<not> False)
   \<and> records_of (fst (snd (convert_file True [std_header, ex_primary, ex_sniffles, ex_fallback] False)))
       = records_in_row_order std_cm [ex_primary, ex_sniffles, ex_fallback]
   \<and> records_of (fst (snd (convert_file False [std_header, ex_primary, ex_sniffles, ex_fallback] False)))
       = (if False then [] else records_in_row_order std_cm [ex_primary, ex_sniffles, ex_fallback])
   \<and> records_in_row_order std_cm [ex_primary, ex_sniffles, ex_fallback]
       = [ex_primary_record, ex_fallback_record]"
proof -
  have e: "[std_header, ex_primary, ex_sniffles, ex_fallback] = std_header # [ex_primary, ex_sniffles, ex_fallback]"
    by simp
  have h: "std_header \<noteq> []"
    by (simp add: std_header_def)
  have o: "records_in_row_order std_cm [ex_primary, ex_sniffles, ex_fallback]
       = [ex_primary_record, ex_fallback_record]"
    by code_simp
  note s = streaming_equals_buffered [of "[std_header, ex_primary, ex_sniffles, ex_fallback]" False,
      THEN conjunct2, THEN conjunct2, THEN spec, THEN spec, THEN spec, THEN mp,
      OF conjI [OF e conjI [OF h std_header_ok]]]
  show ?thesis
    by (intro conjI e h std_header_ok o s [THEN conjunct1] s [THEN conjunct2, THEN conjunct1]
        s [THEN conjunct2, THEN conjunct2])
qed

text \<open>
  C9 as stated fails on a file that cannot be read to its end, such as one whose third line
  holds a field longer than the limit of the \<^verbatim>\<open>csv\<close> module: the reader yields the header and
  the first row and then raises.  The streaming driver has written the record of the first
  row by then; the buffered driver writes nothing.
\<close>

theorem read_failure_streaming_keeps_records:
  "records_of (fst (snd (convert_file True [std_header, ex_primary] True))) = [ex_primary_record]
   \<and> records_of (fst (snd (convert_file False [std_header, ex_primary] True))) = []
   \<and> fst (convert_file True [std_header, ex_primary] True) = False
   \<and> fst (convert_file False [std_header, ex_primary] True) = False"
  by code_simp

lemma set_py_strip: "set (py_strip s) \<subseteq> set s"
proof -
  have "set (py_strip s) = set (dropWhile is_space (rev (dropWhile is_space s)))"
    by (simp add: py_strip_def)
  also have "\<dots> \<subseteq> set (rev (dropWhile is_space s))" by (auto dest: set_dropWhileD)
  also have "\<dots> \<subseteq> set s" by (auto dest: set_dropWhileD)
  finally show ?thesis .
qed

lemma in_dropWhile: "x \<in> set s \<Longrightarrow> \<not> P x \<Longrightarrow> x \<in> set (dropWhile P s)"
  by (induction s) auto

lemma in_py_strip: "x \<in> set s \<Longrightarrow> \<not> is_space x \<Longrightarrow> x \<in> set (py_strip s)"
  by (simp add: py_strip_def in_dropWhile)

lemma py_strip_all_space:
  assumes "\<forall>c \<in> set s. is_space c"
  shows "py_strip s = []"
proof -
  from assms have d: "dropWhile is_space s = []" by simp
  show ?thesis unfolding py_strip_def d by simp
qed

lemma py_split_not_Nil: "py_split sep s \<noteq> []"
  by (induction s) (auto split: list.splits)

lemma py_split_pieces: "w \<in> set (py_split sep s) \<Longrightarrow> set w \<subseteq> set s - {sep}"
proof (induction s arbitrary: w)
  case Nil
  then show ?case by simp
next
  case (Cons c cs)
  show ?case
  proof (cases "c = sep")
    case True
    with Cons show ?thesis by auto
  next
    case False
    obtain x xs where p: "py_split sep cs = x # xs"
      using py_split_not_Nil[of sep cs] by (cases "py_split sep cs") auto
    from Cons.prems False p have "w = c # x \<or> w \<in> set xs" by simp
    then show ?thesis
    proof
      assume "w = c # x"
      moreover have "set x \<subseteq> set cs - {sep}" using Cons.IH[of x] p by simp
      ultimately show ?thesis using False by auto
    next
      assume "w \<in> set xs"
      then have "set w \<subseteq> set cs - {sep}" using Cons.IH[of w] p by simp
      then show ?thesis by auto
    qed
  qed
qed

lemma handle_multiallelic_only_commas:
  assumes "ch CHR '','' \<in> set alt" and "\<forall>c \<in> set alt. c = ch CHR '','' \<or> is_space c"
  shows "handle_multiallelic alt = []"
proof -
  have "py_strip w = []" if "w \<in> set (py_split (ch CHR '','') alt)" for w
  proof -
    from py_split_pieces[OF that] assms(2) have "\<forall>c \<in> set w. is_space c" by auto
    then show ?thesis by (rule py_strip_all_space)
  qed
  then show ?thesis using assms(1) by (simp add: handle_multiallelic_def)
qed

lemma comma_not_space: "\<not> is_space (ch CHR '','')"
  by (simp add: is_space_def in_runs_def space_runs_def ch_simps)

text \<open>
  C10, as the code has it.  Take a row that passes the chromosome and position gates and is
  no Sniffles2 row.  If its \<^verbatim>\<open>ALT\<close> field holds at least one comma and otherwise only commas
  and white space, no allele is left, \<^verbatim>\<open>alt_alleles[0]\<close> raises, and \<^verbatim>\<open>process_row\<close> returns
  \<^verbatim>\<open>None\<close> with \<^verbatim>\<open>errors\<close> one higher; the row is counted under none of \<^verbatim>\<open>missing_hgvsp\<close>,
  \<^verbatim>\<open>invalid_chromosome\<close> and \<^verbatim>\<open>invalid_position\<close>.
\<close>

theorem comma_only_alt_is_error:
  assumes "validate_chromosome (get_column_value cm row (py ''CHROM''))"
    and "validate_position (get_column_value cm row (py ''POS''))"
    and "\<not> startswith (get_column_value cm row (py ''ID'')) (py ''Sniffles2'')"
    and "cm (py ''ALT'') = Some i" and "i < length row"
    and "ch CHR '','' \<in> set (row ! i)"
    and "\<forall>c \<in> set (row ! i). c = ch CHR '','' \<or> is_space c"
  shows "fst (process_row cm row st) = None
     \<and> errors (snd (process_row cm row st)) = errors st + 1
     \<and> missing_hgvsp (snd (process_row cm row st)) = missing_hgvsp st
     \<and> invalid_chromosome (snd (process_row cm row st)) = invalid_chromosome st
     \<and> invalid_position (snd (process_row cm row st)) = invalid_position st"
proof -
  have alt: "get_column_value cm row (py ''ALT'') = py_strip (row ! i)"
    using assms(4,5) by (simp add: get_column_value_def)
  have 1: "ch CHR '','' \<in> set (py_strip (row ! i))"
    using assms(6) comma_not_space by (rule in_py_strip)
  have 2: "\<forall>c \<in> set (py_strip (row ! i)). c = ch CHR '','' \<or> is_space c"
    using assms(7) set_py_strip[of "row ! i"] by blast
  have e: "handle_multiallelic (get_column_value cm row (py ''ALT'')) = []"
    unfolding alt using 1 2 by (rule handle_multiallelic_only_commas)
  show ?thesis
    using exit_no_allele[OF assms(1-3) e, of st] by simp
qed


theorem comma_only_alt_is_error_witness:
  "validate_chromosome (get_column_value std_cm ex_comma_alt (py ''CHROM''))
   \<and> validate_position (get_column_value std_cm ex_comma_alt (py ''POS''))
   \<and> \<not> startswith (get_column_value std_cm ex_comma_alt (py ''ID'')) (py ''Sniffles2'')
   \<and> std_cm (py ''ALT'') = Some 4 \<and> 4 < length ex_comma_alt
   \<and> ch CHR '','' \<in> set (ex_comma_alt ! 4)
   \<and> list_all (\<lambda>c. c = ch CHR '','' \<or> is_space c) (ex_comma_alt ! 4)
   \<and> fst (process_row std_cm ex_comma_alt init_stats) = None
   \<and> errors (snd (process_row std_cm ex_comma_alt init_stats)) = errors init_stats + 1
   \<and> missing_hgvsp (snd (process_row std_cm ex_comma_alt init_stats)) = missing_hgvsp init_stats
   \<and> invalid_chromosome (snd (process_row std_cm ex_comma_alt init_stats)) = invalid_chromosome init_stats
   \<and> invalid_position (snd (process_row std_cm ex_comma_alt init_stats)) = invalid_position init_stats"
proof -
  have g1: "validate_chromosome (get_column_value std_cm ex_comma_alt (py ''CHROM''))"
    by code_simp
  have g2: "validate_position (get_column_value std_cm ex_comma_alt (py ''POS''))"
    by code_simp
  have g3: "\<not> startswith (get_column_value std_cm ex_comma_alt (py ''ID'')) (py ''Sniffles2'')"
    by code_simp
  have i: "std_cm (py ''ALT'') = Some 4"
    by code_simp
  have l: "4 < length ex_comma_alt"
    by code_simp
  have c: "ch CHR '','' \<in> set (ex_comma_alt ! 4)"
    by code_simp
  have a: "list_all (\<lambda>c. c = ch CHR '','' \<or> is_space c) (ex_comma_alt ! 4)"
    by code_simp
  from a have b: "\<forall>c \<in> set (ex_comma_alt ! 4). c = ch CHR '','' \<or> is_space c"
    by (simp add: list_all_iff)
  note r = comma_only_alt_is_error [OF g1 g2 g3 i l c b, where st = init_stats]
  show ?thesis
    by (intro conjI g1 g2 g3 i l c a r [THEN conjunct1] r [THEN conjunct2, THEN conjunct1]
        r [THEN conjunct2, THEN conjunct2, THEN conjunct1]
        r [THEN conjunct2, THEN conjunct2, THEN conjunct2, THEN conjunct1]
        r [THEN conjunct2, THEN conjunct2, THEN conjunct2, THEN conjunct2])
qed

text \<open>
  C10 as stated fails for white space alone: an \<^verbatim>\<open>ALT\<close> field without a comma is not split,
  so the blank field of \<^const>\<open>ex_blank_alt\<close> is taken as one empty allele, nothing is raised, and
  the row is emitted with an \<^verbatim>\<open>spdi\<close> that ends in a colon; \<^verbatim>\<open>errors\<close> stays as it is.
\<close>

theorem blank_alt_is_no_error:
  "ex_blank_alt ! 4 = py '' '' \<and> is_space (ch CHR '' '')
   \<and> process_row std_cm ex_blank_alt init_stats
       = (Some [(py ''internal_id'', py ''var1''), (py ''rsid'', py ''rs123''), (py ''spdi'', py ''1:99:G:''),
            (py ''hgvs_full'', py ''GENE:p.Ala446Thr''),
            (py ''hgvsp_3p'', py ''GENE p.Ala446Thr''), (py ''hgvsp_3'', py ''GENE Ala446Thr''),
            (py ''hgvsp_1p'', py ''GENE p.A446T''), (py ''hgvsp_1'', py ''GENE A446T'')],
          init_stats)"
  by code_simp

end
